(* ===== verification/Prelude.thy ===== *)
theory Prelude
  imports Complex_Main
begin

text \<open>
  Shared vocabulary of the development: Python's exceptions as a datatype, results of
  fallible code as the sum type \<open>py_error + 'a\<close> (\<open>Inl\<close> is the raised exception),
  the sequencing of fallible steps (\<open>py_bind\<close>) and of a list comprehension whose body may
  raise (\<open>py_mapM\<close>), two-dimensional arrays as lists of rows (row = channel, column =
  frame), and the generic list lemmas the component theories share.
\<close>

named_theorems py_simps "evaluation rules of the Python/numpy primitives"

section \<open>Python exceptions and fallible results\<close>

datatype py_error =
    AssertionError string
  | ValueError string
  | IndexError string
  | KeyError string
  | TypeError string
  | UnboundLocalError string
  | ZeroDivisionError string
  | NotImplementedError
  | GenericException string

type_synonym 'a py = "py_error + 'a"

type_synonym chan_id = int

text \<open>A two-dimensional numpy array, stored row by row: \<open>m ! c ! f\<close> is \<open>m[c, f]\<close>.\<close>

type_synonym 'a matrix = "'a list list"

fun py_bind :: "'a py \<Rightarrow> ('a \<Rightarrow> 'b py) \<Rightarrow> 'b py" where
  "py_bind (Inl e) f = Inl e"
| "py_bind (Inr x) f = f x"

text \<open>A list comprehension \<open>[f(x) for x in xs]\<close> whose body may raise: the first
  exception stops it.\<close>

fun py_mapM :: "('a \<Rightarrow> 'b py) \<Rightarrow> 'a list \<Rightarrow> 'b list py" where
  "py_mapM f [] = Inr []"
| "py_mapM f (x # xs) =
     (case f x of
        Inl e \<Rightarrow> Inl e
      | Inr y \<Rightarrow> (case py_mapM f xs of Inl e \<Rightarrow> Inl e | Inr ys \<Rightarrow> Inr (y # ys)))"

text \<open>numpy's \<open>arr.shape[1]\<close> of a list of rows (the length of the first row).\<close>

definition np_ncols :: "'a matrix \<Rightarrow> nat" where
  "np_ncols m = (case m of [] \<Rightarrow> 0 | r # _ \<Rightarrow> length r)"

definition rectangular :: "nat \<Rightarrow> 'a matrix \<Rightarrow> bool" where
  "rectangular n m \<longleftrightarrow> list_all (\<lambda>r. length r = n) m"

text \<open>Elementwise arithmetic on an array (\<open>arr * g\<close>, \<open>arr - k\<close>).\<close>

definition np_map :: "('a \<Rightarrow> 'b) \<Rightarrow> 'a matrix \<Rightarrow> 'b matrix" where
  "np_map f m = map (map f) m"

section \<open>Lemmas shared by the components\<close>

lemma py_bind_eq_Inr [simp]:
  "py_bind r f = Inr y \<longleftrightarrow> (\<exists>x. r = Inr x \<and> f x = Inr y)"
  by (cases r) auto

lemma py_bind_Inr_left [simp]: "py_bind (Inr x) f = f x"
  by simp

lemma py_mapM_Inr_iff:
  "py_mapM f xs = Inr ys \<longleftrightarrow> list_all2 (\<lambda>x y. f x = Inr y) xs ys"
proof (induction xs arbitrary: ys)
  case Nil
  then show ?case by auto
next
  case (Cons x xs)
  show ?case
    by (cases ys) (auto simp: Cons.IH [symmetric] split: sum.splits)
qed

lemma py_mapM_map:
  assumes "\<And>x. x \<in> set xs \<Longrightarrow> f x = Inr (g x)"
  shows "py_mapM f xs = Inr (map g xs)"
  using assms by (induction xs) auto

lemma py_mapM_first_error:
  assumes "\<And>x. x \<in> set xs \<Longrightarrow> (\<exists>y. f x = Inr y) \<or> f x = Inl e"
    and "\<exists>x \<in> set xs. f x = Inl e"
  shows "py_mapM f xs = Inl e"
  using assms
proof (induction xs)
  case Nil
  then show ?case by simp
next
  case (Cons x xs)
  show ?case
  proof (cases "f x = Inl e")
    case True
    then show ?thesis by simp
  next
    case False
    with Cons.prems(1) obtain y where y: "f x = Inr y" by auto
    with Cons.prems have "py_mapM f xs = Inl e" by (intro Cons.IH) auto
    with y show ?thesis by simp
  qed
qed

lemma py_mapM_length:
  "py_mapM f xs = Inr ys \<Longrightarrow> length ys = length xs"
  by (auto simp: py_mapM_Inr_iff dest: list_all2_lengthD)

lemma length_gt_2_Cons:
  assumes "2 < length xs"
  obtains a b c ys where "xs = a # b # c # ys"
proof -
  have "Suc (Suc (Suc 0)) \<le> length xs" using assms by simp
  then show ?thesis
    using that by (auto simp: Suc_le_length_iff)
qed

lemma card_set_length_iff: "card (set xs) = length xs \<longleftrightarrow> distinct xs"
  using card_distinct distinct_card by blast

lemma rectangular_Cons [simp]:
  "rectangular n (r # m) \<longleftrightarrow> length r = n \<and> rectangular n m"
  by (simp add: rectangular_def)

lemma rectangular_Nil [simp]: "rectangular n []"
  by (simp add: rectangular_def)

lemma rectangular_nth:
  "rectangular n m \<Longrightarrow> i < length m \<Longrightarrow> length (m ! i) = n"
  by (simp add: rectangular_def list_all_length)

lemma rectangular_map:
  "(\<And>r. r \<in> set m \<Longrightarrow> length (f r) = n) \<Longrightarrow> rectangular n (map f m)"
  by (simp add: rectangular_def list_all_iff)

lemma np_ncols_rectangular:
  "rectangular n m \<Longrightarrow> m \<noteq> [] \<Longrightarrow> np_ncols m = n"
  by (cases m) (auto simp: np_ncols_def)

lemma np_map_np_map [simp]: "np_map f (np_map g m) = np_map (f \<circ> g) m"
  by (simp add: np_map_def)

lemma np_map_eq_Nil [simp]: "np_map f m = [] \<longleftrightarrow> m = []"
  by (simp add: np_map_def)

lemma np_map_shape [simp]:
  "length (np_map f m) = length m"
  "i < length m \<Longrightarrow> length (np_map f m ! i) = length (m ! i)"
  by (simp_all add: np_map_def)

lemma rectangular_np_map [simp]: "rectangular n (np_map f m) = rectangular n m"
  by (simp add: np_map_def rectangular_def list_all_iff)

lemma rectangular_np_ncols: "rectangular n m \<Longrightarrow> rectangular (np_ncols m) m"
  by (cases m) (simp_all add: np_ncols_def)

lemma rectangular_subset: "rectangular n m \<Longrightarrow> set r \<subseteq> set m \<Longrightarrow> rectangular n r"
  by (auto simp: rectangular_def list_all_iff)

lemma map_sum_eq_Inr_iff: "map_sum f g x = Inr y \<longleftrightarrow> (\<exists>z. x = Inr z \<and> y = g z)"
  by (cases x) auto

lemma np_map_id [simp]: "np_map id m = m" "np_map (\<lambda>x. x) m = m"
  by (simp_all add: np_map_def)

lemma np_ncols_np_map [simp]: "np_ncols (np_map f m) = np_ncols m"
  by (cases m) (simp_all add: np_ncols_def np_map_def)

lemma py_bind_Inr_right [simp]: "py_bind r Inr = r"
  by (cases r) simp_all

lemma map_sum_py_bind: "map_sum id g (py_bind r f) = py_bind r (\<lambda>x. map_sum id g (f x))"
  by (cases r) simp_all

lemma rectangular_take: "rectangular n m \<Longrightarrow> rectangular n (take k m)"
  by (auto simp: rectangular_def list_all_iff dest: in_set_takeD)

text \<open>Row-major and column-major flattening: blocks of equal length \<open>k\<close> put the
  element \<open>c\<close> of block \<open>f\<close> at position \<open>f * k + c\<close>.\<close>

lemma length_concat_blocks:
  "(\<And>i. i < n \<Longrightarrow> length (g i) = k) \<Longrightarrow> length (concat (map g [0..<n])) = n * k"
  by (induction n) auto

lemma nth_concat_blocks:
  assumes "\<And>i. i < n \<Longrightarrow> length (g i) = k" "f < n" "c < k"
  shows "concat (map g [0..<n]) ! (f * k + c) = g f ! c"
  using assms
proof (induction n)
  case 0
  then show ?case by simp
next
  case (Suc n)
  have len: "length (concat (map g [0..<n])) = n * k"
    using Suc.prems(1) by (intro length_concat_blocks) simp
  show ?case
  proof (cases "f < n")
    case True
    have "f * k + c < Suc f * k" using Suc.prems(3) by simp
    also have "\<dots> \<le> n * k" using True by (intro mult_le_mono1) simp
    finally show ?thesis
      using True Suc by (simp add: nth_append len)
  next
    case False
    then have "f = n" using Suc.prems(2) by simp
    then show ?thesis
      using len by (simp add: nth_append)
  qed
qed

lemma index_in_blocks: "c < k \<Longrightarrow> f < n \<Longrightarrow> f * k + c < n * (k::nat)"
proof -
  assume "c < k" "f < n"
  then have "f * k + c < Suc f * k" by simp
  also have "\<dots> \<le> n * k" using \<open>f < n\<close> by (intro mult_le_mono1) simp
  finally show ?thesis .
qed

text \<open>\<open>np.transpose\<close> of a rectangular matrix.\<close>

lemma transpose_rectangular:
  assumes "rectangular n m" "m \<noteq> []"
  shows "transpose m = map (\<lambda>f. map (\<lambda>r. r ! f) m) [0..<n]"
proof -
  have len: "length (transpose m) = n"
    using assms
  proof (induction m)
    case Nil
    then show ?case by simp
  next
    case (Cons a m)
    then show ?case by (cases "m = []") (auto simp: length_transpose)
  qed
  show ?thesis
  proof (rule nth_equalityI)
    show "length (transpose m) = length (map (\<lambda>f. map (\<lambda>r. r ! f) m) [0..<n])"
      using len by simp
  next
    fix f assume "f < length (transpose m)"
    then have f: "f < n" using len by simp
    have "[x\<leftarrow>m . f < length x] = m"
      using assms f by (simp add: rectangular_def list_all_iff)
    then show "transpose m ! f = map (\<lambda>f. map (\<lambda>r. r ! f) m) [0..<n] ! f"
      using f len by (simp add: nth_transpose)
  qed
qed

lemma map_upt_nth: "map (\<lambda>i. f (xs ! i)) [0..<length xs] = map f xs"
  by (rule nth_equalityI) auto

end
