(* ===== verification/PyLists.thy ===== *)
theory PyLists
  imports Prelude
begin

text \<open>
  The list and array primitives the extractors call, with Python's and numpy's semantics:
  slicing \<open>xs[a:b]\<close> (negative bounds count from the end, bounds are clamped, an empty
  range gives the empty list), \<open>list.index\<close> (raises \<open>ValueError\<close> when the value is
  absent), numpy fancy indexing of rows \<open>m[idx, :]\<close> (raises \<open>IndexError\<close> out of
  range, negative indices count from the end) and the column slice \<open>m[:, a:b]\<close>.
\<close>

section \<open>Slicing\<close>

definition py_slice_bound :: "int \<Rightarrow> nat \<Rightarrow> nat" where
  "py_slice_bound i n = (if i < 0 then nat (i + int n) else min (nat i) n)"

definition py_slice :: "int \<Rightarrow> int \<Rightarrow> 'a list \<Rightarrow> 'a list" where
  "py_slice a b xs =
     (let n = length xs; lo = py_slice_bound a n; hi = py_slice_bound b n
      in take (hi - lo) (drop lo xs))"

text \<open>\<open>m[:, a:b]\<close>: the same slice of every row.\<close>

definition np_cols :: "int \<Rightarrow> int \<Rightarrow> 'a matrix \<Rightarrow> 'a matrix" where
  "np_cols a b m = map (py_slice a b) m"

section \<open>\<open>list.index\<close>\<close>

text \<open>The position of the first occurrence (the value \<open>list.index\<close> returns when it
  does not raise).\<close>

definition first_pos :: "'a list \<Rightarrow> 'a \<Rightarrow> nat" where
  "first_pos xs x = length (takeWhile (\<lambda>y. y \<noteq> x) xs)"

fun py_index :: "'a list \<Rightarrow> 'a \<Rightarrow> nat py" where
  "py_index [] x = Inl (ValueError ''x is not in list'')"
| "py_index (y # ys) x = (if y = x then Inr 0 else py_bind (py_index ys x) (\<lambda>i. Inr (Suc i)))"

section \<open>Fancy indexing of rows\<close>

definition np_index_ok :: "nat \<Rightarrow> int \<Rightarrow> bool" where
  "np_index_ok n i \<longleftrightarrow> - int n \<le> i \<and> i < int n"

definition np_norm_index :: "nat \<Rightarrow> int \<Rightarrow> nat" where
  "np_norm_index n i = nat (if i < 0 then i + int n else i)"

text \<open>\<open>m[i]\<close> for an integer \<open>i\<close>: one row.\<close>

definition np_row :: "'a matrix \<Rightarrow> int \<Rightarrow> 'a list py" where
  "np_row m i =
     (if np_index_ok (length m) i then Inr (m ! np_norm_index (length m) i)
      else Inl (IndexError ''index out of bounds for axis 0''))"

text \<open>\<open>m[idx, :]\<close> for a list \<open>idx\<close>: the rows in the order of \<open>idx\<close>; numpy checks
  every index before it builds the result.\<close>

definition np_take_rows :: "'a matrix \<Rightarrow> int list \<Rightarrow> 'a matrix py" where
  "np_take_rows m idx =
     (if list_all (np_index_ok (length m)) idx
      then Inr (map (\<lambda>i. m ! np_norm_index (length m) i) idx)
      else Inl (IndexError ''index out of bounds for axis 0''))"

section \<open>Lemmas\<close>

lemma py_slice_nonneg:
  assumes "0 \<le> a" "0 \<le> b"
  shows "py_slice a b xs = take (nat b - nat a) (drop (nat a) xs)"
proof (cases "nat a \<le> length xs")
  case True
  then show ?thesis
    using assms by (simp add: py_slice_def py_slice_bound_def Let_def min_def)
next
  case False
  then show ?thesis
    using assms by (simp add: py_slice_def py_slice_bound_def Let_def min_def)
qed

lemma length_py_slice:
  "0 \<le> a \<Longrightarrow> a \<le> b \<Longrightarrow> b \<le> int (length xs) \<Longrightarrow> length (py_slice a b xs) = nat (b - a)"
  by (simp add: py_slice_nonneg nat_diff_distrib)

lemma length_py_slice_le:
  "0 \<le> a \<Longrightarrow> 0 \<le> b \<Longrightarrow> length (py_slice a b xs) \<le> nat b - nat a"
  by (simp add: py_slice_nonneg)

lemma nth_py_slice:
  "0 \<le> a \<Longrightarrow> 0 \<le> b \<Longrightarrow> i < length (py_slice a b xs) \<Longrightarrow> py_slice a b xs ! i = xs ! (nat a + i)"
proof -
  assume "0 \<le> a" "0 \<le> b" "i < length (py_slice a b xs)"
  then have "nat a \<le> length xs" "py_slice a b xs = take (nat b - nat a) (drop (nat a) xs)"
    by (auto simp: py_slice_nonneg)
  with \<open>i < length (py_slice a b xs)\<close> show ?thesis by simp
qed

lemma py_slice_full [simp]: "py_slice 0 (int (length xs)) xs = xs"
  by (simp add: py_slice_def py_slice_bound_def)

lemma py_slice_map: "py_slice a b (map f xs) = map f (py_slice a b xs)"
  by (simp add: py_slice_def Let_def take_map drop_map)

lemma py_slice_append_adjacent:
  assumes "0 \<le> a" "a \<le> b" "b \<le> c"
  shows "py_slice a b xs @ py_slice b c xs = py_slice a c xs"
proof -
  have "take (nat b - nat a) (drop (nat a) xs) @ take (nat c - nat b) (drop (nat b) xs)
        = take (nat c - nat a) (drop (nat a) xs)"
  proof -
    have db: "drop (nat b) xs = drop (nat b - nat a) (drop (nat a) xs)"
      using assms by (simp add: add.commute)
    have "nat c - nat a = (nat b - nat a) + (nat c - nat b)"
      using assms by simp
    then show ?thesis by (simp only: db take_add)
  qed
  then show ?thesis
    using assms by (simp add: py_slice_nonneg)
qed

lemma np_cols_full:
  "rectangular n m \<Longrightarrow> np_cols 0 (int n) m = m"
  by (induction m) (auto simp: np_cols_def)

lemma np_cols_shape:
  assumes "rectangular n m" "0 \<le> a" "a \<le> b" "b \<le> int n"
  shows "rectangular (nat (b - a)) (np_cols a b m)"
  using assms by (induction m) (auto simp: np_cols_def length_py_slice)

lemma length_np_cols [simp]: "length (np_cols a b m) = length m"
  by (simp add: np_cols_def)

text \<open>A slice depends on its bounds only through their normalisation: a negative bound
  counts from the end, a bound past the end is the end.\<close>

lemma py_slice_bound_le: "py_slice_bound i n \<le> n"
  by (simp add: py_slice_bound_def nat_le_iff)

lemma py_slice_bound_int: "py_slice_bound (int k) n = min k n"
  by (simp add: py_slice_bound_def)

lemma py_slice_normal:
  "length xs = n \<Longrightarrow> py_slice a b xs = py_slice (int (py_slice_bound a n)) (int (py_slice_bound b n)) xs"
  using py_slice_bound_le [of a n] py_slice_bound_le [of b n]
  by (simp only: py_slice_def Let_def py_slice_bound_int min_absorb1)

lemma np_cols_normal:
  "rectangular n m \<Longrightarrow> np_cols a b m = np_cols (int (py_slice_bound a n)) (int (py_slice_bound b n)) m"
  by (auto simp: np_cols_def rectangular_def list_all_iff intro!: map_cong py_slice_normal)

lemma np_cols_np_map: "np_cols a b (np_map f m) = np_map f (np_cols a b m)"
  by (simp add: np_cols_def np_map_def py_slice_map)

lemma first_pos_bound: "x \<in> set xs \<Longrightarrow> first_pos xs x < length xs"
  by (induction xs) (auto simp: first_pos_def)

lemma nth_first_pos: "x \<in> set xs \<Longrightarrow> xs ! first_pos xs x = x"
  by (induction xs) (auto simp: first_pos_def)

lemma first_pos_le: "i < length xs \<Longrightarrow> xs ! i = x \<Longrightarrow> first_pos xs x \<le> i"
proof (induction xs arbitrary: i)
  case Nil
  then show ?case by simp
next
  case (Cons y ys)
  then show ?case
    by (cases i) (auto simp: first_pos_def)
qed

lemma first_pos_nth_distinct:
  "distinct xs \<Longrightarrow> i < length xs \<Longrightarrow> first_pos xs (xs ! i) = i"
proof (induction xs arbitrary: i)
  case Nil
  then show ?case by simp
next
  case (Cons y ys)
  then show ?case
    by (cases i) (auto simp: first_pos_def)
qed

lemma py_index_eq:
  "py_index xs x =
     (if x \<in> set xs then Inr (first_pos xs x) else Inl (ValueError ''x is not in list''))"
  by (induction xs) (auto simp: first_pos_def)

lemma np_take_rows_nat:
  assumes "\<And>i. i \<in> set idx \<Longrightarrow> i < length m"
  shows "np_take_rows m (map int idx) = Inr (map (\<lambda>i. m ! i) idx)"
  using assms by (simp add: np_take_rows_def np_index_ok_def np_norm_index_def list_all_iff)

lemma np_row_nat:
  "i < length m \<Longrightarrow> np_row m (int i) = Inr (m ! i)"
  by (simp add: np_row_def np_index_ok_def np_norm_index_def)

lemma np_norm_index_bound: "np_index_ok n i \<Longrightarrow> np_norm_index n i < n"
  by (auto simp: np_index_ok_def np_norm_index_def)

text \<open>Fancy indexing returns one row per index, each a row of the array.\<close>

lemma np_take_rows_Inr:
  "np_take_rows m idx = Inr r \<Longrightarrow> length r = length idx \<and> set r \<subseteq> set m"
  by (auto simp: np_take_rows_def list_all_iff np_norm_index_bound split: if_splits)

lemma take_rows_cols_shape:
  assumes "np_take_rows m idx = Inr r" "rectangular n m" "0 \<le> a" "a \<le> b" "b \<le> int n"
  shows "length (np_cols a b r) = length idx \<and> rectangular (nat (b - a)) (np_cols a b r)"
proof -
  have "length r = length idx" "rectangular n r"
    using np_take_rows_Inr [OF assms(1)] assms(2) rectangular_subset by blast+
  then show ?thesis using np_cols_shape [OF _ assms(3-5)] by simp
qed

lemma take_rows_cols_normal:
  assumes "rectangular n m"
  shows "map_sum id (\<lambda>r. g (np_cols a b r)) (np_take_rows m idx)
         = map_sum id (\<lambda>r. g (np_cols (int (py_slice_bound a n)) (int (py_slice_bound b n)) r)) (np_take_rows m idx)"
proof (cases "np_take_rows m idx")
  case (Inr r)
  then have "rectangular n r" using np_take_rows_Inr [OF Inr] assms rectangular_subset by blast
  then show ?thesis using Inr np_cols_normal [of n r a b] by simp
qed simp

lemma np_take_rows_cols:
  "np_take_rows (np_cols a b m) idx = map_sum id (np_cols a b) (np_take_rows m idx)"
  by (auto simp: np_take_rows_def np_cols_def list_all_iff np_norm_index_bound)

lemma np_take_rows_np_map:
  "np_take_rows (np_map f m) idx = map_sum id (np_map f) (np_take_rows m idx)"
  by (auto simp: np_take_rows_def np_map_def list_all_iff np_norm_index_bound)

lemma py_index_upto: "c \<in> set (map int [0..<n]) \<Longrightarrow> py_index (map int [0..<n]) c = Inr (nat c)"
proof -
  assume c: "c \<in> set (map int [0..<n])"
  then obtain i where i: "i < n" "c = int i" by auto
  have "first_pos (map int [0..<n]) (map int [0..<n] ! i) = i"
    using i by (intro first_pos_nth_distinct) (simp_all add: distinct_map inj_on_def)
  then show ?thesis
    using c i by (simp add: py_index_eq)
qed

lemma first_pos_upto: "c \<in> set (map int [0..<n]) \<Longrightarrow> first_pos (map int [0..<n]) c = nat c"
  using py_index_upto [of c n] by (simp add: py_index_eq)

lemmas py_list_simps [py_simps] = py_index_eq np_take_rows_nat np_row_nat py_slice_full

end
