(* ===== verification/PyStrings.thy ===== *)
theory PyStrings
  imports PyLists
begin

text \<open>
  The string primitives the extractors call, over \<open>string\<close> (byte strings; the metadata
  files and dtype names are ASCII): \<open>str.startswith\<close>, \<open>str.find\<close>, the substring test
  \<open>p in s\<close>, \<open>str.split(sep)\<close> with a one-character separator, \<open>str.strip()\<close>,
  Python's \<open>int(s)\<close> on a decimal literal, and \<open>str(n)\<close> for integers, with the
  print/parse round trip that ties the last two together.
\<close>

section \<open>Searching\<close>

definition py_startswith :: "string \<Rightarrow> string \<Rightarrow> bool" where
  "py_startswith p s \<longleftrightarrow> take (length p) s = p"

fun py_find_from :: "string \<Rightarrow> string \<Rightarrow> nat \<Rightarrow> int" where
  "py_find_from [] p k = (if p = [] then int k else -1)"
| "py_find_from (c # cs) p k =
     (if py_startswith p (c # cs) then int k else py_find_from cs p (Suc k))"

text \<open>\<open>s.find(p)\<close>: the first position of \<open>p\<close> in \<open>s\<close>, or \<open>-1\<close>.\<close>

definition py_find :: "string \<Rightarrow> string \<Rightarrow> int" where
  "py_find s p = py_find_from s p 0"

text \<open>\<open>p in s\<close>.\<close>

definition py_contains :: "string \<Rightarrow> string \<Rightarrow> bool" where
  "py_contains s p \<longleftrightarrow> 0 \<le> py_find s p"

section \<open>Splitting and stripping\<close>

text \<open>\<open>s.split(c)\<close> for a one-character separator: never empty; \<open>k\<close> separators give
  \<open>k + 1\<close> pieces.\<close>

fun py_split :: "char \<Rightarrow> string \<Rightarrow> string list" where
  "py_split c [] = [[]]"
| "py_split c (x # xs) =
     (if x = c then [] # py_split c xs
      else (case py_split c xs of [] \<Rightarrow> [[x]] | w # ws \<Rightarrow> (x # w) # ws))"

definition py_whitespace :: "char \<Rightarrow> bool" where
  "py_whitespace c \<longleftrightarrow> c \<in> set [CHR '' '', CHR 0x09, CHR 0x0A, CHR 0x0B, CHR 0x0C, CHR 0x0D]"

definition py_strip :: "string \<Rightarrow> string" where
  "py_strip s = rev (dropWhile py_whitespace (rev (dropWhile py_whitespace s)))"

text \<open>Python's negative list index \<open>xs[-1]\<close>, \<open>xs[-2]\<close>: \<open>IndexError\<close> when too short.\<close>

definition py_nth_from_end :: "nat \<Rightarrow> 'a list \<Rightarrow> 'a py" where
  "py_nth_from_end k xs =
     (if 0 < k \<and> k \<le> length xs then Inr (xs ! (length xs - k))
      else Inl (IndexError ''list index out of range''))"

definition py_nth :: "nat \<Rightarrow> 'a list \<Rightarrow> 'a py" where
  "py_nth k xs = (if k < length xs then Inr (xs ! k) else Inl (IndexError ''list index out of range''))"

section \<open>\<open>int(s)\<close>\<close>

definition is_digit :: "char \<Rightarrow> bool" where
  "is_digit c \<longleftrightarrow> c \<in> set ''0123456789''"

definition digit_val :: "char \<Rightarrow> nat" where
  "digit_val c = of_char c - 48"

text \<open>The digits of a decimal literal after its first digit: a single underscore may
  separate two digits (PEP 515).\<close>

fun dec_digits :: "nat \<Rightarrow> string \<Rightarrow> nat option" where
  "dec_digits acc [] = Some acc"
| "dec_digits acc (c # cs) =
     (if is_digit c then dec_digits (10 * acc + digit_val c) cs
      else if c = CHR ''_'' then
        (case cs of
           d # ds \<Rightarrow> if is_digit d then dec_digits (10 * acc + digit_val d) ds else None
         | [] \<Rightarrow> None)
      else None)"

definition dec_literal :: "string \<Rightarrow> nat option" where
  "dec_literal s = (case s of c # cs \<Rightarrow> if is_digit c then dec_digits (digit_val c) cs else None | [] \<Rightarrow> None)"

definition py_int :: "string \<Rightarrow> int py" where
  "py_int s =
     (let t = py_strip s;
          r = (case t of
                 c # cs \<Rightarrow>
                   if c = CHR ''-'' then map_option (\<lambda>n. - int n) (dec_literal cs)
                   else if c = CHR ''+'' then map_option int (dec_literal cs)
                   else map_option int (dec_literal t)
               | [] \<Rightarrow> None)
      in case r of None \<Rightarrow> Inl (ValueError ''invalid literal for int() with base 10'') | Some n \<Rightarrow> Inr n)"

section \<open>\<open>str(n)\<close>\<close>

definition digit_char :: "nat \<Rightarrow> char" where
  "digit_char d = ''0123456789'' ! d"

fun show_nat :: "nat \<Rightarrow> string" where
  "show_nat n = (if n < 10 then [digit_char n] else show_nat (n div 10) @ [digit_char (n mod 10)])"

definition py_str_int :: "int \<Rightarrow> string" where
  "py_str_int i = (if i < 0 then CHR ''-'' # show_nat (nat (- i)) else show_nat (nat i))"

section \<open>\<open>float(s)\<close>: which literals it accepts\<close>

definition is_digits :: "string \<Rightarrow> bool" where
  "is_digits s \<longleftrightarrow> dec_literal s \<noteq> None"

definition ascii_lower :: "char \<Rightarrow> char" where
  "ascii_lower c = (if 65 \<le> (of_char c :: nat) \<and> (of_char c :: nat) \<le> 90 then char_of (of_char c + (32 :: nat)) else c)"

definition drop_sign :: "string \<Rightarrow> string" where
  "drop_sign s = (case s of c # cs \<Rightarrow> if c = CHR ''+'' \<or> c = CHR ''-'' then cs else s | [] \<Rightarrow> [])"

definition float_mantissa_ok :: "string \<Rightarrow> bool" where
  "float_mantissa_ok m =
     (case py_split CHR ''.'' m of
        [i] \<Rightarrow> is_digits i
      | [i, f] \<Rightarrow> (i \<noteq> [] \<or> f \<noteq> []) \<and> (i = [] \<or> is_digits i) \<and> (f = [] \<or> is_digits f)
      | _ \<Rightarrow> False)"

text \<open>\<open>float(s)\<close> succeeds on a decimal literal with optional sign, fraction and exponent,
  or on \<open>inf\<close>, \<open>infinity\<close>, \<open>nan\<close> in any case, surrounded by whitespace.\<close>

definition py_float_ok :: "string \<Rightarrow> bool" where
  "py_float_ok s =
     (let l = map ascii_lower (drop_sign (py_strip s))
      in l \<in> set [''inf'', ''infinity'', ''nan''] \<or>
         (case py_split CHR ''e'' l of
            [m] \<Rightarrow> float_mantissa_ok m
          | [m, e] \<Rightarrow> float_mantissa_ok m \<and> is_digits (drop_sign e)
          | _ \<Rightarrow> False))"

section \<open>\<open>pathlib\<close> and \<open>readlines\<close>\<close>

text \<open>\<open>s.rfind(c)\<close> for one character.\<close>

definition py_rfind_char :: "char \<Rightarrow> string \<Rightarrow> int" where
  "py_rfind_char c s =
     (if c \<in> set s then int (length s - 1 - first_pos (rev s) c) else -1)"

text \<open>\<open>Path(p).name\<close>: the last component of a \<open>/\<close>-separated path.\<close>

definition path_name :: "string \<Rightarrow> string" where
  "path_name p = last (py_split CHR ''/'' p)"

text \<open>\<open>PurePath.stem\<close>: the name without its last suffix; a dot in first or last position
  starts no suffix.\<close>

definition path_stem :: "string \<Rightarrow> string" where
  "path_stem p =
     (let n = path_name p; i = py_rfind_char CHR ''.'' n
      in if 0 < i \<and> i < int (length n) - 1 then take (nat i) n else n)"

text \<open>\<open>Path(d).joinpath(n)\<close> for a directory \<open>d\<close> and a plain name \<open>n\<close>.\<close>

definition py_joinpath :: "string \<Rightarrow> string \<Rightarrow> string" where
  "py_joinpath d n = (if d = ''/'' then d @ n else d @ ''/'' @ n)"

text \<open>The line break \<open>'\\n'\<close>.\<close>

abbreviation py_newline :: char where
  "py_newline \<equiv> CHR 0x0A"

text \<open>\<open>f.readlines()\<close>: the lines of a text, each keeping its line break.\<close>

definition py_readlines :: "string \<Rightarrow> string list" where
  "py_readlines s =
     (let ps = py_split (CHR 0x0A) s
      in map (\<lambda>p. p @ [CHR 0x0A]) (butlast ps) @ (if last ps = [] then [] else [last ps]))"

text \<open>The value of a digit string read from the left with an accumulator.\<close>

definition dec_value :: "nat \<Rightarrow> string \<Rightarrow> nat" where
  "dec_value acc s = foldl (\<lambda>a c. 10 * a + digit_val c) acc s"

text \<open>\<open>c.join(ws)\<close>.\<close>

fun py_join :: "char \<Rightarrow> string list \<Rightarrow> string" where
  "py_join c [] = []"
| "py_join c [w] = w"
| "py_join c (w # v # ws) = w @ c # py_join c (v # ws)"

section \<open>Lemmas\<close>

lemma digit_char_ok:
  assumes "d < 10"
  shows "is_digit (digit_char d) \<and> digit_val (digit_char d) = d
         \<and> \<not> py_whitespace (digit_char d) \<and> digit_char d \<noteq> CHR ''-'' \<and> digit_char d \<noteq> CHR ''+''"
proof -
  from assms have "d \<in> {0, 1, 2, 3, 4, 5, 6, 7, 8, 9}" by auto
  then show ?thesis
    by (auto simp: digit_char_def is_digit_def digit_val_def py_whitespace_def)
qed

declare show_nat.simps [simp del]

lemma show_nat_digits: "c \<in> set (show_nat n) \<Longrightarrow> is_digit c \<and> \<not> py_whitespace c"
proof (induction n rule: show_nat.induct)
  case (1 n)
  then show ?case
    using digit_char_ok [of n] digit_char_ok [of "n mod 10"]
    by (cases "n < 10") (auto simp: show_nat.simps [of n])
qed

lemma show_nat_Cons: "\<exists>d ds. show_nat n = digit_char d # ds \<and> d < 10"
proof (induction n rule: show_nat.induct)
  case (1 n)
  then show ?case
    by (cases "n < 10") (auto simp: show_nat.simps [of n])
qed

lemma dec_digits_all_digits:
  "list_all is_digit s \<Longrightarrow> dec_digits acc s = Some (dec_value acc s)"
  by (induction s arbitrary: acc) (auto simp: dec_value_def)

lemma dec_value_show_nat: "dec_value 0 (show_nat n) = n"
proof (induction n rule: show_nat.induct)
  case (1 n)
  show ?case
  proof (cases "n < 10")
    case True
    then show ?thesis
      using digit_char_ok [of n] by (simp add: show_nat.simps [of n] dec_value_def)
  next
    case False
    then have "dec_value 0 (show_nat (n div 10)) = n div 10"
      using "1.IH" by simp
    then show ?thesis
      using False digit_char_ok [of "n mod 10"]
      by (simp add: show_nat.simps [of n] dec_value_def)
  qed
qed

lemma dec_literal_show_nat: "dec_literal (show_nat n) = Some n"
proof -
  obtain d ds where sn: "show_nat n = digit_char d # ds" and d: "d < 10"
    using show_nat_Cons by blast
  have "list_all is_digit ds"
    using show_nat_digits [of _ n] by (simp add: sn list_all_iff)
  then have "dec_digits (digit_val (digit_char d)) ds = Some (dec_value 0 (show_nat n))"
    by (simp add: dec_digits_all_digits sn dec_value_def)
  moreover have "dec_value 0 (digit_char d # ds) = n"
    using dec_value_show_nat [of n] by (simp only: sn)
  ultimately show ?thesis
    using digit_char_ok [OF d] by (simp add: dec_literal_def sn)
qed

lemma dropWhile_all_not: "(\<And>c. c \<in> set xs \<Longrightarrow> \<not> P c) \<Longrightarrow> dropWhile P xs = xs"
  by (cases xs) auto

lemma py_strip_no_ws:
  "(\<And>c. c \<in> set s \<Longrightarrow> \<not> py_whitespace c) \<Longrightarrow> py_strip s = s"
proof -
  assume ws: "\<And>c. c \<in> set s \<Longrightarrow> \<not> py_whitespace c"
  have "dropWhile py_whitespace s = s"
    by (rule dropWhile_all_not) (rule ws)
  moreover have "dropWhile py_whitespace (rev s) = rev s"
    by (rule dropWhile_all_not) (simp add: ws)
  ultimately show ?thesis by (simp add: py_strip_def)
qed

text \<open>Printing an integer and parsing it back gives the integer.\<close>

lemma py_int_py_str_int: "py_int (py_str_int i) = Inr i"
proof -
  obtain d ds where sn: "show_nat (nat \<bar>i\<bar>) = digit_char d # ds" and d: "d < 10"
    using show_nat_Cons by blast
  have nows: "\<And>c. c \<in> set (py_str_int i) \<Longrightarrow> \<not> py_whitespace c"
  proof -
    fix c
    assume "c \<in> set (py_str_int i)"
    then have "c = CHR ''-'' \<or> c \<in> set (show_nat (nat \<bar>i\<bar>))"
      by (cases "i < 0") (auto simp: py_str_int_def)
    then show "\<not> py_whitespace c"
      using show_nat_digits [of c] by (auto simp: py_whitespace_def)
  qed
  have strip: "py_strip (py_str_int i) = py_str_int i"
    by (rule py_strip_no_ws) (rule nows)
  show ?thesis
  proof (cases "i < 0")
    case True
    then have "py_str_int i = CHR ''-'' # show_nat (nat (- i))"
      by (simp add: py_str_int_def)
    then show ?thesis
      using strip True by (simp add: py_int_def dec_literal_show_nat)
  next
    case False
    then have sn': "show_nat (nat i) = digit_char d # ds"
      using sn by simp
    then have "py_str_int i = digit_char d # ds"
      using False by (simp add: py_str_int_def)
    moreover have "dec_literal (digit_char d # ds) = Some (nat i)"
      using dec_literal_show_nat [of "nat i"] by (simp only: sn')
    ultimately show ?thesis
      using strip digit_char_ok [OF d] False by (simp add: py_int_def)
  qed
qed

lemma py_split_not_Nil [simp]: "py_split c s \<noteq> []"
  by (induction s) (auto split: list.splits)

lemma py_join_Cons_hd: "py_join c ((x # w) # ws) = x # py_join c (w # ws)"
  by (cases ws) auto

text \<open>Splitting and joining with the separator are inverse: \<open>c.join(s.split(c)) == s\<close>.\<close>

lemma py_split_join: "py_join c (py_split c s) = s"
proof (induction s)
  case Nil
  then show ?case by simp
next
  case (Cons x xs)
  show ?case
  proof (cases "x = c")
    case True
    then show ?thesis
      using Cons.IH by (cases "py_split c xs") auto
  next
    case False
    then show ?thesis
      using Cons.IH by (cases "py_split c xs") (auto simp: py_join_Cons_hd)
  qed
qed

lemma py_split_no_sep: "c \<notin> set s \<Longrightarrow> py_split c s = [s]"
  by (induction s) auto

lemma py_split_append_sep:
  "c \<notin> set u \<Longrightarrow> py_split c (u @ c # v) = u # py_split c v"
  by (induction u) auto

lemma py_find_from_subset: "0 \<le> py_find_from s p k \<Longrightarrow> set p \<subseteq> set s"
proof (induction s arbitrary: k)
  case Nil
  then show ?case by (simp split: if_splits)
next
  case (Cons c cs)
  show ?case
  proof (cases "py_startswith p (c # cs)")
    case True
    then have "p = take (length p) (c # cs)" by (simp add: py_startswith_def)
    then show ?thesis by (metis set_take_subset)
  next
    case False
    then have "0 \<le> py_find_from cs p (Suc k)" using Cons.prems by simp
    then show ?thesis using Cons.IH by auto
  qed
qed

lemma py_contains_subset: "py_contains s p \<Longrightarrow> set p \<subseteq> set s"
  by (simp add: py_contains_def py_find_def py_find_from_subset)

lemma py_find_from_append: "0 \<le> py_find_from (u @ p @ v) p k"
proof (induction u arbitrary: k)
  case Nil
  have sw: "py_startswith p (p @ v)" by (simp add: py_startswith_def)
  show ?case
  proof (cases "p @ v")
    case Nil
    then show ?thesis by simp
  next
    case (Cons a l)
    then show ?thesis using sw by simp
  qed
next
  case (Cons c u)
  then show ?case by simp
qed

lemma py_contains_append: "py_contains (u @ p @ v) p"
  by (simp add: py_contains_def py_find_def py_find_from_append)

lemma py_str_int_chars: "c \<in> set (py_str_int i) \<Longrightarrow> c = CHR ''-'' \<or> is_digit c"
proof -
  assume c: "c \<in> set (py_str_int i)"
  have "c = CHR ''-'' \<or> c \<in> set (show_nat (nat \<bar>i\<bar>))"
    using c by (cases "i < 0") (auto simp: py_str_int_def)
  then show ?thesis using show_nat_digits [of c "nat \<bar>i\<bar>"] by blast
qed

lemma py_strip_append_ws:
  assumes "\<And>c. c \<in> set s \<Longrightarrow> \<not> py_whitespace c" "\<And>c. c \<in> set w \<Longrightarrow> py_whitespace c"
  shows "py_strip (s @ w) = s"
proof (cases s)
  case Nil
  have "dropWhile py_whitespace w = []"
    using assms(2) by (induction w) auto
  then show ?thesis using Nil by (simp only: py_strip_def append_Nil rev.simps(1) dropWhile.simps(1))
next
  case (Cons a s')
  then have "dropWhile py_whitespace (s @ w) = s @ w" using assms(1) by simp
  moreover have "dropWhile py_whitespace (rev (s @ w)) = rev s"
  proof -
    have "dropWhile py_whitespace (rev w @ rev s) = dropWhile py_whitespace (rev s)"
      by (rule dropWhile_append2) (simp add: assms(2))
    also have "\<dots> = rev s" using assms(1) by (intro dropWhile_all_not) simp
    finally show ?thesis by simp
  qed
  ultimately show ?thesis by (simp add: py_strip_def)
qed

lemma py_int_str_ws:
  assumes "\<And>c. c \<in> set w \<Longrightarrow> py_whitespace c"
  shows "py_int (py_str_int i @ w) = Inr i"
proof -
  have nows: "\<And>c. c \<in> set (py_str_int i) \<Longrightarrow> \<not> py_whitespace c"
    using py_str_int_chars by (fastforce simp: py_whitespace_def is_digit_def)
  have "py_strip (py_str_int i @ w) = py_strip (py_str_int i)"
    using py_strip_append_ws [OF nows assms] py_strip_no_ws [OF nows] by simp
  then show ?thesis
    using py_int_py_str_int [of i] by (simp add: py_int_def)
qed


lemma py_str_int_chars_in: "c \<in> set (py_str_int i) \<Longrightarrow> c \<in> set ''-0123456789''"
  using py_str_int_chars [of c i] by (auto simp: is_digit_def)

lemma not_py_contains_by_char: "x \<in> set p \<Longrightarrow> x \<notin> set s \<Longrightarrow> \<not> py_contains s p"
  using py_contains_subset by blast

text \<open>A separator splits a concatenation into the pieces of both sides.\<close>

lemma py_split_append_sep_gen:
  "py_split c (u @ c # v) = py_split c u @ py_split c v"
proof (induction u)
  case Nil
  then show ?case by simp
next
  case (Cons x u)
  then show ?case by (cases "py_split c u") auto
qed

lemma py_split_lines:
  "(\<And>l. l \<in> set ls \<Longrightarrow> c \<notin> set l) \<Longrightarrow> py_split c (concat (map (\<lambda>l. l @ [c]) ls)) = ls @ [[]]"
  by (induction ls) (auto simp: py_split_append_sep)

text \<open>Reading back lines written each with its line break.\<close>

lemma py_readlines_lines:
  "(\<And>l. l \<in> set ls \<Longrightarrow> py_newline \<notin> set l) \<Longrightarrow>
   py_readlines (concat (map (\<lambda>l. l @ [py_newline]) ls)) = map (\<lambda>l. l @ [py_newline]) ls"
  by (simp add: py_readlines_def py_split_lines)

lemma ascii_lower_digit: "is_digit c \<Longrightarrow> ascii_lower c = c"
  by (auto simp: is_digit_def ascii_lower_def)

text \<open>\<open>float()\<close> accepts a printed natural number followed by whitespace.\<close>

lemma py_float_ok_show_nat:
  assumes "\<And>c. c \<in> set w \<Longrightarrow> py_whitespace c"
  shows "py_float_ok (show_nat n @ w)"
proof -
  have d: "\<And>c. c \<in> set (show_nat n) \<Longrightarrow> is_digit c \<and> \<not> py_whitespace c"
    by (rule show_nat_digits)
  have st: "py_strip (show_nat n @ w) = show_nat n"
    using d assms by (intro py_strip_append_ws) auto
  obtain d0 ds where sn: "show_nat n = digit_char d0 # ds" "d0 < 10"
    using show_nat_Cons by blast
  have "digit_char d0 \<noteq> CHR ''+'' \<and> digit_char d0 \<noteq> CHR ''-''"
    using d [of "digit_char d0"] sn by (auto simp: is_digit_def)
  then have ds: "drop_sign (show_nat n) = show_nat n"
    by (simp add: drop_sign_def sn)
  have lw: "map ascii_lower (show_nat n) = show_nat n"
    using d by (simp add: map_idI ascii_lower_digit)
  have "CHR ''e'' \<notin> set (show_nat n)" "CHR ''.'' \<notin> set (show_nat n)"
    using d by (auto simp: is_digit_def)
  then show ?thesis
    by (simp add: py_float_ok_def st ds lw py_split_no_sep float_mantissa_ok_def is_digits_def
        dec_literal_show_nat)
qed

lemma py_str_int_no: "c \<notin> set ''-0123456789'' \<Longrightarrow> c \<notin> set (py_str_int i)"
  using py_str_int_chars_in by blast

lemma py_whitespace_newline [simp]: "py_whitespace py_newline"
  by (simp add: py_whitespace_def)

lemmas py_string_simps [py_simps] = py_int_py_str_int py_split_no_sep py_split_append_sep

end
