(* ===== verification/Recording.thy ===== *)
theory Recording
  imports PyLists PyStrings
begin

text \<open>
  The read contract the three adapters share (spec section 4.1), as the types their
  \<open>get_traces\<close> methods take and return: the \<open>channel_ids\<close> argument (\<open>None\<close>, a
  Python \<open>int\<close>, or a list of ids) and the numpy array that comes back, two-dimensional
  (channels by frames) or, when one \<open>int\<close> id is passed to an adapter that accepts it,
  one-dimensional.
\<close>

datatype chan_arg = AllChannels | OneChannel int | ChannelList "int list"

datatype ndarray = Arr1 "real list" | Arr2 "real matrix"

text \<open>The class attributes every adapter declares: its name, whether it attaches default
  channel locations, whether it can be used (its dependencies imported), whether
  \<open>write_recording\<close> is supported, its input mode and the message shown when it is not
  installed.\<close>

record extractor_class =
  ec_extractor_name :: string
  ec_has_default_locations :: bool
  ec_installed :: bool
  ec_is_writable :: bool
  ec_mode :: string
  ec_installation_mesg :: string

text \<open>A GUI parameter descriptor (an entry of \<open>_gui_params\<close>): the keys \<open>name\<close>,
  \<open>type\<close> and \<open>title\<close>, and the optional keys \<open>value\<close> and \<open>default\<close> (\<open>None\<close> when
  the key is absent); and a constructor's signature: its parameter names after \<open>self\<close>,
  in order, and the default values it declares.\<close>

datatype gui_value = GuiNone | GuiBool bool | GuiInt int | GuiFloat real

record gui_param =
  gp_name :: string
  gp_type :: string
  gp_title :: string
  gp_value :: "gui_value option"
  gp_default :: "gui_value option"

record py_signature =
  sig_params :: "string list"
  sig_defaults :: "(string \<times> gui_value) list"

text \<open>A numpy dtype by kind and bit width, and the conversion \<open>np.array(x, dtype=dt)\<close>
  applies to one real sample: floats are kept exactly (rounding to the float width is not
  modelled); integer dtypes truncate towards zero and wrap modulo \<open>2^bits\<close>.\<close>

datatype np_dtype = DInt nat | DUInt nat | DFloat nat

definition py_trunc :: "real \<Rightarrow> int" where
  "py_trunc x = (if 0 \<le> x then \<lfloor>x\<rfloor> else \<lceil>x\<rceil>)"

fun np_cast :: "np_dtype \<Rightarrow> real \<Rightarrow> real" where
  "np_cast (DFloat b) x = x"
| "np_cast (DUInt b) x = of_int (py_trunc x mod 2 ^ b)"
| "np_cast (DInt b) x = of_int ((py_trunc x + 2 ^ (b - 1)) mod 2 ^ b - 2 ^ (b - 1))"

text \<open>The frame range \<open>get_traces\<close> reads once its \<open>None\<close> defaults are filled in
  (\<open>0\<close> and \<open>get_num_frames()\<close>).\<close>

definition frame_range :: "nat \<Rightarrow> int option \<Rightarrow> int option \<Rightarrow> int \<times> int" where
  "frame_range n start_frame end_frame =
     (case start_frame of None \<Rightarrow> 0 | Some a \<Rightarrow> a,
      case end_frame of None \<Rightarrow> int n | Some b \<Rightarrow> b)"

section \<open>Lemmas\<close>

lemma np_cast_DFloat [simp]: "np_cast (DFloat b) = id"
  by (rule ext) simp

text \<open>The integer conversions wrap into the dtype's range.\<close>

lemma np_cast_DUInt_bounds: "0 \<le> np_cast (DUInt b) x \<and> np_cast (DUInt b) x < 2 ^ b"
proof -
  have "0 \<le> py_trunc x mod 2 ^ b" "py_trunc x mod 2 ^ b < 2 ^ b" by simp_all
  then show ?thesis by (simp only: np_cast.simps of_int_0_le_iff) (metis of_int_less_iff of_int_numeral of_int_power)
qed

lemma np_cast_DInt_bounds:
  assumes "0 < b"
  shows "- (2 ^ (b - 1)) \<le> np_cast (DInt b) x \<and> np_cast (DInt b) x < 2 ^ (b - 1)"
proof -
  have p: "(2::int) ^ b = 2 * 2 ^ (b - 1)"
    using assms by (cases b) auto
  let ?m = "(py_trunc x + 2 ^ (b - 1)) mod 2 ^ b"
  have "0 \<le> ?m" "?m < 2 ^ b" by simp_all
  then have "- (2 ^ (b - 1)) \<le> ?m - 2 ^ (b - 1)" "?m - 2 ^ (b - 1) < (2::int) ^ (b - 1)"
    using p by linarith+
  then show ?thesis
    by (simp only: np_cast.simps) (metis of_int_le_iff of_int_less_iff of_int_minus of_int_numeral of_int_power)
qed

text \<open>Integers inside the range of \<open>int<b>\<close> are kept by the conversion.\<close>

lemma np_cast_DInt_of_int:
  assumes "- (2 ^ (b - 1)) \<le> x" "x < 2 ^ (b - 1)" "0 < b"
  shows "np_cast (DInt b) (of_int x) = of_int x"
proof -
  have "(2::int) ^ b = 2 * 2 ^ (b - 1)" using assms(3) by (cases b) simp_all
  then have "(x + 2 ^ (b - 1)) mod 2 ^ b = x + 2 ^ (b - 1)" using assms(1,2) by simp
  then show ?thesis by (simp add: py_trunc_def)
qed

end
