(* ===== verification/Binary.thy ===== *)
theory Binary
  imports Recording "HOL-Library.Word"
begin

text \<open>
  The flat-binary file format of \<open>extraction_tools\<close>, which is not under \<open>src/\<close> and is
  modelled from its contract in the spec (sections 4.2 and 6): \<open>read_binary(path,
  channel_count, dtype, frames_first, offset)\<close> maps the file as a channels-by-frames array,
  through a transposed view when the file is frame-major; \<open>write_to_binary_dat_format(
  recording, path, time_axis, dtype, chunk_size)\<close> writes \<open>get_traces()\<close> in the chosen
  orientation (\<open>time_axis = 0\<close>: frame after frame), converted to \<open>dtype\<close>, optionally one
  chunk of frames at a time. A file is a list of bytes (\<open>8 word\<close>). A sample's bytes are
  given by a codec; for integer dtypes the codec is little-endian two's complement
  (\<open>int_codec\<close>), for float dtypes it is the IEEE layout, which is not modelled. The
  chunked writer is a loop over the frame ranges \<open>[i, min(i + k, n))\<close>, defined by
  \<open>function\<close> with the measure \<open>n - i\<close>.
\<close>

section \<open>Little-endian integers\<close>

type_synonym byte = "8 word"

fun le_enc :: "nat \<Rightarrow> int \<Rightarrow> byte list" where
  "le_enc 0 x = []"
| "le_enc (Suc n) x = word_of_int x # le_enc n (x div 256)"

fun le_dec :: "byte list \<Rightarrow> int" where
  "le_dec [] = 0"
| "le_dec (b # bs) = uint b + 256 * le_dec bs"

definition le_signed :: "byte list \<Rightarrow> int" where
  "le_signed bs = (let v = le_dec bs; n = 8 * length bs in if 2 ^ (n - 1) \<le> v then v - 2 ^ n else v)"

text \<open>The bytes of one sample: their number, and the conversion in each direction.\<close>

record sample_codec =
  sc_size :: nat
  sc_enc :: "real \<Rightarrow> byte list"
  sc_dec :: "byte list \<Rightarrow> real"

definition int_codec :: "bool \<Rightarrow> nat \<Rightarrow> sample_codec" where
  "int_codec is_signed nbytes =
     \<lparr>sc_size = nbytes, sc_enc = (\<lambda>x. le_enc nbytes (py_trunc x)),
      sc_dec = (\<lambda>bs. of_int (if is_signed then le_signed bs else le_dec bs))\<rparr>"

section \<open>Layout of the file\<close>

text \<open>The consecutive pieces of \<open>n\<close> bytes of a file (a trailing partial piece is not a sample).\<close>

fun chunks :: "nat \<Rightarrow> 'a list \<Rightarrow> 'a list list" where
  "chunks n xs = (if n = 0 \<or> length xs < n then [] else take n xs # chunks n (drop n xs))"

text \<open>The samples of frames \<open>a .. b-1\<close>, frame after frame.\<close>

definition frames_of :: "'a matrix \<Rightarrow> nat \<Rightarrow> nat \<Rightarrow> 'a list" where
  "frames_of m a b = concat (map (\<lambda>f. map (\<lambda>r. r ! f) m) [a..<b])"

text \<open>The channels-by-frames view of \<open>numchan\<close>-channel sample sequences, frame-major or
  channel-major; the frame count is the number of whole frames.\<close>

definition read_items :: "nat \<Rightarrow> bool \<Rightarrow> 'a list \<Rightarrow> 'a matrix" where
  "read_items numchan frames_first items =
     (let nframes = length items div numchan in
      if frames_first then map (\<lambda>c. map (\<lambda>f. items ! (f * numchan + c)) [0..<nframes]) [0..<numchan]
      else map (\<lambda>c. map (\<lambda>f. items ! (c * nframes + f)) [0..<nframes]) [0..<numchan])"

text \<open>\<open>read_binary\<close>: the samples after \<open>offset\<close> bytes, viewed as channels by frames.\<close>

definition read_binary :: "sample_codec \<Rightarrow> byte list \<Rightarrow> nat \<Rightarrow> bool \<Rightarrow> nat \<Rightarrow> real matrix py" where
  "read_binary codec bytes numchan frames_first offset =
     (if numchan = 0 \<or> sc_size codec = 0 then Inl (ZeroDivisionError ''integer division or modulo by zero'')
      else Inr (read_items numchan frames_first (map (sc_dec codec) (chunks (sc_size codec) (drop offset bytes)))))"

text \<open>The order in which the writer puts the samples: frame-major for \<open>time_axis = 0\<close>.\<close>

definition dat_items :: "nat \<Rightarrow> 'a matrix \<Rightarrow> 'a list" where
  "dat_items time_axis m = (if time_axis = 0 then concat (transpose m) else concat m)"

definition encode_items :: "sample_codec \<Rightarrow> real list \<Rightarrow> byte list" where
  "encode_items codec xs = concat (map (sc_enc codec) xs)"

text \<open>The chunked copy: read frames \<open>[i, min(i + k, n))\<close>, append them frame-major,
  continue from \<open>i + k\<close>.\<close>

function dat_chunk_loop ::
  "(int option \<Rightarrow> int option \<Rightarrow> real matrix py) \<Rightarrow> sample_codec \<Rightarrow> nat \<Rightarrow> nat \<Rightarrow> nat \<Rightarrow> byte list \<Rightarrow> byte list py" where
  "dat_chunk_loop traces codec chunksize n i acc =
     (if 0 < chunksize \<and> i < n then
        (case traces (Some (int i)) (Some (int (min (i + chunksize) n))) of
           Inl e \<Rightarrow> Inl e
         | Inr m \<Rightarrow> dat_chunk_loop traces codec chunksize n (i + chunksize)
                      (acc @ encode_items codec (dat_items 0 m)))
      else Inr acc)"
  by pat_completeness auto
termination
  by (relation "measure (\<lambda>(traces, codec, chunksize, n, i, acc). n - i)") auto

text \<open>\<open>write_to_binary_dat_format\<close> for a recording given by its \<open>get_traces\<close> and its
  frame count: the whole array at once, or in chunks of \<open>k\<close> frames (frame-major).\<close>

definition write_to_binary_dat_format ::
  "(int option \<Rightarrow> int option \<Rightarrow> real matrix py) \<Rightarrow> nat \<Rightarrow> sample_codec \<Rightarrow> nat \<Rightarrow> nat option \<Rightarrow> byte list py" where
  "write_to_binary_dat_format traces n codec time_axis chunksize =
     (case chunksize of
        None \<Rightarrow> map_sum id (\<lambda>m. encode_items codec (dat_items time_axis m)) (traces None None)
      | Some k \<Rightarrow>
          if k = 0 then Inl (ZeroDivisionError ''integer division or modulo by zero'')
          else dat_chunk_loop traces codec k n 0 [])"

section \<open>Lemmas\<close>

lemma length_le_enc [simp]: "length (le_enc n x) = n"
  by (induction n arbitrary: x) auto

lemma uint_byte_of_int: "uint (word_of_int x :: byte) = x mod 256"
  by (simp add: uint_word_of_int_eq take_bit_eq_mod)

lemma le_dec_le_enc: "le_dec (le_enc n x) = x mod 256 ^ n"
proof (induction n arbitrary: x)
  case 0
  then show ?case by simp
next
  case (Suc n)
  have "x mod (256 * 256 ^ n) = 256 * (x div 256 mod 256 ^ n) + x mod 256"
    by (rule zmod_zmult2_eq) simp
  then show ?case
    using Suc.IH [of "x div 256"] by (simp add: uint_byte_of_int)
qed

lemma le_signed_le_enc:
  assumes "0 < n"
  shows "le_signed (le_enc n x) = (x + 2 ^ (8 * n - 1)) mod 2 ^ (8 * n) - 2 ^ (8 * n - 1)"
proof -
  let ?h = "(2::int) ^ (8 * n - 1)"
  have p: "(2::int) ^ (8 * n) = 2 * ?h"
    using assms by (cases n) (auto simp: power_Suc [symmetric])
  have b: "(256::int) ^ n = 2 ^ (8 * n)"
    by (simp add: power_mult)
  let ?v = "x mod (2 * ?h)"
  have v: "0 \<le> ?v" "?v < 2 * ?h" by simp_all
  have "(x + ?h) mod (2 * ?h) = (?v + ?h) mod (2 * ?h)"
    by (simp add: mod_add_left_eq)
  also have "\<dots> = (if ?h \<le> ?v then ?v - ?h else ?v + ?h)"
  proof (cases "?h \<le> ?v")
    case True
    then have "(?v + ?h) mod (2 * ?h) = (?v - ?h + 2 * ?h) mod (2 * ?h)" by (simp add: algebra_simps)
    also have "\<dots> = (?v - ?h) mod (2 * ?h)" by (rule mod_add_self2)
    also have "\<dots> = ?v - ?h" using True v by (intro mod_pos_pos_trivial) linarith+
    finally show ?thesis using True by simp
  next
    case False
    then show ?thesis using v by simp
  qed
  finally have "(x + ?h) mod (2 * ?h) - ?h = (if ?h \<le> ?v then ?v - 2 * ?h else ?v)" by simp
  then show ?thesis
    by (simp add: le_signed_def Let_def le_dec_le_enc b p)
qed

lemma int_codec_roundtrip:
  assumes "0 < n"
  shows "sc_dec (int_codec True n) (sc_enc (int_codec True n) x) = np_cast (DInt (8 * n)) x"
    and "sc_dec (int_codec False n) (sc_enc (int_codec False n) x) = np_cast (DUInt (8 * n)) x"
  using assms by (simp_all add: int_codec_def le_signed_le_enc le_dec_le_enc power_mult)

lemma int_codec_sizes:
  "length (sc_enc (int_codec sg nb) x) = sc_size (int_codec sg nb)"
  by (simp add: int_codec_def)

lemma chunks_concat:
  "(\<And>x. x \<in> set xs \<Longrightarrow> length (f x) = k) \<Longrightarrow> 0 < k \<Longrightarrow> chunks k (concat (map f xs)) = map f xs"
  by (induction xs) auto

lemma frames_of_append:
  assumes "a \<le> b" "b \<le> c"
  shows "frames_of m a b @ frames_of m b c = frames_of m a c"
proof -
  have "[a..<c] = [a..<b] @ [b..<c]"
    using assms upt_add_eq_append [of a b "c - b"] by simp
  then show ?thesis by (simp add: frames_of_def)
qed

lemma frames_of_empty: "b \<le> a \<Longrightarrow> frames_of m a b = []"
  by (simp add: frames_of_def)

lemma cols_frames:
  assumes "rectangular n m" "a \<le> b" "b \<le> n"
  shows "concat (transpose (np_cols (int a) (int b) m)) = frames_of m a b"
proof (cases "m = []")
  case True
  then show ?thesis by (simp add: np_cols_def frames_of_def)
next
  case False
  have r: "rectangular (b - a) (np_cols (int a) (int b) m)"
    using np_cols_shape [OF assms(1), of "int a" "int b"] assms by (simp add: nat_diff_distrib)
  have ne: "np_cols (int a) (int b) m \<noteq> []" using False by (simp add: np_cols_def)
  have "transpose (np_cols (int a) (int b) m)
        = map (\<lambda>f. map (\<lambda>r. r ! f) (np_cols (int a) (int b) m)) [0..<b - a]"
    by (rule transpose_rectangular [OF r ne])
  also have "\<dots> = map (\<lambda>f. map (\<lambda>r. r ! f) m) [a..<b]"
  proof -
    have "py_slice (int a) (int b) r ! f = r ! (a + f)" if "r \<in> set m" "f < b - a" for r f
    proof -
      have "length r = n" using assms(1) that(1) by (simp add: rectangular_def list_all_iff)
      then have "f < length (py_slice (int a) (int b) r)"
        using that(2) assms(2,3) by (simp add: length_py_slice)
      then show ?thesis by (simp add: nth_py_slice)
    qed
    moreover have "[a..<b] = map (\<lambda>f. f + a) [0..<b - a]"
      using map_add_upt [of a "b - a"] assms(2) by simp
    ultimately show ?thesis
      by (auto simp: np_cols_def add.commute intro!: map_cong)
  qed
  finally show ?thesis by (simp add: frames_of_def)
qed

lemma encode_items_append: "encode_items codec (xs @ ys) = encode_items codec xs @ encode_items codec ys"
  by (simp add: encode_items_def)

lemma dat_chunk_loop_frames:
  assumes win: "\<And>a b. a \<le> b \<Longrightarrow> b \<le> n \<Longrightarrow> traces (Some (int a)) (Some (int b)) = Inr (np_cols (int a) (int b) m)"
      and rect: "rectangular n m" and k: "0 < k"
  shows "dat_chunk_loop traces codec k n i acc = Inr (acc @ encode_items codec (frames_of m i n))"
proof (induction "n - i" arbitrary: i acc rule: less_induct)
  case less
  show ?case
  proof (cases "i < n")
    case False
    then show ?thesis
      by (subst dat_chunk_loop.simps) (simp add: frames_of_empty encode_items_def)
  next
    case True
    let ?j = "min (i + k) n"
    have chunk: "traces (Some (int i)) (Some (int ?j)) = Inr (np_cols (int i) (int ?j) m)"
      using win True by simp
    have items: "dat_items 0 (np_cols (int i) (int ?j) m) = frames_of m i ?j"
      using cols_frames [OF rect, of i ?j] True k by (simp add: dat_items_def)
    have ih: "dat_chunk_loop traces codec k n (i + k) acc' = Inr (acc' @ encode_items codec (frames_of m (i + k) n))" for acc'
      using less True k by simp
    have fr: "frames_of m i ?j @ frames_of m (i + k) n = frames_of m i n"
    proof (cases "i + k \<le> n")
      case True
      then show ?thesis using frames_of_append [of i "i + k" n m] by simp
    next
      case False
      then show ?thesis using \<open>i < n\<close> by (simp add: frames_of_empty)
    qed
    show ?thesis
      using True k chunk items ih fr
      by (subst dat_chunk_loop.simps) (simp add: encode_items_append [symmetric])
  qed
qed

lemma dat_items_frame_major:
  "rectangular n m \<Longrightarrow> dat_items 0 m = frames_of m 0 n"
  using cols_frames [of n m 0 n] np_cols_full [of n m] by (simp add: dat_items_def)

lemma write_chunked_eq_unchunked:
  assumes win: "\<And>a b. a \<le> b \<Longrightarrow> b \<le> n \<Longrightarrow> traces (Some (int a)) (Some (int b)) = Inr (np_cols (int a) (int b) m)"
      and full: "traces None None = Inr m" and rect: "rectangular n m" and k: "0 < k"
  shows "write_to_binary_dat_format traces n codec 0 (Some k) = write_to_binary_dat_format traces n codec 0 None"
  using dat_chunk_loop_frames [OF win rect k, of codec 0 "[]"] k full dat_items_frame_major [OF rect]
  by (simp add: write_to_binary_dat_format_def)

lemma length_frames_of: "length (frames_of m a b) = (b - a) * length m"
  by (simp add: frames_of_def length_concat comp_def sum_list_triv)

lemma nth_frames_of:
  assumes "rectangular n m" "c < length m" "f < n"
  shows "frames_of m 0 n ! (f * length m + c) = m ! c ! f"
  using nth_concat_blocks [of n "\<lambda>f. map (\<lambda>r. r ! f) m" "length m" f c] assms
  by (simp add: frames_of_def)

lemma read_items_frames:
  assumes rect: "rectangular n m" and ne: "m \<noteq> []"
  shows "read_items (length m) True (frames_of m 0 n) = m"
proof -
  have len: "length (frames_of m 0 n) div length m = n"
    using length_frames_of [of m 0 n] ne by simp
  show ?thesis
  proof (rule nth_equalityI)
    show "length (read_items (length m) True (frames_of m 0 n)) = length m"
      by (simp add: read_items_def Let_def)
  next
    fix c assume "c < length (read_items (length m) True (frames_of m 0 n))"
    then have c: "c < length m" by (simp add: read_items_def Let_def)
    have "length (m ! c) = n" using rect c by (rule rectangular_nth)
    then show "read_items (length m) True (frames_of m 0 n) ! c = m ! c"
      using c rect by (auto simp: read_items_def Let_def len nth_frames_of intro: nth_equalityI)
  qed
qed

lemma read_items_concat:
  assumes rect: "rectangular n m" and ne: "m \<noteq> []"
  shows "read_items (length m) False (concat m) = m"
proof -
  have cm: "concat m = concat (map (\<lambda>i. m ! i) [0..<length m])" by (simp add: map_nth)
  have rl: "\<And>i. i < length m \<Longrightarrow> length (m ! i) = n" using rect by (rule rectangular_nth)
  have len: "length (concat m) div length m = n"
    unfolding cm using length_concat_blocks [of "length m" "\<lambda>i. m ! i" n] rl ne by simp
  show ?thesis
  proof (rule nth_equalityI)
    show "length (read_items (length m) False (concat m)) = length m"
      by (simp add: read_items_def Let_def)
  next
    fix c assume "c < length (read_items (length m) False (concat m))"
    then have c: "c < length m" by (simp add: read_items_def Let_def)
    have "concat m ! (c * n + f) = m ! c ! f" if "f < n" for f
      unfolding cm by (rule nth_concat_blocks [OF rl c that])
    then show "read_items (length m) False (concat m) ! c = m ! c"
      using c rl [OF c] by (auto simp: read_items_def Let_def len intro: nth_equalityI)
  qed
qed

lemma frames_of_np_map:
  assumes "rectangular n m" "b \<le> n"
  shows "frames_of (np_map g m) a b = map g (frames_of m a b)"
proof -
  have "f < length r" if "r \<in> set m" "f < b" for r f
    using assms that by (simp add: rectangular_def list_all_iff)
  then show ?thesis
    by (auto simp: frames_of_def np_map_def map_concat intro!: arg_cong [where f = concat] map_cong)
qed

lemma dat_items_np_map:
  assumes "rectangular n m"
  shows "dat_items time_axis (np_map g m) = map g (dat_items time_axis m)"
proof (cases "time_axis = 0")
  case True
  then show ?thesis
    using assms frames_of_np_map [OF assms, of n g 0] dat_items_frame_major [OF assms]
      dat_items_frame_major [of n "np_map g m"] by simp
next
  case False
  then show ?thesis by (simp add: dat_items_def np_map_def map_concat)
qed

lemma read_items_dat_items:
  assumes "rectangular n m" "m \<noteq> []"
  shows "read_items (length m) (time_axis = 0) (dat_items time_axis m) = m"
  using assms read_items_frames [OF assms] read_items_concat [OF assms] dat_items_frame_major [OF assms(1)]
  by (cases "time_axis = 0") (simp_all add: dat_items_def)

lemma decode_encode_items:
  assumes "\<And>x. length (sc_enc codec x) = sc_size codec" "0 < sc_size codec"
  shows "map (sc_dec codec) (chunks (sc_size codec) (encode_items codec xs)) = map (sc_dec codec \<circ> sc_enc codec) xs"
  using chunks_concat [of xs "sc_enc codec" "sc_size codec"] assms by (simp add: encode_items_def)

lemma read_binary_written:
  assumes rect: "rectangular n m" and ne: "m \<noteq> []"
      and enc: "\<And>x. length (sc_enc codec x) = sc_size codec" and sz: "0 < sc_size codec"
  shows "read_binary codec (encode_items codec (dat_items time_axis m)) (length m) (time_axis = 0) 0
         = Inr (np_map (sc_dec codec \<circ> sc_enc codec) m)"
proof -
  have "map (sc_dec codec) (chunks (sc_size codec) (encode_items codec (dat_items time_axis m)))
        = dat_items time_axis (np_map (sc_dec codec \<circ> sc_enc codec) m)"
    unfolding decode_encode_items [OF enc sz] by (rule dat_items_np_map [OF rect, symmetric])
  moreover have "read_items (length m) (time_axis = 0) (dat_items time_axis (np_map (sc_dec codec \<circ> sc_enc codec) m))
                 = np_map (sc_dec codec \<circ> sc_enc codec) m"
  proof -
    let ?g = "sc_dec codec \<circ> sc_enc codec"
    have r: "rectangular n (np_map ?g m)" using rect by simp
    have "np_map ?g m \<noteq> []" using ne by (simp add: np_map_def)
    then show ?thesis using read_items_dat_items [OF r] by simp
  qed
  ultimately show ?thesis
    using ne sz by (simp add: read_binary_def)
qed

text \<open>The chunked copy stops and returns the file whenever every read of a frame range
  succeeds.\<close>

lemma dat_chunk_loop_Inr:
  assumes "\<And>a b. \<exists>m. traces (Some a) (Some b) = Inr m"
  shows "\<exists>bs. dat_chunk_loop traces codec k n i acc = Inr bs"
proof (induction "n - i" arbitrary: i acc rule: less_induct)
  case less
  show ?case
  proof (cases "0 < k \<and> i < n")
    case False
    then show ?thesis by (subst dat_chunk_loop.simps) auto
  next
    case True
    obtain m where m: "traces (Some (int i)) (Some (int (min (i + k) n))) = Inr m"
      using assms by blast
    have "\<exists>bs. dat_chunk_loop traces codec k n (i + k) acc' = Inr bs" for acc'
    proof (rule less(1))
      show "n - (i + k) < n - i" using True by linarith
    qed
    then show ?thesis
      using True m by (subst dat_chunk_loop.simps) simp
  qed
qed

end
