(* ===== verification/BinDat.thy ===== *)
theory BinDat
  imports Binary
begin

text \<open>
  The flat-binary adapter, \<open>src/spikeextractors/extractors/bindatrecordingextractor/
  bindatrecordingextractor.py\<close>, class \<open>BinDatRecordingExtractor\<close>. Its state is the
  record \<open>bindat\<close> (the attributes \<open>_frame_first\<close>, \<open>_dtype\<close>, \<open>_timeseries\<close>,
  \<open>_samplerate\<close>, \<open>_gain\<close>, \<open>_channels\<close> set by \<open>__init__\<close>); the memory-mapped
  array \<open>_timeseries\<close> is the value \<open>read_binary\<close> returned (theory \<open>Binary\<close> models
  that collaborator), held as a list of channel rows of real sample values. The four read
  operations are \<open>bindat_get_channel_ids\<close>, \<open>bindat_get_num_frames\<close>,
  \<open>bindat_get_sampling_frequency\<close> and \<open>bindat_get_traces\<close>; the calibration at the end
  of \<open>get_traces\<close> (unsigned re-centering, then the optional gain) is \<open>bd_calibrate\<close>.
  \<open>bindat_open\<close> is the constructor on the file's bytes, through \<open>read_binary\<close>, and
  \<open>bindat_write_recording\<close> the static writer, which delegates to
  \<open>write_to_binary_dat_format\<close>.
\<close>

section \<open>Arguments as Python passes them\<close>

text \<open>The \<open>dtype\<close> argument: a dtype name or \<open>np.dtype\<close> object (\<open>str\<close> gives its
  name, e.g. \<open>uint16\<close>) or a numpy scalar type such as \<open>np.uint16\<close> (\<open>str\<close> gives
  \<open><class 'numpy.uint16'>\<close>).\<close>

datatype dtype_arg = DtName string | DtScalarType string

fun py_str_dtype :: "dtype_arg \<Rightarrow> string" where
  "py_str_dtype (DtName n) = n"
| "py_str_dtype (DtScalarType n) = ''<class '' @ [CHR 0x27] @ ''numpy.'' @ n @ [CHR 0x27] @ ''>''"

record bindat =
  bd_frame_first :: bool
  bd_dtype :: string
  bd_timeseries :: "real matrix"
  bd_samplerate :: real
  bd_gain :: "real option"
  bd_channels :: "int list"
  bd_locations :: "(int \<times> real list) list"

text \<open>The class attributes (lines 10--14 and 25).\<close>

definition bindat_class :: extractor_class where
  "bindat_class =
     \<lparr>ec_extractor_name = ''BinDatRecordingExtractor'', ec_has_default_locations = False,
      ec_installed = True, ec_is_writable = True, ec_mode = ''file'', ec_installation_mesg = []\<rparr>"

text \<open>The GUI descriptors (lines 15--24) and the constructor's signature (lines 27--28).\<close>

definition bindat_gui_params :: "gui_param list" where
  "bindat_gui_params =
     [\<lparr>gp_name = ''file_path'', gp_type = ''file'', gp_title = ''Path to file (.dat)'',
       gp_value = None, gp_default = None\<rparr>,
      \<lparr>gp_name = ''samplerate'', gp_type = ''float'', gp_title = ''Sampling rate in HZ'',
       gp_value = None, gp_default = None\<rparr>,
      \<lparr>gp_name = ''numchan'', gp_type = ''int'', gp_title = ''Number of channels'',
       gp_value = None, gp_default = None\<rparr>,
      \<lparr>gp_name = ''dtype'', gp_type = ''np.dtype'',
       gp_title = ''The dtype of underlying data (int16, float32, etc.)'', gp_value = None, gp_default = None\<rparr>,
      \<lparr>gp_name = ''recording_channels'', gp_type = ''int_list'', gp_title = ''List of recording channels'',
       gp_value = Some GuiNone, gp_default = Some GuiNone\<rparr>,
      \<lparr>gp_name = ''frames_first'', gp_type = ''bool'', gp_title = ''Frames first'',
       gp_value = Some (GuiBool True), gp_default = Some (GuiBool True)\<rparr>,
      \<lparr>gp_name = ''offset'', gp_type = ''int'', gp_title = ''Offset in binary file'',
       gp_value = Some (GuiInt 0), gp_default = Some (GuiInt 0)\<rparr>,
      \<lparr>gp_name = ''gain'', gp_type = ''float'', gp_title = ''gain of the recordings'',
       gp_value = None, gp_default = None\<rparr>]"

definition bindat_init_signature :: py_signature where
  "bindat_init_signature =
     \<lparr>sig_params = [''file_path'', ''samplerate'', ''numchan'', ''dtype'', ''recording_channels'',
                   ''frames_first'', ''geom'', ''offset'', ''gain''],
      sig_defaults = [(''recording_channels'', GuiNone), (''frames_first'', GuiBool True),
                      (''geom'', GuiNone), (''offset'', GuiInt 0), (''gain'', GuiNone)]\<rparr>"

section \<open>Operations\<close>

text \<open>\<open>__init__\<close>, given the array \<open>read_binary\<close> mapped (lines 27--47): the
  channel ids (explicit, checked against the row count, or \<open>0 .. n-1\<close>), then one
  location per row from \<open>geom\<close>, attached to the channel numbered by the row position
  \<open>m\<close>; \<open>geom[m, :]\<close> raises \<open>IndexError\<close> when \<open>geom\<close> has fewer rows. The field
  \<open>bd_locations\<close> records the arguments of the \<open>set_channel_property\<close> calls; the base
  class (not under \<open>src/\<close>) may reject an id \<open>m\<close> that is not a channel id, which this
  record does not model.\<close>

definition bindat_init ::
  "real matrix \<Rightarrow> real \<Rightarrow> dtype_arg \<Rightarrow> int list option \<Rightarrow> bool \<Rightarrow> real list list option \<Rightarrow> real option
   \<Rightarrow> bindat py" where
  "bindat_init timeseries samplerate dtype recording_channels frames_first geom gain =
     (let s = \<lparr>bd_frame_first = frames_first, bd_dtype = py_str_dtype dtype,
               bd_timeseries = timeseries, bd_samplerate = samplerate, bd_gain = gain,
               bd_channels = [], bd_locations = []\<rparr>
      in py_bind
           (case recording_channels of
              Some chs \<Rightarrow>
                if length chs = length timeseries then Inr (s\<lparr>bd_channels := chs\<rparr>)
                else Inl (AssertionError ''Provided recording channels have the wrong length'')
            | None \<Rightarrow> Inr (s\<lparr>bd_channels := map int [0..<length timeseries]\<rparr>))
           (\<lambda>s. case geom of
                  None \<Rightarrow> Inr s
                | Some g \<Rightarrow>
                    if length timeseries \<le> length g
                    then Inr (s\<lparr>bd_locations := map (\<lambda>m. (int m, g ! m)) [0..<length timeseries]\<rparr>)
                    else Inl (IndexError ''index out of bounds for axis 0'')))"

definition bindat_get_channel_ids :: "bindat \<Rightarrow> int list" where
  "bindat_get_channel_ids s = bd_channels s"

definition bindat_get_num_frames :: "bindat \<Rightarrow> nat" where
  "bindat_get_num_frames s = np_ncols (bd_timeseries s)"

definition bindat_get_sampling_frequency :: "bindat \<Rightarrow> real" where
  "bindat_get_sampling_frequency s = bd_samplerate s"

text \<open>The bit width of an unsigned dtype name: \<open>int(dtype[dtype.find('int') + 3:])\<close>.\<close>

definition bd_uint_bits :: "string \<Rightarrow> int py" where
  "bd_uint_bits dt = py_int (py_slice (py_find dt ''int'' + 3) (int (length dt)) dt)"

text \<open>Lines 68--74: re-center an unsigned dtype, then apply the gain if there is one.\<close>

definition bd_calibrate :: "bindat \<Rightarrow> real matrix \<Rightarrow> real matrix py" where
  "bd_calibrate s recordings =
     py_bind
       (if py_startswith ''uint'' (bd_dtype s) then
          py_bind (bd_uint_bits (bd_dtype s))
            (\<lambda>exp. Inr (np_map (\<lambda>v. v - power_int 2 (exp - 1) - 1) recordings))
        else Inr recordings)
       (\<lambda>recordings. Inr (case bd_gain s of None \<Rightarrow> recordings
                                          | Some g \<Rightarrow> np_map (\<lambda>v. v * g) recordings))"

text \<open>\<open>get_traces\<close> (lines 58--74): defaults, channel ids to row indices by
  \<open>list.index\<close>, \<open>_timeseries[:, start:end][channel_ids, :]\<close>, calibration.\<close>

definition bindat_get_traces ::
  "bindat \<Rightarrow> chan_arg \<Rightarrow> int option \<Rightarrow> int option \<Rightarrow> real matrix py" where
  "bindat_get_traces s channel_ids start_frame end_frame =
     (let start = (case start_frame of None \<Rightarrow> 0 | Some a \<Rightarrow> a);
          stop = (case end_frame of None \<Rightarrow> int (bindat_get_num_frames s) | Some b \<Rightarrow> b);
          idx = (case channel_ids of
                   AllChannels \<Rightarrow> Inr (map int [0..<length (bd_timeseries s)])
                 | OneChannel _ \<Rightarrow> Inl (TypeError ''int object is not iterable'')
                 | ChannelList cs \<Rightarrow> py_mapM (\<lambda>ch. map_sum id int (py_index (bd_channels s) ch)) cs)
      in py_bind idx (\<lambda>idx.
           py_bind (np_take_rows (np_cols start stop (bd_timeseries s)) idx) (bd_calibrate s)))"

text \<open>\<open>__init__\<close> on the file itself (lines 27--33): the array is what \<open>read_binary\<close>
  maps from the file's bytes, with the dtype's sample codec.\<close>

definition bindat_open ::
  "sample_codec \<Rightarrow> byte list \<Rightarrow> real \<Rightarrow> nat \<Rightarrow> dtype_arg \<Rightarrow> int list option \<Rightarrow> bool
   \<Rightarrow> real list list option \<Rightarrow> nat \<Rightarrow> real option \<Rightarrow> bindat py" where
  "bindat_open codec file samplerate numchan dtype recording_channels frames_first geom offset gain =
     py_bind (read_binary codec file numchan frames_first offset)
       (\<lambda>timeseries. bindat_init timeseries samplerate dtype recording_channels frames_first geom gain)"

text \<open>\<open>write_recording\<close> (lines 76--95): the recording, given by its \<open>get_traces\<close> on a
  frame range and its frame count, is written by \<open>write_to_binary_dat_format\<close>.\<close>

definition bindat_write_recording ::
  "(int option \<Rightarrow> int option \<Rightarrow> real matrix py) \<Rightarrow> nat \<Rightarrow> sample_codec \<Rightarrow> nat \<Rightarrow> nat option
   \<Rightarrow> byte list py" where
  "bindat_write_recording traces nframes codec time_axis chunksize =
     write_to_binary_dat_format traces nframes codec time_axis chunksize"

section \<open>Invariant and the per-sample view of the calibration\<close>

text \<open>What \<open>__init__\<close> establishes: one id per row, and a two-dimensional array.\<close>

definition bindat_wf :: "bindat \<Rightarrow> bool" where
  "bindat_wf s \<longleftrightarrow>
     length (bd_channels s) = length (bd_timeseries s)
     \<and> rectangular (np_ncols (bd_timeseries s)) (bd_timeseries s)"

text \<open>The transformation \<open>get_traces\<close> applies to each stored sample.\<close>

definition bd_sample_map :: "bindat \<Rightarrow> (real \<Rightarrow> real) py" where
  "bd_sample_map s =
     py_bind
       (if py_startswith ''uint'' (bd_dtype s)
        then map_sum id (\<lambda>exp v. v - power_int 2 (exp - 1) - 1) (bd_uint_bits (bd_dtype s))
        else Inr id)
       (\<lambda>off. Inr (case bd_gain s of None \<Rightarrow> off | Some g \<Rightarrow> (\<lambda>v. off v * g)))"

text \<open>The frame range \<open>get_traces\<close> reads, after its defaults.\<close>

definition bd_range :: "bindat \<Rightarrow> int option \<Rightarrow> int option \<Rightarrow> int \<times> int" where
  "bd_range s start_frame end_frame =
     (case start_frame of None \<Rightarrow> 0 | Some a \<Rightarrow> a,
      case end_frame of None \<Rightarrow> int (bindat_get_num_frames s) | Some b \<Rightarrow> b)"

section \<open>Example recordings used by the witnesses\<close>

definition bd_ex :: bindat where
  "bd_ex = \<lparr>bd_frame_first = True, bd_dtype = ''int16'', bd_timeseries = [[1, 2, 3], [4, 5, 6]],
            bd_samplerate = 30000, bd_gain = Some 2, bd_channels = [10, 20],
            bd_locations = []\<rparr>"

definition bd_ex_u16 :: bindat where
  "bd_ex_u16 = \<lparr>bd_frame_first = True, bd_dtype = ''uint16'', bd_timeseries = [[0, 32768, 65535]],
                bd_samplerate = 30000, bd_gain = None, bd_channels = [0],
                bd_locations = []\<rparr>"

definition bd_dup :: bindat where
  "bd_dup = \<lparr>bd_frame_first = True, bd_dtype = ''int16'', bd_timeseries = [[1, 2], [3, 4]],
             bd_samplerate = 30000, bd_gain = None, bd_channels = [7, 7],
             bd_locations = []\<rparr>"

text \<open>A recording viewed through \<open>get_traces\<close> on frame ranges, as the writer calls it.\<close>

definition bd_reader :: "bindat \<Rightarrow> int option \<Rightarrow> int option \<Rightarrow> real matrix py" where
  "bd_reader s start_frame end_frame = bindat_get_traces s AllChannels start_frame end_frame"

section \<open>Lemmas\<close>

lemmas bindat_defs = bindat_get_traces_def bindat_get_num_frames_def bd_range_def

lemma bd_calibrate_eq:
  "bd_calibrate s m = map_sum id (\<lambda>f. np_map f m) (bd_sample_map s)"
proof (cases "py_startswith ''uint'' (bd_dtype s)")
  case True
  then show ?thesis
    by (cases "bd_uint_bits (bd_dtype s)"; cases "bd_gain s")
       (simp_all add: bd_calibrate_def bd_sample_map_def comp_def)
next
  case False
  then show ?thesis
    by (cases "bd_gain s") (simp_all add: bd_calibrate_def bd_sample_map_def comp_def np_map_def)
qed

lemma bd_channel_rows:
  assumes "bindat_wf s" "set cs \<subseteq> set (bd_channels s)"
  shows "py_mapM (\<lambda>ch. map_sum id int (py_index (bd_channels s) ch)) cs
           = Inr (map int (map (first_pos (bd_channels s)) cs))"
    and "\<And>i. i \<in> set (map (first_pos (bd_channels s)) cs) \<Longrightarrow> i < length (bd_timeseries s)"
proof -
  show "py_mapM (\<lambda>ch. map_sum id int (py_index (bd_channels s) ch)) cs
          = Inr (map int (map (first_pos (bd_channels s)) cs))"
    using assms(2) by (simp add: py_mapM_map py_index_eq subset_iff comp_def)
next
  fix i
  assume "i \<in> set (map (first_pos (bd_channels s)) cs)"
  then show "i < length (bd_timeseries s)"
    using assms first_pos_bound by (fastforce simp: bindat_wf_def)
qed

lemma bd_unknown_channel:
  assumes "c \<in> set cs" "c \<notin> set (bd_channels s)"
  shows "py_mapM (\<lambda>ch. map_sum id int (py_index (bd_channels s) ch)) cs
           = Inl (ValueError ''x is not in list'')"
  using assms by (intro py_mapM_first_error) (auto simp: py_index_eq)

lemma bd_all_rows:
  assumes "bindat_wf s"
  shows "np_take_rows (np_cols a b (bd_timeseries s)) (map int [0..<length (bd_timeseries s)])
         = Inr (np_cols a b (bd_timeseries s))"
proof -
  have len: "length (np_cols a b (bd_timeseries s)) = length (bd_timeseries s)"
    by (simp add: np_cols_def)
  have "np_take_rows (np_cols a b (bd_timeseries s)) (map int [0..<length (bd_timeseries s)])
        = Inr (map (\<lambda>i. np_cols a b (bd_timeseries s) ! i) [0..<length (bd_timeseries s)])"
    by (rule np_take_rows_nat) (simp add: len)
  then show ?thesis
    using map_nth [of "np_cols a b (bd_timeseries s)"] by (simp only: len)
qed

lemma bd_traces_selected:
  assumes "bindat_wf s" "set cs \<subseteq> set (bindat_get_channel_ids s)" "bd_sample_map s = Inr f"
      and "bd_range s start_frame end_frame = (a, b)"
  shows "bindat_get_traces s (ChannelList cs) start_frame end_frame
         = Inr (map (\<lambda>c. map f (py_slice a b (bd_timeseries s ! first_pos (bindat_get_channel_ids s) c))) cs)"
proof -
  have sub: "set cs \<subseteq> set (bd_channels s)"
    using assms(2) by (simp add: bindat_get_channel_ids_def)
  let ?idx = "map (first_pos (bd_channels s)) cs"
  have rows: "np_take_rows (np_cols a b (bd_timeseries s)) (map int ?idx)
              = Inr (map (\<lambda>i. np_cols a b (bd_timeseries s) ! i) ?idx)"
    using bd_channel_rows(2) [OF assms(1) sub] by (intro np_take_rows_nat) (simp add: np_cols_def)
  have "map (\<lambda>i. np_cols a b (bd_timeseries s) ! i) ?idx
        = map (\<lambda>c. py_slice a b (bd_timeseries s ! first_pos (bd_channels s) c)) cs"
    using bd_channel_rows(2) [OF assms(1) sub] by (simp add: np_cols_def)
  then show ?thesis
    using bd_channel_rows(1) [OF assms(1) sub] rows assms(4)
    by (simp add: bindat_defs Let_def bd_calibrate_eq assms(3) np_map_def bindat_get_channel_ids_def
             split: prod.splits)
qed

lemma bd_traces_all:
  assumes "bindat_wf s" "bd_sample_map s = Inr f"
  shows "bindat_get_traces s AllChannels None None = Inr (np_map f (bd_timeseries s))"
proof -
  have "rectangular (bindat_get_num_frames s) (bd_timeseries s)"
    using assms(1) by (simp add: bindat_wf_def bindat_get_num_frames_def)
  then have "np_cols 0 (int (bindat_get_num_frames s)) (bd_timeseries s) = bd_timeseries s"
    by (rule np_cols_full)
  then show ?thesis
    using bd_all_rows [OF assms(1), of 0 "int (bindat_get_num_frames s)"] assms(2)
    by (simp add: bindat_get_traces_def Let_def bd_calibrate_eq)
qed

lemma bd_traces_window:
  assumes "bindat_wf s" "bd_sample_map s = Inr f"
  shows "bindat_get_traces s AllChannels (Some a) (Some b) = Inr (np_cols a b (np_map f (bd_timeseries s)))"
  using bd_all_rows [OF assms(1), of a b] assms(2)
  by (simp add: bindat_get_traces_def Let_def bd_calibrate_eq np_cols_np_map)

lemma bd_traces_all_Inr:
  assumes "bindat_wf s" "bindat_get_traces s AllChannels None None = Inr full"
  obtains f where "bd_sample_map s = Inr f" "full = np_map f (bd_timeseries s)"
proof -
  obtain f where f: "bd_sample_map s = Inr f"
    using assms(2) by (cases "bd_sample_map s")
      (auto simp: bindat_get_traces_def Let_def bd_calibrate_eq bd_all_rows [OF assms(1)])
  moreover have "full = np_map f (bd_timeseries s)"
    using bd_traces_all [OF assms(1) f] assms(2) by simp
  ultimately show ?thesis by (rule that)
qed

lemma bd_uint_bits_show_nat: "bd_uint_bits (''uint'' @ show_nat w) = Inr (int w)"
proof -
  have "py_find (''uint'' @ show_nat w) ''int'' = 1"
    by (simp add: py_find_def py_startswith_def)
  moreover have "py_str_int (int w) = show_nat w"
    by (simp add: py_str_int_def)
  ultimately show ?thesis
    using py_int_py_str_int [of "int w"]
    by (simp add: bd_uint_bits_def py_slice_def py_slice_bound_def)
qed

lemma bd_uint_sample_map:
  assumes "bd_dtype s = ''uint'' @ show_nat w" "bd_gain s = None"
  shows "bd_sample_map s = Inr (\<lambda>v. v - power_int 2 (int w - 1) - 1)"
  using assms bd_uint_bits_show_nat [of w] by (simp add: bd_sample_map_def py_startswith_def)

lemma show_nat_16: "show_nat 16 = ''16''"
  by (simp add: show_nat.simps digit_char_def)

lemma bd_ex_facts:
  "bindat_wf bd_ex" "bd_sample_map bd_ex = Inr (\<lambda>v. id v * 2)"
  "bindat_wf bd_ex_u16" "bd_dtype bd_ex_u16 = ''uint'' @ show_nat 16" "bd_gain bd_ex_u16 = None"
  "bindat_wf bd_dup" "bd_sample_map bd_dup = Inr id"
  by (simp_all add: bindat_wf_def bd_ex_def bd_ex_u16_def bd_dup_def np_ncols_def show_nat_16
                    bd_sample_map_def py_startswith_def)

text \<open>What a successful construction stores, whatever \<open>geom\<close> holds.\<close>

lemma bindat_init_Inr:
  assumes "bindat_init timeseries samplerate dtype chans frames_first geom gain = Inr s"
  shows "bd_timeseries s = timeseries \<and> bd_dtype s = py_str_dtype dtype \<and> bd_gain s = gain
         \<and> bd_samplerate s = samplerate
         \<and> bd_channels s = (case chans of None \<Rightarrow> map int [0..<length timeseries] | Some cs \<Rightarrow> cs)
         \<and> length (bd_channels s) = length timeseries"
  using assms
  by (auto simp: bindat_init_def Let_def split: option.splits if_splits)

text \<open>Writing an adapter with \<open>write_recording\<close> and opening the file again
  with the same sample layout gives a well-formed adapter over the decoded samples.\<close>

text \<open>Opening a file that holds a rectangular array frame after frame, with one channel
  per row and no options, gives the decoded array with the default ids.\<close>

lemma bindat_open_encoded:
  assumes rect: "rectangular n m" and ne: "m \<noteq> []"
      and enc: "\<And>x. length (sc_enc codec x) = sc_size codec" and sz: "0 < sc_size codec"
  shows "bindat_open codec (encode_items codec (dat_items 0 m)) rate (length m) dt None True None 0 None
         = Inr \<lparr>bd_frame_first = True, bd_dtype = py_str_dtype dt,
                bd_timeseries = np_map (sc_dec codec \<circ> sc_enc codec) m, bd_samplerate = rate,
                bd_gain = None, bd_channels = map int [0..<length m], bd_locations = []\<rparr>"
  using read_binary_written [OF rect ne enc sz, of 0]
  by (simp add: bindat_open_def bindat_init_def)

text \<open>\<open>get_traces\<close> slices frames with Python's bounds.\<close>

lemma bindat_traces_normal:
  assumes "bindat_wf s"
  shows "bindat_get_traces s ca (Some a) (Some b)
         = bindat_get_traces s ca (Some (int (py_slice_bound a (bindat_get_num_frames s))))
                                  (Some (int (py_slice_bound b (bindat_get_num_frames s))))"
proof -
  have "rectangular (bindat_get_num_frames s) (bd_timeseries s)"
    using assms by (simp add: bindat_wf_def bindat_get_num_frames_def)
  then show ?thesis
    unfolding bindat_get_traces_def Let_def by (simp only: np_cols_normal [of _ _ a b] option.case)
qed

lemma bd_reopen:
  assumes wf: "bindat_wf s" and f: "bd_sample_map s = Inr f" and ne: "bd_timeseries s \<noteq> []"
      and enc: "\<And>x. length (sc_enc codec x) = sc_size codec" and sz: "0 < sc_size codec"
  obtains bytes s' where
    "bindat_write_recording (bd_reader s) (bindat_get_num_frames s) codec 0 None = Inr bytes"
    "bindat_open codec bytes rate (length (bindat_get_channel_ids s)) dt None True None 0 None = Inr s'"
    "bindat_wf s'" "bd_timeseries s' = np_map (sc_dec codec \<circ> sc_enc codec \<circ> f) (bd_timeseries s)"
    "bd_dtype s' = py_str_dtype dt" "bd_gain s' = None"
proof -
  let ?M = "np_map f (bd_timeseries s)"
  let ?n = "bindat_get_num_frames s"
  have rect: "rectangular ?n ?M" using wf by (simp add: bindat_wf_def bindat_get_num_frames_def)
  have mne: "?M \<noteq> []" using ne by (simp add: np_map_def)
  have len: "length ?M = length (bindat_get_channel_ids s)"
    using wf by (simp add: bindat_wf_def bindat_get_channel_ids_def)
  have w: "bindat_write_recording (bd_reader s) ?n codec 0 None = Inr (encode_items codec (dat_items 0 ?M))"
    using bd_traces_all [OF wf f]
    by (simp add: bindat_write_recording_def write_to_binary_dat_format_def bd_reader_def)
  let ?M' = "np_map (sc_dec codec \<circ> sc_enc codec) ?M"
  let ?s' = "\<lparr>bd_frame_first = True, bd_dtype = py_str_dtype dt, bd_timeseries = ?M', bd_samplerate = rate,
              bd_gain = None, bd_channels = map int [0..<length ?M'], bd_locations = []\<rparr>"
  have o: "bindat_open codec (encode_items codec (dat_items 0 ?M)) rate (length (bindat_get_channel_ids s)) dt
             None True None 0 None = Inr ?s'"
    using bindat_open_encoded [OF rect mne enc sz, of rate dt] len by simp
  have "np_ncols ?M' = ?n"
    using rect ne by (intro np_ncols_rectangular) simp_all
  then have "bindat_wf ?s'"
    using rect by (simp add: bindat_wf_def)
  then show ?thesis
    using that [OF w o] by (simp add: comp_assoc)
qed

section \<open>Properties of the flat-binary adapter\<close>

text \<open>C1. \<open>get_traces\<close> with a list of known channel ids returns one row per requested
  id, in the requested order; each row is the frame slice \<open>[start:end]\<close> (after the
  defaults) of the stored row of that id, with the calibration applied once to every
  sample.\<close>

theorem bindat_get_traces_channels:
  assumes "bindat_wf s" "set cs \<subseteq> set (bindat_get_channel_ids s)" "bd_sample_map s = Inr f"
      and "bd_range s start_frame end_frame = (a, b)"
  shows "bindat_get_traces s (ChannelList cs) start_frame end_frame
         = Inr (map (\<lambda>c. map f (py_slice a b (bd_timeseries s ! first_pos (bindat_get_channel_ids s) c))) cs)"
  using assms by (rule bd_traces_selected)

theorem bindat_get_traces_channels_witness:
  "bindat_wf bd_ex \<and> set [20, 10] \<subseteq> set (bindat_get_channel_ids bd_ex)
   \<and> bd_range bd_ex (Some 1) None = (1, 3)
   \<and> bindat_get_traces bd_ex (ChannelList [20, 10]) (Some 1) None = Inr [[10, 12], [4, 6]]"
proof -
  have sub: "set [20, 10] \<subseteq> set (bindat_get_channel_ids bd_ex)"
    by (simp add: bd_ex_def bindat_get_channel_ids_def)
  have rng: "bd_range bd_ex (Some 1) None = (1, 3)"
    by (simp add: bd_range_def bindat_get_num_frames_def bd_ex_def np_ncols_def)
  show ?thesis
    using bindat_get_traces_channels [OF bd_ex_facts(1) sub bd_ex_facts(2) rng] bd_ex_facts(1) sub rng
    by (simp add: bd_ex_def bindat_get_channel_ids_def first_pos_def py_slice_def py_slice_bound_def)
qed

text \<open>C2. Requesting a channel id the adapter does not have fails with the
  \<open>ValueError\<close> of \<open>list.index\<close>, whatever else is requested.\<close>

theorem bindat_get_traces_unknown_channel:
  assumes "c \<in> set cs" "c \<notin> set (bindat_get_channel_ids s)"
  shows "bindat_get_traces s (ChannelList cs) start_frame end_frame = Inl (ValueError ''x is not in list'')"
proof -
  have "c \<notin> set (bd_channels s)"
    using assms(2) by (simp add: bindat_get_channel_ids_def)
  then show ?thesis
    by (simp add: bindat_get_traces_def Let_def bd_unknown_channel [OF assms(1)])
qed

theorem bindat_get_traces_unknown_channel_witness:
  "(7::int) \<in> set [10, 7] \<and> 7 \<notin> set (bindat_get_channel_ids bd_ex)
   \<and> bindat_get_traces bd_ex (ChannelList [10, 7]) None None = Inl (ValueError ''x is not in list'')"
proof -
  have "(7::int) \<notin> set (bindat_get_channel_ids bd_ex)"
    by (simp add: bd_ex_def bindat_get_channel_ids_def)
  then show ?thesis
    using bindat_get_traces_unknown_channel [of 7 "[10, 7]" bd_ex None None] by simp
qed

text \<open>C3. \<open>get_traces()\<close> with no arguments returns the calibrated store: one row per
  channel id and \<open>get_num_frames()\<close> columns.\<close>

theorem bindat_get_traces_all:
  assumes "bindat_wf s" "bd_sample_map s = Inr f"
  shows "bindat_get_traces s AllChannels None None = Inr (np_map f (bd_timeseries s))
         \<and> length (np_map f (bd_timeseries s)) = length (bindat_get_channel_ids s)
         \<and> rectangular (bindat_get_num_frames s) (np_map f (bd_timeseries s))"
  using bd_traces_all [OF assms] assms(1)
  by (simp add: bindat_wf_def bindat_get_channel_ids_def bindat_get_num_frames_def)

theorem bindat_get_traces_all_witness:
  "bindat_wf bd_ex \<and> bd_sample_map bd_ex = Inr (\<lambda>v. id v * 2)
   \<and> bindat_get_traces bd_ex AllChannels None None = Inr [[2, 4, 6], [8, 10, 12]]"
  using bindat_get_traces_all [OF bd_ex_facts(1,2)] bd_ex_facts(1,2) by (simp add: bd_ex_def np_map_def)

text \<open>C4. For \<open>0 <= a <= b <= num_frames\<close>, \<open>get_traces(start_frame=a, end_frame=b)\<close>
  is the slice \<open>[:, a:b]\<close> of the full-range result and has exactly \<open>b - a\<close>
  columns.\<close>

theorem bindat_get_traces_window:
  assumes "bindat_wf s" "bindat_get_traces s AllChannels None None = Inr full"
      and "0 \<le> a" "a \<le> b" "b \<le> int (bindat_get_num_frames s)"
  shows "bindat_get_traces s AllChannels (Some a) (Some b) = Inr (np_cols a b full)
         \<and> length (np_cols a b full) = length (bindat_get_channel_ids s)
         \<and> rectangular (nat (b - a)) (np_cols a b full)"
proof -
  obtain f where f: "bd_sample_map s = Inr f" and full: "full = np_map f (bd_timeseries s)"
    using bd_traces_all_Inr [OF assms(1,2)] by blast
  have rect: "rectangular (bindat_get_num_frames s) full"
    using assms(1) by (simp add: full bindat_wf_def bindat_get_num_frames_def)
  then show ?thesis
    using bd_traces_window [OF assms(1) f, of a b] np_cols_shape [OF rect assms(3-5)] assms(1)
    by (simp add: full) (simp add: np_cols_def bindat_wf_def bindat_get_channel_ids_def)
qed

theorem bindat_get_traces_window_witness:
  "bindat_wf bd_ex \<and> bindat_get_traces bd_ex AllChannels None None = Inr [[2, 4, 6], [8, 10, 12]]
   \<and> (0::int) \<le> 1 \<and> (1::int) \<le> 3 \<and> 3 \<le> int (bindat_get_num_frames bd_ex)
   \<and> bindat_get_traces bd_ex AllChannels (Some 1) (Some 3) = Inr [[4, 6], [10, 12]]"
proof -
  have full: "bindat_get_traces bd_ex AllChannels None None = Inr [[2, 4, 6], [8, 10, 12]]"
    using bd_traces_all [OF bd_ex_facts(1,2)] by (simp add: bd_ex_def np_map_def)
  have n: "int (bindat_get_num_frames bd_ex) = 3"
    by (simp add: bindat_get_num_frames_def bd_ex_def np_ncols_def)
  show ?thesis
    using bindat_get_traces_window [OF bd_ex_facts(1) full, of 1 3] bd_ex_facts(1) full n
    by (simp add: np_cols_def py_slice_def py_slice_bound_def)
qed

text \<open>C5. For a store of dtype \<open>uint<w>\<close> (dtype given by name) and no gain, every
  sample \<open>v\<close> is returned as \<open>v - 2^(w-1) - 1\<close>: the exact affine map of line 71.\<close>

theorem bindat_uint_remap:
  assumes "bindat_wf s" "bd_dtype s = ''uint'' @ show_nat w" "bd_gain s = None"
  shows "bindat_get_traces s AllChannels None None
         = Inr (np_map (\<lambda>v. v - power_int 2 (int w - 1) - 1) (bd_timeseries s))"
  using bd_traces_all [OF assms(1) bd_uint_sample_map [OF assms(2,3)]] .

theorem bindat_uint_remap_witness:
  "bindat_wf bd_ex_u16 \<and> bd_dtype bd_ex_u16 = ''uint'' @ show_nat 16 \<and> bd_gain bd_ex_u16 = None
   \<and> bindat_get_traces bd_ex_u16 AllChannels None None = Inr [[-32769, -1, 32766]]"
  using bindat_uint_remap [OF bd_ex_facts(3-5)] bd_ex_facts(3-5) by (simp add: bd_ex_u16_def np_map_def)

text \<open>C6. When the dtype is passed as a numpy scalar type (\<open>np.uint16\<close>),
  \<open>str(dtype)\<close> is \<open><class 'numpy.uint16'>\<close>, which does not start with \<open>uint\<close>: the
  samples are returned without the unsigned re-centering, only scaled by the gain.\<close>

theorem bindat_scalar_type_no_remap:
  assumes "bindat_init timeseries samplerate (DtScalarType n) chans frames_first geom gain = Inr s"
  shows "bd_sample_map s = Inr (case gain of None \<Rightarrow> id | Some g \<Rightarrow> (\<lambda>v. v * g))"
  using bindat_init_Inr [OF assms]
  by (cases gain) (auto simp: bd_sample_map_def py_startswith_def comp_def)

theorem bindat_scalar_type_no_remap_witness:
  "bindat_init [[32768]] 30000 (DtScalarType ''uint16'') None True None None
     = Inr \<lparr>bd_frame_first = True, bd_dtype = py_str_dtype (DtScalarType ''uint16''),
            bd_timeseries = [[32768]], bd_samplerate = 30000, bd_gain = None, bd_channels = [0],
            bd_locations = []\<rparr>
   \<and> bd_sample_map \<lparr>bd_frame_first = True, bd_dtype = py_str_dtype (DtScalarType ''uint16''),
            bd_timeseries = [[32768]], bd_samplerate = 30000, bd_gain = None, bd_channels = [0],
            bd_locations = []\<rparr> = Inr id"
proof -
  have i: "bindat_init [[32768]] 30000 (DtScalarType ''uint16'') None True None None
     = Inr \<lparr>bd_frame_first = True, bd_dtype = py_str_dtype (DtScalarType ''uint16''),
            bd_timeseries = [[32768]], bd_samplerate = 30000, bd_gain = None, bd_channels = [0],
                bd_locations = []\<rparr>"
    by (simp add: bindat_init_def)
  show ?thesis
    using bindat_scalar_type_no_remap [OF i] i by simp
qed

text \<open>C7. \<open>__init__\<close> on a mapped two-dimensional array establishes the adapter's
  invariant: one id per row (the given list, or \<open>0 .. n-1\<close>), the array kept as mapped,
  \<open>get_num_frames()\<close> its column count and \<open>get_sampling_frequency()\<close> the given rate.\<close>

theorem bindat_init_wf:
  assumes "rectangular n timeseries" "timeseries \<noteq> []"
      and "bindat_init timeseries samplerate dtype chans frames_first geom gain = Inr s"
  shows "bindat_wf s \<and> bd_timeseries s = timeseries \<and> bindat_get_num_frames s = n
         \<and> bindat_get_sampling_frequency s = samplerate
         \<and> bindat_get_channel_ids s = (case chans of None \<Rightarrow> map int [0..<length timeseries] | Some cs \<Rightarrow> cs)"
proof -
  have nc: "np_ncols timeseries = n"
    using assms(1,2) by (rule np_ncols_rectangular)
  show ?thesis
    using bindat_init_Inr [OF assms(3)] assms(1) nc
    by (auto simp: bindat_wf_def bindat_get_num_frames_def bindat_get_sampling_frequency_def
          bindat_get_channel_ids_def)
qed

theorem bindat_init_wf_witness:
  "rectangular 3 [[1, 2, 3], [4, 5, 6 :: real]] \<and> [[1, 2, 3], [4, 5, 6 :: real]] \<noteq> []
   \<and> bindat_init [[1, 2, 3], [4, 5, 6]] 30000 (DtName ''int16'') (Some [10, 20]) True None (Some 2) = Inr bd_ex
   \<and> bindat_wf bd_ex \<and> bindat_get_num_frames bd_ex = 3 \<and> bindat_get_channel_ids bd_ex = [10, 20]"
proof -
  have r: "rectangular 3 [[1, 2, 3], [4, 5, 6 :: real]]" by simp
  have n: "[[1, 2, 3], [4, 5, 6 :: real]] \<noteq> []" by simp
  have i: "bindat_init [[1, 2, 3], [4, 5, 6]] 30000 (DtName ''int16'') (Some [10, 20]) True None (Some 2) = Inr bd_ex"
    by (simp add: bindat_init_def bd_ex_def)
  show ?thesis
    using bindat_init_wf [OF r n i] r n i by simp
qed

text \<open>C8. An explicit channel-id list whose length differs from the number of mapped
  rows is rejected by the assertion of line 39.\<close>

theorem bindat_init_wrong_length:
  assumes "length chans \<noteq> length timeseries"
  shows "bindat_init timeseries samplerate dtype (Some chans) frames_first geom gain
         = Inl (AssertionError ''Provided recording channels have the wrong length'')"
  using assms by (simp add: bindat_init_def)

theorem bindat_init_wrong_length_witness:
  "length [0, 1, 2 :: int] \<noteq> length [[1, 2, 3], [4, 5, 6 :: real]]
   \<and> bindat_init [[1, 2, 3], [4, 5, 6]] 30000 (DtName ''int16'') (Some [0, 1, 2]) True None None
     = Inl (AssertionError ''Provided recording channels have the wrong length'')"
  using bindat_init_wrong_length [of "[0, 1, 2]" "[[1, 2, 3], [4, 5, 6]]" 30000 "DtName ''int16''" True None None]
  by simp

text \<open>C9. The constructor does not check that the channel ids are distinct. When an
  id occurs twice, requesting the id at its later position returns the row of an
  earlier position (the first match of \<open>list.index\<close>): the later row cannot be read
  by id.\<close>

theorem bindat_duplicate_ids_shadow:
  assumes "bindat_wf s" "i < j" "j < length (bindat_get_channel_ids s)"
      and "bindat_get_channel_ids s ! i = bindat_get_channel_ids s ! j"
      and "bd_sample_map s = Inr f"
  shows "\<exists>k < j. bindat_get_traces s (ChannelList [bindat_get_channel_ids s ! j]) None None
                 = Inr [map f (bd_timeseries s ! k)]"
proof -
  let ?ids = "bindat_get_channel_ids s"
  let ?k = "first_pos ?ids (?ids ! j)"
  have mem: "?ids ! j \<in> set ?ids" using assms(3) by simp
  have "?k \<le> i"
    using assms(2-4) first_pos_le [of i ?ids "?ids ! j"] by simp
  then have kj: "?k < j" using assms(2) by simp
  have rect: "rectangular (bindat_get_num_frames s) (bd_timeseries s)"
    using assms(1) by (simp add: bindat_wf_def bindat_get_num_frames_def)
  have kl: "?k < length (bd_timeseries s)"
    using first_pos_bound [OF mem] assms(1) by (simp add: bindat_wf_def bindat_get_channel_ids_def)
  have "bindat_get_traces s (ChannelList [?ids ! j]) None None
        = Inr [map f (py_slice 0 (int (bindat_get_num_frames s)) (bd_timeseries s ! ?k))]"
    using bd_traces_selected [OF assms(1) _ assms(5), of "[?ids ! j]" None None 0]
      mem by (simp add: bd_range_def)
  moreover have "length (bd_timeseries s ! ?k) = bindat_get_num_frames s"
    using rect kl by (rule rectangular_nth)
  ultimately show ?thesis
    using kj by (metis py_slice_full)
qed

theorem bindat_duplicate_ids_shadow_witness:
  "bindat_wf bd_dup \<and> (0::nat) < 1 \<and> 1 < length (bindat_get_channel_ids bd_dup)
   \<and> bindat_get_channel_ids bd_dup ! 0 = bindat_get_channel_ids bd_dup ! 1
   \<and> bindat_get_traces bd_dup (ChannelList [7]) None None = Inr [[1, 2]]"
proof -
  have ids: "bindat_get_channel_ids bd_dup = [7, 7]"
    by (simp add: bd_dup_def bindat_get_channel_ids_def)
  obtain k where "k < 1" "bindat_get_traces bd_dup (ChannelList [7]) None None
                            = Inr [map id (bd_timeseries bd_dup ! k)]"
    using bindat_duplicate_ids_shadow [OF bd_ex_facts(6), of 0 1 id] bd_ex_facts(7) ids by auto
  then show ?thesis
    using bd_ex_facts(6) ids by (simp add: bd_dup_def)
qed

text \<open>C29. Writing with a chunk size \<open>k > 0\<close> (frames copied \<open>k\<close> at a time in
  frame-major order) produces the same bytes as writing the whole recording at once.\<close>

theorem bindat_write_chunked:
  assumes "bindat_wf s" "bd_sample_map s = Inr f" "0 < k"
  shows "bindat_write_recording (bd_reader s) (bindat_get_num_frames s) codec 0 (Some k)
         = bindat_write_recording (bd_reader s) (bindat_get_num_frames s) codec 0 None"
proof -
  have rect: "rectangular (bindat_get_num_frames s) (np_map f (bd_timeseries s))"
    using assms(1) by (simp add: bindat_wf_def bindat_get_num_frames_def)
  show ?thesis
    unfolding bindat_write_recording_def
  proof (rule write_chunked_eq_unchunked [OF _ _ rect assms(3)])
    show "bd_reader s (Some (int a)) (Some (int b)) = Inr (np_cols (int a) (int b) (np_map f (bd_timeseries s)))" for a b
      using bd_traces_window [OF assms(1,2)] by (simp add: bd_reader_def)
    show "bd_reader s None None = Inr (np_map f (bd_timeseries s))"
      using bd_traces_all [OF assms(1,2)] by (simp add: bd_reader_def)
  qed
qed

theorem bindat_write_chunked_witness:
  "bindat_write_recording (bd_reader bd_ex) 3 (int_codec True 2) 0 (Some 2)
   = bindat_write_recording (bd_reader bd_ex) 3 (int_codec True 2) 0 None"
proof -
  have n: "bindat_get_num_frames bd_ex = 3"
    by (simp add: bindat_get_num_frames_def bd_ex_def np_ncols_def)
  show ?thesis
    using bindat_write_chunked [OF bd_ex_facts(1,2), of 2 "int_codec True 2"] unfolding n by simp
qed

text \<open>C30. Round trip for signed integer dtypes: writing a recording as \<open>int<8 nb>\<close>
  and opening the file again with that dtype gives back every calibrated sample
  converted to the dtype (truncated towards zero and wrapped into its range).\<close>

theorem bindat_roundtrip_int:
  assumes "bindat_wf s" "bd_sample_map s = Inr f" "bd_timeseries s \<noteq> []" "0 < nb"
  shows "\<exists>bytes s'.
    bindat_write_recording (bd_reader s) (bindat_get_num_frames s) (int_codec True nb) 0 None = Inr bytes
    \<and> bindat_open (int_codec True nb) bytes rate (length (bindat_get_channel_ids s))
        (DtName (''int'' @ show_nat (8 * nb))) None True None 0 None = Inr s'
    \<and> bindat_get_traces s' AllChannels None None
        = Inr (np_map (np_cast (DInt (8 * nb)) \<circ> f) (bd_timeseries s))"
proof -
  have sz: "0 < sc_size (int_codec True nb)" using assms(4) by (simp add: int_codec_def)
  obtain bytes s' where w: "bindat_write_recording (bd_reader s) (bindat_get_num_frames s) (int_codec True nb) 0 None = Inr bytes"
    and o: "bindat_open (int_codec True nb) bytes rate (length (bindat_get_channel_ids s))
              (DtName (''int'' @ show_nat (8 * nb))) None True None 0 None = Inr s'"
    and wf: "bindat_wf s'"
    and ts: "bd_timeseries s' = np_map (sc_dec (int_codec True nb) \<circ> sc_enc (int_codec True nb) \<circ> f) (bd_timeseries s)"
    and dt: "bd_dtype s' = ''int'' @ show_nat (8 * nb)" and g: "bd_gain s' = None"
    by (rule bd_reopen [OF assms(1-3) int_codec_sizes sz, where rate = rate
          and dt = "DtName (''int'' @ show_nat (8 * nb))"]) simp_all
  have "bd_sample_map s' = Inr id"
    using dt g by (simp add: bd_sample_map_def py_startswith_def)
  moreover have "sc_dec (int_codec True nb) \<circ> sc_enc (int_codec True nb) = np_cast (DInt (8 * nb))"
    using int_codec_roundtrip(1) [OF assms(4)] by (simp add: fun_eq_iff)
  ultimately show ?thesis
    using w o bd_traces_all [OF wf] ts by (simp add: comp_assoc)
qed

theorem bindat_roundtrip_int_witness:
  "\<exists>bytes s'.
    bindat_write_recording (bd_reader bd_ex) (bindat_get_num_frames bd_ex) (int_codec True 2) 0 None = Inr bytes
    \<and> bindat_open (int_codec True 2) bytes 30000 (length (bindat_get_channel_ids bd_ex))
        (DtName (''int'' @ show_nat (8 * 2))) None True None 0 None = Inr s'
    \<and> bindat_get_traces s' AllChannels None None
        = Inr (np_map (np_cast (DInt (8 * 2)) \<circ> (\<lambda>v. id v * 2)) (bd_timeseries bd_ex))"
  by (rule bindat_roundtrip_int [OF bd_ex_facts(1,2)]) (simp_all add: bd_ex_def)

text \<open>C31. Round trip for unsigned integer dtypes: opening a \<open>uint<8 nb>\<close> file
  re-centres every sample by \<open>2^(8 nb - 1) + 1\<close>, so writing a recording and
  opening it again does not give back the samples written.\<close>

theorem bindat_roundtrip_uint:
  assumes "bindat_wf s" "bd_sample_map s = Inr f" "bd_timeseries s \<noteq> []" "0 < nb"
  shows "\<exists>bytes s'.
    bindat_write_recording (bd_reader s) (bindat_get_num_frames s) (int_codec False nb) 0 None = Inr bytes
    \<and> bindat_open (int_codec False nb) bytes rate (length (bindat_get_channel_ids s))
        (DtName (''uint'' @ show_nat (8 * nb))) None True None 0 None = Inr s'
    \<and> bindat_get_traces s' AllChannels None None
        = Inr (np_map ((\<lambda>v. v - power_int 2 (int (8 * nb) - 1) - 1) \<circ> np_cast (DUInt (8 * nb)) \<circ> f)
                      (bd_timeseries s))"
proof -
  have sz: "0 < sc_size (int_codec False nb)" using assms(4) by (simp add: int_codec_def)
  obtain bytes s' where w: "bindat_write_recording (bd_reader s) (bindat_get_num_frames s) (int_codec False nb) 0 None = Inr bytes"
    and o: "bindat_open (int_codec False nb) bytes rate (length (bindat_get_channel_ids s))
              (DtName (''uint'' @ show_nat (8 * nb))) None True None 0 None = Inr s'"
    and wf: "bindat_wf s'"
    and ts: "bd_timeseries s' = np_map (sc_dec (int_codec False nb) \<circ> sc_enc (int_codec False nb) \<circ> f) (bd_timeseries s)"
    and dt: "bd_dtype s' = ''uint'' @ show_nat (8 * nb)" and g: "bd_gain s' = None"
    by (rule bd_reopen [OF assms(1-3) int_codec_sizes sz, where rate = rate
          and dt = "DtName (''uint'' @ show_nat (8 * nb))"]) simp_all
  have "sc_dec (int_codec False nb) \<circ> sc_enc (int_codec False nb) = np_cast (DUInt (8 * nb))"
    using int_codec_roundtrip(2) [OF assms(4)] by (simp add: fun_eq_iff)
  then show ?thesis
    using w o bd_traces_all [OF wf bd_uint_sample_map [OF dt g]] ts by (simp add: comp_assoc)
qed

theorem bindat_roundtrip_uint_witness:
  "\<exists>bytes s'.
    bindat_write_recording (bd_reader bd_dup) (bindat_get_num_frames bd_dup) (int_codec False 2) 0 None = Inr bytes
    \<and> bindat_open (int_codec False 2) bytes 30000 (length (bindat_get_channel_ids bd_dup))
        (DtName (''uint'' @ show_nat (8 * 2))) None True None 0 None = Inr s'
    \<and> bindat_get_traces s' AllChannels None None
        = Inr (np_map ((\<lambda>v. v - power_int 2 (int (8 * 2) - 1) - 1) \<circ> np_cast (DUInt (8 * 2)) \<circ> id)
                      (bd_timeseries bd_dup))"
  by (rule bindat_roundtrip_uint [OF bd_ex_facts(6,7)]) (simp_all add: bd_dup_def)

end
