(* ===== verification/ChunkCopy.thy ===== *)
theory ChunkCopy
  imports BinDat
begin

text \<open>
  The chunked copy loop of \<open>write_to_binary_dat_format\<close> (theory Binary, \<open>dat_chunk_loop\<close>),
  seen as a labelled transition system, as \<open>BinDatRecordingExtractor.write_recording\<close> runs it
  with \<open>chunksize=k\<close>. A state is the loop at frame \<open>i\<close> with the bytes written so far, or its
  end: the file written, or the read error that stopped it. A step is one iteration,
  labelled by the frame window \<open>[i, min(i + k, n))\<close> it reads with \<open>get_traces\<close>, or by
  \<open>None\<close> for the exit test; \<open>copy_run\<close> collects the labels of a sequence of steps.
  The lemmas show that the relation is deterministic and agrees with the loop function, that
  every start state reaches an end state (liveness), and, by rule induction over runs, that a
  reader of a well-formed recording never fails and is asked only for windows of at most
  \<open>k\<close> frames that cover the recording once, in order.
\<close>

type_synonym copy_reader = "int option \<Rightarrow> int option \<Rightarrow> real matrix py"

datatype copy_state = Copying nat "byte list" | Copied "byte list" | CopyFailed py_error

inductive copy_step ::
  "copy_reader \<Rightarrow> sample_codec \<Rightarrow> nat \<Rightarrow> nat \<Rightarrow> copy_state \<Rightarrow> (nat \<times> nat) option \<Rightarrow> copy_state \<Rightarrow> bool"
  for traces codec chunksize n where
  read: "0 < chunksize \<Longrightarrow> i < n \<Longrightarrow> traces (Some (int i)) (Some (int (min (i + chunksize) n))) = Inr m \<Longrightarrow>
         copy_step traces codec chunksize n (Copying i acc) (Some (i, min (i + chunksize) n))
           (Copying (i + chunksize) (acc @ encode_items codec (dat_items 0 m)))"
| fail: "0 < chunksize \<Longrightarrow> i < n \<Longrightarrow> traces (Some (int i)) (Some (int (min (i + chunksize) n))) = Inl e \<Longrightarrow>
         copy_step traces codec chunksize n (Copying i acc) (Some (i, min (i + chunksize) n)) (CopyFailed e)"
| finish: "\<not> (0 < chunksize \<and> i < n) \<Longrightarrow> copy_step traces codec chunksize n (Copying i acc) None (Copied acc)"

inductive copy_run ::
  "copy_reader \<Rightarrow> sample_codec \<Rightarrow> nat \<Rightarrow> nat \<Rightarrow> copy_state \<Rightarrow> (nat \<times> nat) option list \<Rightarrow> copy_state \<Rightarrow> bool"
  for traces codec chunksize n where
  run_nil: "copy_run traces codec chunksize n s [] s"
| run_cons: "copy_step traces codec chunksize n s w t \<Longrightarrow> copy_run traces codec chunksize n t ws u \<Longrightarrow>
             copy_run traces codec chunksize n s (w # ws) u"

text \<open>The outcome of an end state; \<open>None\<close> while the loop runs.\<close>

fun copy_result :: "copy_state \<Rightarrow> byte list py option" where
  "copy_result (Copying i acc) = None"
| "copy_result (Copied acc) = Some (Inr acc)"
| "copy_result (CopyFailed e) = Some (Inl e)"

text \<open>The frames read by a sequence of steps, the position reached, the invariant (the
  bytes written are the frames before the position, frame after frame; a run never fails)
  and the bound on one window.\<close>

fun window_frames :: "(nat \<times> nat) option list \<Rightarrow> nat list" where
  "window_frames [] = []"
| "window_frames (None # ws) = window_frames ws"
| "window_frames (Some (a, b) # ws) = [a..<b] @ window_frames ws"

fun copy_pos :: "nat \<Rightarrow> copy_state \<Rightarrow> nat" where
  "copy_pos n (Copying i acc) = min i n"
| "copy_pos n s = n"

fun copy_inv :: "real matrix \<Rightarrow> sample_codec \<Rightarrow> nat \<Rightarrow> copy_state \<Rightarrow> bool" where
  "copy_inv m codec n (Copying i acc) = (acc = encode_items codec (frames_of m 0 (min i n)))"
| "copy_inv m codec n (Copied acc) = (acc = encode_items codec (frames_of m 0 n))"
| "copy_inv m codec n (CopyFailed e) = False"

fun window_ok :: "nat \<Rightarrow> nat \<Rightarrow> (nat \<times> nat) option \<Rightarrow> bool" where
  "window_ok k n None = True"
| "window_ok k n (Some (a, b)) = (a < b \<and> b \<le> n \<and> b - a \<le> k)"

section \<open>Lemmas\<close>

inductive_cases copy_step_CopyingE: "copy_step traces codec k n (Copying i acc) w t"
inductive_cases copy_step_CopiedE [elim!]: "copy_step traces codec k n (Copied acc) w t"
inductive_cases copy_step_FailedE [elim!]: "copy_step traces codec k n (CopyFailed e) w t"
inductive_cases copy_run_ConsE: "copy_run traces codec k n s (w # ws) t"
inductive_simps copy_run_Nil [simp]: "copy_run traces codec k n s [] t"

lemma copy_step_deterministic:
  "copy_step traces codec k n s w t \<Longrightarrow> copy_step traces codec k n s w' t' \<Longrightarrow> w = w' \<and> t = t'"
  by (induction rule: copy_step.induct) (auto elim: copy_step_CopyingE)

lemma copy_result_stuck: "copy_result s \<noteq> None \<Longrightarrow> \<not> copy_step traces codec k n s w t"
  by (cases s) auto

lemma copy_run_terminal_unique:
  assumes "copy_run traces codec k n s ws t" "copy_run traces codec k n s ws' t'"
      and "copy_result t \<noteq> None" "copy_result t' \<noteq> None"
  shows "ws = ws' \<and> t = t'"
  using assms
proof (induction arbitrary: ws' rule: copy_run.induct)
  case (run_nil s)
  show ?case
  proof (cases ws')
    case (Cons w ws1)
    then obtain t1 where "copy_step traces codec k n s w t1"
      using run_nil.prems(1) by (auto elim: copy_run_ConsE)
    then show ?thesis using copy_result_stuck run_nil.prems(2) by blast
  qed (use run_nil.prems(1) in simp)
next
  case (run_cons s w t ws u)
  from run_cons.prems(1) obtain w' t1 ws1 where "ws' = w' # ws1" "copy_step traces codec k n s w' t1"
    "copy_run traces codec k n t1 ws1 t'"
    using run_cons.hyps(1) run_cons.prems(3) copy_result_stuck
    by (cases ws') (fastforce elim: copy_run_ConsE)+
  moreover have "w = w' \<and> t = t1" using copy_step_deterministic run_cons.hyps(1) calculation(2) by blast
  ultimately show ?case using run_cons.IH run_cons.prems(2,3) by auto
qed

text \<open>Every state of the loop reaches an end state, and that end state is the loop's result.\<close>

lemma copy_run_loop:
  "\<exists>ws t. copy_run traces codec k n (Copying i acc) ws t
          \<and> copy_result t = Some (dat_chunk_loop traces codec k n i acc)"
proof (induction "n - i" arbitrary: i acc rule: less_induct)
  case less
  show ?case
  proof (cases "0 < k \<and> i < n")
    case False
    then have "copy_run traces codec k n (Copying i acc) [None] (Copied acc)"
      by (blast intro: copy_run.intros copy_step.finish)
    then show ?thesis using False by (subst dat_chunk_loop.simps) force
  next
    case True
    let ?w = "Some (i, min (i + k) n)"
    show ?thesis
    proof (cases "traces (Some (int i)) (Some (int (min (i + k) n)))")
      case (Inl e)
      then have "copy_run traces codec k n (Copying i acc) [?w] (CopyFailed e)"
        using True by (blast intro: copy_run.intros copy_step.fail)
      then show ?thesis using True Inl by (subst dat_chunk_loop.simps) force
    next
      case (Inr m)
      let ?acc = "acc @ encode_items codec (dat_items 0 m)"
      have "n - (i + k) < n - i" using True by linarith
      then obtain ws t where r: "copy_run traces codec k n (Copying (i + k) ?acc) ws t"
        and res: "copy_result t = Some (dat_chunk_loop traces codec k n (i + k) ?acc)"
        using less by blast
      have "copy_run traces codec k n (Copying i acc) (?w # ws) t"
        using True Inr r by (blast intro: copy_run.run_cons copy_step.read)
      then show ?thesis using True Inr res by (subst dat_chunk_loop.simps) force
    qed
  qed
qed

lemma window_frames_Cons: "window_frames (w # ws) = window_frames [w] @ window_frames ws"
  by (cases w) auto

text \<open>One step of a reader that returns the frame windows of a recording keeps the invariant,
  reads a window of at most \<open>k\<close> frames and moves the position over exactly that window.\<close>

lemma copy_step_inv:
  assumes win: "\<And>a b. a \<le> b \<Longrightarrow> b \<le> n \<Longrightarrow> traces (Some (int a)) (Some (int b)) = Inr (np_cols (int a) (int b) m)"
      and rect: "rectangular n m" and k: "0 < k"
      and step: "copy_step traces codec k n s w t" and inv: "copy_inv m codec n s"
  shows "copy_inv m codec n t \<and> window_ok k n w \<and> copy_pos n s \<le> copy_pos n t
         \<and> window_frames [w] = [copy_pos n s..<copy_pos n t]"
  using step inv
proof (cases rule: copy_step.cases)
  case (read i m' acc)
  let ?j = "min (i + k) n"
  have m': "m' = np_cols (int i) (int ?j) m" using read win by simp
  have "dat_items 0 m' = frames_of m i ?j"
    using cols_frames [OF rect, of i ?j] read m' by (simp add: dat_items_def)
  moreover have "frames_of m 0 i @ frames_of m i ?j = frames_of m 0 ?j"
    using read by (intro frames_of_append) simp_all
  ultimately show ?thesis
    using read inv by (auto simp: encode_items_append [symmetric])
next
  case (fail i e acc)
  then show ?thesis using win [of i "min (i + k) n"] by simp
next
  case (finish i acc)
  then show ?thesis using inv k by simp
qed

lemma copy_run_inv:
  assumes win: "\<And>a b. a \<le> b \<Longrightarrow> b \<le> n \<Longrightarrow> traces (Some (int a)) (Some (int b)) = Inr (np_cols (int a) (int b) m)"
      and rect: "rectangular n m" and k: "0 < k"
  shows "copy_run traces codec k n s ws t \<Longrightarrow> copy_inv m codec n s \<Longrightarrow>
         copy_inv m codec n t \<and> list_all (window_ok k n) ws \<and> copy_pos n s \<le> copy_pos n t
         \<and> window_frames ws = [copy_pos n s..<copy_pos n t]"
proof (induction rule: copy_run.induct)
  case (run_nil s)
  then show ?case by simp
next
  case (run_cons s w t ws u)
  have st: "copy_inv m codec n t \<and> window_ok k n w \<and> copy_pos n s \<le> copy_pos n t
            \<and> window_frames [w] = [copy_pos n s..<copy_pos n t]"
    by (rule copy_step_inv [OF win rect k run_cons.hyps(1) run_cons.prems])
  then have ih: "copy_inv m codec n u \<and> list_all (window_ok k n) ws \<and> copy_pos n t \<le> copy_pos n u
                 \<and> window_frames ws = [copy_pos n t..<copy_pos n u]"
    using run_cons.IH by blast
  have "[copy_pos n s..<copy_pos n t] @ [copy_pos n t..<copy_pos n u] = [copy_pos n s..<copy_pos n u]"
    using st ih upt_add_eq_append [of "copy_pos n s" "copy_pos n t" "copy_pos n u - copy_pos n t"] by simp
  then show ?case using st ih window_frames_Cons [of w ws] by simp
qed

text \<open>C11. Invariant of the chunked writer on a well-formed adapter, by rule induction
  over its runs: every window it reads holds between one and \<open>k\<close> frames inside the
  recording, the windows read so far are the frames \<open>0 .. p-1\<close> in order, each once,
  where \<open>p\<close> is the position reached, the bytes written so far are those frames'
  calibrated samples, frame after frame, and no run fails.\<close>

theorem bindat_chunked_copy_inv:
  assumes "bindat_wf s" "bd_sample_map s = Inr f" "0 < k"
      and "copy_run (bd_reader s) codec k (bindat_get_num_frames s) (Copying 0 []) ws t"
  shows "list_all (window_ok k (bindat_get_num_frames s)) ws
         \<and> window_frames ws = [0..<copy_pos (bindat_get_num_frames s) t]
         \<and> copy_inv (np_map f (bd_timeseries s)) codec (bindat_get_num_frames s) t"
proof -
  have rect: "rectangular (bindat_get_num_frames s) (np_map f (bd_timeseries s))"
    using assms(1) by (simp add: bindat_wf_def bindat_get_num_frames_def)
  have win: "bd_reader s (Some (int a)) (Some (int b)) = Inr (np_cols (int a) (int b) (np_map f (bd_timeseries s)))"
    for a b using bd_traces_window [OF assms(1,2)] by (simp add: bd_reader_def)
  have "copy_inv (np_map f (bd_timeseries s)) codec (bindat_get_num_frames s) (Copying 0 [])"
    by (simp add: frames_of_def encode_items_def)
  then show ?thesis
    using copy_run_inv [OF win rect assms(3) assms(4)] by simp
qed

theorem bindat_chunked_copy_inv_witness:
  "\<exists>ws t. copy_run (bd_reader bd_ex) (int_codec True 2) 2 (bindat_get_num_frames bd_ex) (Copying 0 []) ws t
     \<and> list_all (window_ok 2 (bindat_get_num_frames bd_ex)) ws
     \<and> window_frames ws = [0..<copy_pos (bindat_get_num_frames bd_ex) t]
     \<and> copy_inv (np_map (\<lambda>v. id v * 2) (bd_timeseries bd_ex)) (int_codec True 2) (bindat_get_num_frames bd_ex) t"
proof -
  obtain ws t where r: "copy_run (bd_reader bd_ex) (int_codec True 2) 2 (bindat_get_num_frames bd_ex) (Copying 0 []) ws t"
    using copy_run_loop by blast
  show ?thesis
    using r bindat_chunked_copy_inv [OF bd_ex_facts(1,2) _ r] by auto
qed

end
