(* ===== verification/MCSH5.thy ===== *)
theory MCSH5
  imports Recording
begin

text \<open>
  The HDF5 adapter, \<open>src/spikeextractors/extractors/mcsh5recordingextractor/
  mcsh5recordingextractor.py\<close>: the function \<open>openMCSH5File\<close> and the class
  \<open>MCSH5RecordingExtractor\<close>. The content of the group
  \<open>/Data/Recording_0/AnalogStream/Stream_0\<close> is the record \<open>mcs_stream\<close> (its datasets
  \<open>ChannelData\<close>, \<open>ChannelDataTimeStamps\<close> and the table \<open>InfoChannel\<close>, one
  \<open>info_channel\<close> row per channel); whether \<open>h5py\<close> imported (\<open>HAVE_MCSH5\<close>) is a
  boolean argument. Time stamps and samples are exact reals: float rounding is not
  modelled, so the 1 ppm uniformity check is examined on the time vector the code builds
  and, separately, on any time vector (\<open>mcs_timestep_check\<close>). With \<open>verbose\<close> set the
  function prints a report; its \<open>print\<close> calls are a list of format strings with their
  arguments, computed from the file's name, size and attributes (record \<open>h5_file_meta\<close>).
\<close>

section \<open>The file content\<close>

record info_channel =
  ic_Unit :: string
  ic_Tick :: int
  ic_Exponent :: int
  ic_ConversionFactor :: int
  ic_ChannelID :: int
  ic_Label :: string

record mcs_stream =
  ms_ChannelData :: "int matrix"
  ms_ChannelDataTimeStamps :: "int list list"
  ms_InfoChannel :: "info_channel list"

text \<open>The adapter's attributes: the open file \<open>_rf\<close> (and whether its handle is still
  open), and what \<open>openMCSH5File\<close> returned.\<close>

record mcsh5 =
  mc_rf :: mcs_stream
  mc_open :: bool
  mc_nFrames :: nat
  mc_samplingRate :: real
  mc_nRecCh :: nat
  mc_channel_ids :: "int list"
  mc_electrodeLabels :: "string list"
  mc_exponent :: int
  mc_convFact :: int

section \<open>\<open>openMCSH5File\<close>\<close>

text \<open>\<open>TimeVals = np.arange(timestamps[0][0], timestamps[0][2] + 1, 1) * Tick\<close>.\<close>

definition mcs_time_vals :: "int list list \<Rightarrow> real \<Rightarrow> real list py" where
  "mcs_time_vals timestamps tick =
     py_bind (py_nth 0 timestamps) (\<lambda>row.
       py_bind (py_nth 0 row) (\<lambda>t0.
         py_bind (py_nth 2 row) (\<lambda>t2. Inr (map (\<lambda>k. of_int k * tick) [t0..t2]))))"

text \<open>\<open>TimeVals[1:] - TimeVals[0:-1]\<close>.\<close>

definition np_diffs :: "real list \<Rightarrow> real list" where
  "np_diffs xs = map (\<lambda>(a, b). b - a) (zip xs (tl xs))"

definition np_min :: "real list \<Rightarrow> real" where
  "np_min xs = foldl min (hd xs) (tl xs)"

text \<open>One test of line 104: \<open>abs(x - avg) / avg < 1e-6\<close>. A zero mean makes the
  quotient \<open>inf\<close> or \<open>nan\<close>, and the comparison false.\<close>

definition mcs_step_ok :: "real \<Rightarrow> real \<Rightarrow> bool" where
  "mcs_step_ok avg x \<longleftrightarrow> avg \<noteq> 0 \<and> \<bar>x - avg\<bar> / avg < 1 / 1000000"

text \<open>Lines 100--105: mean, minimum and ``maximum'' of the time steps (line 103 computes
  the maximum with \<open>np.min\<close>), the 1 ppm assertion, the sampling rate. \<open>np.mean\<close> of
  no steps is \<open>nan\<close> with a warning; \<open>np.min\<close> of no steps raises.\<close>

definition mcs_timestep_check :: "real list \<Rightarrow> real py" where
  "mcs_timestep_check time_vals =
     (let d = np_diffs time_vals in
      if d = [] then Inl (ValueError ''zero-size array to reduction operation minimum which has no identity'')
      else
        let timestep_avg = sum_list d / real (length d);
            timestep_min = np_min d;
            timestep_max = np_min d
        in if mcs_step_ok timestep_avg timestep_min \<and> mcs_step_ok timestep_avg timestep_max
           then Inr (1 / timestep_avg)
           else Inl (AssertionError ''Time steps vary by more than 1 ppm''))"

text \<open>What \<open>openMCSH5File\<close> returns, after the file handle: \<open>nFrames\<close>,
  \<open>samplingRate\<close>, \<open>nRecCh\<close>, \<open>channel_ids\<close>, \<open>electrodeLabels\<close>, \<open>exponent\<close>,
  \<open>convFact\<close>.\<close>

type_synonym mcs_info = "nat \<times> real \<times> nat \<times> int list \<times> string list \<times> int \<times> int"

definition open_mcsh5_file :: "mcs_stream \<Rightarrow> mcs_info py" where
  "open_mcsh5_file stream =
     (let data = ms_ChannelData stream;
          timestamps = ms_ChannelDataTimeStamps stream;
          info = ms_InfoChannel stream
      in py_bind (py_nth 0 info) (\<lambda>info0.
           let Unit = ic_Unit info0;
               Tick = real_of_int (ic_Tick info0) / 1000000;
               exponent = ic_Exponent info0;
               convFact = ic_ConversionFactor info0;
               nRecCh = length data;
               nFrames = np_ncols data;
               channel_ids = map ic_ChannelID info
           in if card (set channel_ids) \<noteq> length channel_ids
              then Inl (AssertionError ''Duplicate MCS channel IDs found'')
              else
                let electrodeLabels = map ic_Label info
                in py_bind (mcs_time_vals timestamps Tick) (\<lambda>TimeVals.
                     if Unit \<noteq> ''V''
                     then Inl (AssertionError (''Unexpected units found, expected volts, found '' @ Unit))
                     else py_bind (mcs_timestep_check TimeVals) (\<lambda>samplingRate.
                       Inr (nFrames, samplingRate, nRecCh, channel_ids, electrodeLabels,
                            exponent, convFact)))))"

text \<open>What the verbose report (lines 107--122) shows of the file beyond the stream:
  its name, its size in bytes and its root attributes, in order. Each \<open>print\<close> call is
  kept as its format string and the values it formats; rendering the numbers with
  \<open>{:.2f}\<close> is \<open>str.format\<close>'s work and is not modelled.\<close>

record h5_file_meta =
  hf_filename :: string
  hf_filesize :: nat
  hf_attrs :: "(string \<times> string) list"

datatype print_arg = PStr string | PInt int | PReal real

record print_call =
  pr_fmt :: string
  pr_args :: "print_arg list"

definition np_max :: "real list \<Rightarrow> real" where
  "np_max xs = foldl max (hd xs) (tl xs)"

definition np_std :: "real list \<Rightarrow> real" where
  "np_std xs =
     (let avg = sum_list xs / real (length xs)
      in sqrt (sum_list (map (\<lambda>x. (x - avg) ^ 2) xs) / real (length xs)))"

text \<open>The two-byte UTF-8 encodings of \<open>micro\<close> and \<open>plus-minus\<close> in the format strings.\<close>

definition utf8_micro :: string where "utf8_micro = [CHR 0xC2, CHR 0xB5]"
definition utf8_plusminus :: string where "utf8_plusminus = [CHR 0xC2, CHR 0xB1]"

definition mcs_verbose_report ::
  "h5_file_meta \<Rightarrow> real matrix \<Rightarrow> nat \<Rightarrow> nat \<Rightarrow> real \<Rightarrow> real \<Rightarrow> real \<Rightarrow> real \<Rightarrow> real \<Rightarrow> print_call list" where
  "mcs_verbose_report rf data_V nRecCh nFrames timestep_avg timestep_std timestep_min timestep_max samplingRate =
     [\<lparr>pr_fmt = ''# MCS H5 data format'', pr_args = []\<rparr>,
      \<lparr>pr_fmt = ''#'', pr_args = []\<rparr>,
      \<lparr>pr_fmt = ''# File: {}'', pr_args = [PStr (hf_filename rf)]\<rparr>,
      \<lparr>pr_fmt = ''# File size: {:.2f} MB'', pr_args = [PReal (real (hf_filesize rf) / 1024 ^ 2)]\<rparr>,
      \<lparr>pr_fmt = ''#'', pr_args = []\<rparr>]
     @ map (\<lambda>(key, v). \<lparr>pr_fmt = ''# {}: {}'', pr_args = [PStr key, PStr v]\<rparr>) (hf_attrs rf)
     @ [\<lparr>pr_fmt = ''#'', pr_args = []\<rparr>,
        \<lparr>pr_fmt = ''# Signal range: {:.2f} to {:.2f} '' @ utf8_micro @ ''V'',
         pr_args = [PReal (np_min (concat data_V) * 1000000), PReal (np_max (concat data_V) * 1000000)]\<rparr>,
        \<lparr>pr_fmt = ''# Number of channels: {}'', pr_args = [PInt (int nRecCh)]\<rparr>,
        \<lparr>pr_fmt = ''# Number of frames: {}'', pr_args = [PInt (int nFrames)]\<rparr>,
        \<lparr>pr_fmt = ''# Time step: {:.2f} '' @ utf8_micro @ ''s '' @ utf8_plusminus @ '' {:.5f} % (range {} to {})'',
         pr_args = [PReal (timestep_avg * 1000000), PReal (timestep_std / timestep_avg * 100),
                    PReal (timestep_min * 1000000), PReal (timestep_max * 1000000)]\<rparr>,
        \<lparr>pr_fmt = ''# Sampling rate: {:.2f} Hz'', pr_args = [PReal samplingRate]\<rparr>,
        \<lparr>pr_fmt = ''#'', pr_args = []\<rparr>,
        \<lparr>pr_fmt = ''# MCSH5RecordingExtractor currently only reads /Data/Recording_0/AnalogStream/Stream_0'',
         pr_args = []\<rparr>]"

text \<open>\<open>openMCSH5File(filename, verbose)\<close> as a whole: the result of \<open>open_mcsh5_file\<close> and
  the report printed when \<open>verbose\<close> is set, from the values the function computed
  (\<open>data_V\<close>, the time-step statistics with the maximum taken by \<open>np.min\<close>, line 103).\<close>

definition open_mcsh5_file_verbose :: "bool \<Rightarrow> h5_file_meta \<Rightarrow> mcs_stream \<Rightarrow> (mcs_info \<times> print_call list) py" where
  "open_mcsh5_file_verbose verbose rf stream =
     py_bind (open_mcsh5_file stream) (\<lambda>info.
       if \<not> verbose then Inr (info, [])
       else
         (case info of (nFrames, samplingRate, nRecCh, channel_ids, electrodeLabels, exponent, convFact) \<Rightarrow>
            py_bind (py_nth 0 (ms_InfoChannel stream)) (\<lambda>info0.
              let Tick = real_of_int (ic_Tick info0) / 1000000;
                  data_V = np_map (\<lambda>x. real_of_int x * real_of_int convFact * power_int 10 exponent)
                             (ms_ChannelData stream)
              in py_bind (mcs_time_vals (ms_ChannelDataTimeStamps stream) Tick) (\<lambda>TimeVals.
                   let d = np_diffs TimeVals;
                       timestep_avg = sum_list d / real (length d)
                   in Inr (info, mcs_verbose_report rf data_V nRecCh nFrames timestep_avg (np_std d)
                                   (np_min d) (np_min d) samplingRate)))))"

section \<open>The adapter\<close>

definition mcs_install_msg :: string where
  "mcs_install_msg = ''To use the MCSH5RecordingExtractor install h5py: \<newline>\<newline> pip install h5py\<newline>\<newline>''"

text \<open>The class attributes (lines 14--18 and 22): \<open>installed\<close> is \<open>HAVE_MCSH5\<close>, whether
  \<open>import h5py\<close> succeeded (lines 6--10).\<close>

definition mcsh5_class :: "bool \<Rightarrow> extractor_class" where
  "mcsh5_class have_mcsh5 =
     \<lparr>ec_extractor_name = ''MCSH5RecordingExtractor'', ec_has_default_locations = False,
      ec_installed = have_mcsh5, ec_is_writable = False, ec_mode = ''file'',
      ec_installation_mesg = mcs_install_msg\<rparr>"

text \<open>The GUI descriptors (lines 19--21) and the constructor's signature (line 24).\<close>

definition mcsh5_gui_params :: "gui_param list" where
  "mcsh5_gui_params =
     [\<lparr>gp_name = ''file_path'', gp_type = ''file'', gp_title = ''Path to file (.h5 or .hdf5)'',
       gp_value = None, gp_default = None\<rparr>]"

definition mcsh5_init_signature :: py_signature where
  "mcsh5_init_signature = \<lparr>sig_params = [''file_path'', ''verbose''], sig_defaults = [(''verbose'', GuiBool False)]\<rparr>"

definition mcsh5_init :: "bool \<Rightarrow> mcs_stream \<Rightarrow> mcsh5 py" where
  "mcsh5_init have_mcsh5 stream =
     (if \<not> have_mcsh5 then Inl (AssertionError mcs_install_msg)
      else py_bind (open_mcsh5_file stream)
        (\<lambda>(nFrames, samplingRate, nRecCh, channel_ids, electrodeLabels, exponent, convFact).
           Inr \<lparr>mc_rf = stream, mc_open = True, mc_nFrames = nFrames,
                mc_samplingRate = samplingRate, mc_nRecCh = nRecCh, mc_channel_ids = channel_ids,
                mc_electrodeLabels = electrodeLabels, mc_exponent = exponent,
                mc_convFact = convFact\<rparr>))"

text \<open>\<open>__del__\<close>: closes the file handle.\<close>

definition mcsh5_del :: "mcsh5 \<Rightarrow> mcsh5" where
  "mcsh5_del s = s\<lparr>mc_open := False\<rparr>"

definition mcsh5_get_channel_ids :: "mcsh5 \<Rightarrow> int list" where
  "mcsh5_get_channel_ids s = mc_channel_ids s"

definition mcsh5_get_num_frames :: "mcsh5 \<Rightarrow> nat" where
  "mcsh5_get_num_frames s = mc_nFrames s"

definition mcsh5_get_sampling_frequency :: "mcsh5 \<Rightarrow> real" where
  "mcsh5_get_sampling_frequency s = mc_samplingRate s"

text \<open>Line 63: \<open>ChannelData * convFact * 10.0 ** exponent\<close>, recomputed at each read,
  one sample at a time.\<close>

definition mcs_calib :: "mcsh5 \<Rightarrow> int \<Rightarrow> real" where
  "mcs_calib s x = real_of_int x * real_of_int (mc_convFact s) * power_int 10 (mc_exponent s)"

definition mcs_data_V :: "mcsh5 \<Rightarrow> real matrix" where
  "mcs_data_V s = np_map (mcs_calib s) (ms_ChannelData (mc_rf s))"

text \<open>Lines 50--60: \<open>assert m in self._channel_ids\<close>, then
  \<open>np.where(self._channel_ids == m)[0][0]\<close>.\<close>

definition mcs_channel_index :: "mcsh5 \<Rightarrow> int \<Rightarrow> nat py" where
  "mcs_channel_index s m =
     (if m \<in> set (mc_channel_ids s) then Inr (first_pos (mc_channel_ids s) m)
      else Inl (AssertionError (''channel_id '' @ py_str_int m @ '' not found'')))"

text \<open>\<open>get_traces\<close> (lines 45--65). When \<open>channel_ids\<close> is \<open>None\<close>, the local
  \<open>channel_indices\<close> is never assigned and line 65 raises.\<close>

definition mcsh5_get_traces :: "mcsh5 \<Rightarrow> chan_arg \<Rightarrow> int option \<Rightarrow> int option \<Rightarrow> ndarray py" where
  "mcsh5_get_traces s channel_ids start_frame end_frame =
     (let start = (case start_frame of None \<Rightarrow> 0 | Some a \<Rightarrow> a);
          stop = (case end_frame of None \<Rightarrow> int (mcsh5_get_num_frames s) | Some b \<Rightarrow> b);
          channel_indices =
            (case channel_ids of
               AllChannels \<Rightarrow> Inr None
             | OneChannel c \<Rightarrow> map_sum id (\<lambda>i. Some (Inl i)) (mcs_channel_index s c)
             | ChannelList cs \<Rightarrow> map_sum id (\<lambda>is. Some (Inr is)) (py_mapM (mcs_channel_index s) cs))
      in py_bind channel_indices (\<lambda>ci.
           let data_V = mcs_data_V s
           in case ci of
                None \<Rightarrow> Inl (UnboundLocalError ''channel_indices'')
              | Some (Inl i) \<Rightarrow> map_sum id (\<lambda>r. Arr1 (py_slice start stop r)) (np_row data_V (int i))
              | Some (Inr is) \<Rightarrow>
                  map_sum id (\<lambda>m. Arr2 (np_cols start stop m)) (np_take_rows data_V (map int is))))"

text \<open>\<open>write_recording\<close> (lines 67--73): unsupported.\<close>

definition mcsh5_write_recording :: "bool \<Rightarrow> 'r \<Rightarrow> string \<Rightarrow> unit py" where
  "mcsh5_write_recording have_mcsh5 recording save_path =
     (if \<not> have_mcsh5 then Inl (AssertionError mcs_install_msg) else Inl NotImplementedError)"


section \<open>Well-formed files and states\<close>

text \<open>An MCS stream as the format lays it out: one \<open>InfoChannel\<close> row per row of
  \<open>ChannelData\<close>, and a two-dimensional \<open>ChannelData\<close>.\<close>

definition mcs_stream_wf :: "mcs_stream \<Rightarrow> bool" where
  "mcs_stream_wf st \<longleftrightarrow>
     length (ms_InfoChannel st) = length (ms_ChannelData st)
     \<and> rectangular (np_ncols (ms_ChannelData st)) (ms_ChannelData st)"

text \<open>What the adapter keeps true after construction: one distinct id per data row.\<close>

definition mcsh5_wf :: "mcsh5 \<Rightarrow> bool" where
  "mcsh5_wf s \<longleftrightarrow>
     length (mc_channel_ids s) = length (ms_ChannelData (mc_rf s))
     \<and> rectangular (mc_nFrames s) (ms_ChannelData (mc_rf s)) \<and> distinct (mc_channel_ids s)"

section \<open>Example file used by the witnesses\<close>

definition mcs_ex_stream :: mcs_stream where
  "mcs_ex_stream =
     \<lparr>ms_ChannelData = [[1, 2, 3], [4, 5, 6]], ms_ChannelDataTimeStamps = [[0, 1, 2]],
      ms_InfoChannel =
        [\<lparr>ic_Unit = ''V'', ic_Tick = 100, ic_Exponent = -3, ic_ConversionFactor = 2,
          ic_ChannelID = 3, ic_Label = ''A1''\<rparr>,
         \<lparr>ic_Unit = ''V'', ic_Tick = 100, ic_Exponent = -3, ic_ConversionFactor = 2,
          ic_ChannelID = 8, ic_Label = ''A2''\<rparr>]\<rparr>"

definition mcs_ex :: mcsh5 where
  "mcs_ex = \<lparr>mc_rf = mcs_ex_stream, mc_open = True, mc_nFrames = 3, mc_samplingRate = 10000,
             mc_nRecCh = 2, mc_channel_ids = [3, 8], mc_electrodeLabels = [''A1'', ''A2''],
             mc_exponent = -3, mc_convFact = 2\<rparr>"

section \<open>Lemmas\<close>

lemma np_diffs_simps [simp]:
  "np_diffs [] = []" "np_diffs [x] = []" "np_diffs (x # y # zs) = (y - x) # np_diffs (y # zs)"
  by (simp_all add: np_diffs_def)

lemma np_diffs_progression:
  "np_diffs (map (\<lambda>k. real_of_int k * c) [a..a + int n]) = replicate n c"
proof (induction n arbitrary: a)
  case 0
  then show ?case by simp
next
  case (Suc n)
  have u1: "[a..a + int (Suc n)] = a # [a + 1..(a + 1) + int n]"
    by (simp add: upto_rec1 add.assoc)
  have u2: "[a + 1..(a + 1) + int n] = (a + 1) # [(a + 1) + 1..(a + 1) + int n]"
    by (rule upto_rec1) simp
  have "np_diffs (map (\<lambda>k. real_of_int k * c) [a + 1..(a + 1) + int n]) = replicate n c"
    by (rule Suc.IH)
  then show ?case
    by (simp only: u1 u2 list.map np_diffs_simps(3)) (simp add: algebra_simps)
qed

lemma np_min_replicate: "np_min (replicate (Suc n) c) = c"
proof -
  have "foldl min c (replicate n c) = c" for n
    by (induction n) simp_all
  then show ?thesis by (simp add: np_min_def)
qed

lemma mcs_timestep_check_replicate:
  assumes "np_diffs tv = replicate (Suc n) c"
  shows "mcs_timestep_check tv =
           (if c = 0 then Inl (AssertionError ''Time steps vary by more than 1 ppm'') else Inr (1 / c))"
proof -
  have nz: "real (Suc n) \<noteq> 0" by simp
  have avg: "sum_list (np_diffs tv) / real (length (np_diffs tv)) = c"
    by (simp only: assms sum_list_replicate length_replicate nonzero_mult_div_cancel_left [OF nz])
  have mn: "np_min (np_diffs tv) = c"
    by (simp only: assms np_min_replicate)
  have ne: "np_diffs tv \<noteq> []"
    using assms by simp
  have ok: "mcs_step_ok c c \<longleftrightarrow> c \<noteq> 0"
    by (simp add: mcs_step_ok_def)
  show ?thesis
    unfolding mcs_timestep_check_def Let_def using avg mn ne ok by simp
qed

lemma mcs_time_vals_shape:
  assumes "mcs_time_vals timestamps tick = Inr tv"
  obtains t0 x t2 ys rows where "timestamps = (t0 # x # t2 # ys) # rows"
proof -
  obtain row rows where r: "timestamps = row # rows" and len: "2 < length row"
    using assms by (cases timestamps) (auto simp: mcs_time_vals_def py_nth_def split: if_splits)
  obtain t0 x t2 ys where "row = t0 # x # t2 # ys"
    using len by (rule length_gt_2_Cons)
  then show ?thesis
    using r that by blast
qed

lemma mcs_time_vals_row:
  "mcs_time_vals ((t0 # x # t2 # ys) # rows) tick = Inr (map (\<lambda>k. real_of_int k * tick) [t0..t2])"
  by (simp add: mcs_time_vals_def py_nth_def)

lemma mcs_steps_of_row:
  "np_diffs (map (\<lambda>k. real_of_int k * tick) [t0..t2])
     = (if t2 \<le> t0 then [] else replicate (nat (t2 - t0)) tick)"
proof (cases "t2 \<le> t0")
  case True
  then have "[t0..t2] = [] \<or> [t0..t2] = [t0]"
    by (cases "t2 < t0") (simp_all add: upto_rec1)
  then show ?thesis using True by auto
next
  case False
  then have "t2 = t0 + int (nat (t2 - t0))" by simp
  then have "np_diffs (map (\<lambda>k. real_of_int k * tick) [t0..t2]) = replicate (nat (t2 - t0)) tick"
    by (metis np_diffs_progression)
  then show ?thesis using False by simp
qed

lemma open_mcsh5_file_eq:
  assumes "ms_InfoChannel st = info0 # rest"
      and "ms_ChannelDataTimeStamps st = (t0 # x # t2 # ys) # rows"
  shows "open_mcsh5_file st =
    (if \<not> distinct (map ic_ChannelID (info0 # rest))
     then Inl (AssertionError ''Duplicate MCS channel IDs found'')
     else if ic_Unit info0 \<noteq> ''V''
     then Inl (AssertionError (''Unexpected units found, expected volts, found '' @ ic_Unit info0))
     else if t2 \<le> t0
     then Inl (ValueError ''zero-size array to reduction operation minimum which has no identity'')
     else if ic_Tick info0 = 0
     then Inl (AssertionError ''Time steps vary by more than 1 ppm'')
     else Inr (np_ncols (ms_ChannelData st), 1000000 / real_of_int (ic_Tick info0),
               length (ms_ChannelData st), map ic_ChannelID (info0 # rest),
               map ic_Label (info0 # rest), ic_Exponent info0, ic_ConversionFactor info0))"
proof -
  let ?tick = "real_of_int (ic_Tick info0) / 1000000"
  let ?tv = "map (\<lambda>k. real_of_int k * ?tick) [t0..t2]"
  let ?ok = "\<lambda>fs. Inr (np_ncols (ms_ChannelData st), fs, length (ms_ChannelData st),
               map ic_ChannelID (info0 # rest), map ic_Label (info0 # rest), ic_Exponent info0,
               ic_ConversionFactor info0) :: mcs_info py"
  have common: "open_mcsh5_file st =
    (if \<not> distinct (map ic_ChannelID (info0 # rest))
     then Inl (AssertionError ''Duplicate MCS channel IDs found'')
     else if ic_Unit info0 \<noteq> ''V''
     then Inl (AssertionError (''Unexpected units found, expected volts, found '' @ ic_Unit info0))
     else py_bind (mcs_timestep_check ?tv) ?ok)"
    using assms by (simp add: open_mcsh5_file_def py_nth_def Let_def mcs_time_vals_row card_set_length_iff)
  have chk: "mcs_timestep_check ?tv =
    (if t2 \<le> t0
     then Inl (ValueError ''zero-size array to reduction operation minimum which has no identity'')
     else if ic_Tick info0 = 0
     then Inl (AssertionError ''Time steps vary by more than 1 ppm'')
     else Inr (1000000 / real_of_int (ic_Tick info0)))"
  proof (cases "t2 \<le> t0")
    case True
    then have "np_diffs ?tv = []"
      by (simp only: mcs_steps_of_row if_True)
    then show ?thesis
      using True by (simp add: mcs_timestep_check_def)
  next
    case False
    then obtain n where n: "nat (t2 - t0) = Suc n"
      by (metis gr0_implies_Suc zero_less_nat_eq diff_gt_0_iff_gt not_le)
    then have "np_diffs ?tv = replicate (Suc n) ?tick"
      using False by (simp only: mcs_steps_of_row if_False)
    then have "mcs_timestep_check ?tv =
      (if ?tick = 0 then Inl (AssertionError ''Time steps vary by more than 1 ppm'') else Inr (1 / ?tick))"
      by (rule mcs_timestep_check_replicate)
    then show ?thesis
      using False by simp
  qed
  show ?thesis
    using common chk by simp
qed

lemma mcs_ex_init: "mcsh5_init True mcs_ex_stream = Inr mcs_ex"
  by (simp add: mcsh5_init_def open_mcsh5_file_eq mcs_ex_stream_def mcs_ex_def np_ncols_def)

lemma mcs_ex_wf: "mcsh5_wf mcs_ex" "mcs_stream_wf mcs_ex_stream"
  by (simp_all add: mcsh5_wf_def mcs_stream_wf_def mcs_ex_def mcs_ex_stream_def np_ncols_def)

lemma mcs_rows_ok:
  assumes "mcsh5_wf s" "set cs \<subseteq> set (mcsh5_get_channel_ids s)"
  shows "py_mapM (mcs_channel_index s) cs = Inr (map (first_pos (mc_channel_ids s)) cs)"
    and "\<And>i. i \<in> set (map (first_pos (mc_channel_ids s)) cs) \<Longrightarrow> i < length (mcs_data_V s)"
proof -
  show "py_mapM (mcs_channel_index s) cs = Inr (map (first_pos (mc_channel_ids s)) cs)"
    using assms(2) by (intro py_mapM_map) (auto simp: mcs_channel_index_def mcsh5_get_channel_ids_def)
next
  fix i
  assume "i \<in> set (map (first_pos (mc_channel_ids s)) cs)"
  then show "i < length (mcs_data_V s)"
    using assms first_pos_bound
    by (fastforce simp: mcsh5_wf_def mcsh5_get_channel_ids_def mcs_data_V_def)
qed

lemma mcs_traces_selected:
  assumes "mcsh5_wf s" "set cs \<subseteq> set (mcsh5_get_channel_ids s)"
      and "frame_range (mcsh5_get_num_frames s) start_frame end_frame = (a, b)"
  shows "mcsh5_get_traces s (ChannelList cs) start_frame end_frame
         = Inr (Arr2 (map (\<lambda>c. py_slice a b (map (mcs_calib s)
                    (ms_ChannelData (mc_rf s) ! first_pos (mcsh5_get_channel_ids s) c))) cs))"
proof -
  let ?idx = "map (first_pos (mc_channel_ids s)) cs"
  have rows: "np_take_rows (mcs_data_V s) (map int ?idx) = Inr (map (\<lambda>i. mcs_data_V s ! i) ?idx)"
    using mcs_rows_ok(2) [OF assms(1,2)] by (rule np_take_rows_nat)
  have "np_cols a b (map (\<lambda>i. mcs_data_V s ! i) ?idx)
        = map (\<lambda>c. py_slice a b (map (mcs_calib s) (ms_ChannelData (mc_rf s) ! first_pos (mc_channel_ids s) c))) cs"
    using mcs_rows_ok(2) [OF assms(1,2)]
    by (simp add: np_cols_def mcs_data_V_def np_map_def)
  then show ?thesis
    using mcs_rows_ok(1) [OF assms(1,2)] rows assms(3)
    by (simp add: mcsh5_get_traces_def Let_def frame_range_def mcsh5_get_channel_ids_def split: prod.splits)
qed

text \<open>\<open>get_traces\<close> slices frames with Python's bounds, for every form of \<open>channel_ids\<close>.\<close>

lemma mcsh5_traces_normal:
  assumes "mcsh5_wf s"
  shows "mcsh5_get_traces s ca (Some a) (Some b)
         = mcsh5_get_traces s ca (Some (int (py_slice_bound a (mcsh5_get_num_frames s))))
                                 (Some (int (py_slice_bound b (mcsh5_get_num_frames s))))"
proof -
  let ?n = "mcsh5_get_num_frames s"
  have rect: "rectangular ?n (mcs_data_V s)"
    using assms by (simp add: mcsh5_wf_def mcsh5_get_num_frames_def mcs_data_V_def)
  have row: "map_sum id (\<lambda>r. Arr1 (py_slice a b r)) (np_row (mcs_data_V s) i)
             = map_sum id (\<lambda>r. Arr1 (py_slice (int (py_slice_bound a ?n)) (int (py_slice_bound b ?n)) r))
                 (np_row (mcs_data_V s) i)" for i
  proof (cases "np_index_ok (length (mcs_data_V s)) i")
    case True
    let ?r = "mcs_data_V s ! np_norm_index (length (mcs_data_V s)) i"
    have "?r \<in> set (mcs_data_V s)" using True by (intro nth_mem np_norm_index_bound)
    then have "length ?r = ?n" using rect by (simp add: rectangular_def list_all_iff)
    then show ?thesis using True py_slice_normal [of ?r ?n a b] by (simp add: np_row_def)
  qed (simp add: np_row_def)
  show ?thesis
    unfolding mcsh5_get_traces_def Let_def option.case
    using row take_rows_cols_normal [OF rect, of Arr2 a b]
    by (simp split: sum.split option.split)
qed

section \<open>Properties of the HDF5 adapter\<close>

text \<open>C10. On a file whose \<open>InfoChannel\<close> table is non-empty and whose first time-stamp row
  has three entries, \<open>openMCSH5File\<close> fails, in this order, on duplicate channel ids, on a
  unit other than volts, on fewer than two time stamps (the minimum of no steps) and on a
  zero tick; otherwise it returns the column and row counts, the sampling rate
  \<open>10^6 / Tick\<close>, the ids, labels, exponent and conversion factor of the table.\<close>

theorem open_mcsh5_file_spec:
  assumes "ms_InfoChannel st = info0 # rest"
      and "ms_ChannelDataTimeStamps st = (t0 # x # t2 # ys) # rows"
  shows "open_mcsh5_file st =
    (if \<not> distinct (map ic_ChannelID (info0 # rest))
     then Inl (AssertionError ''Duplicate MCS channel IDs found'')
     else if ic_Unit info0 \<noteq> ''V''
     then Inl (AssertionError (''Unexpected units found, expected volts, found '' @ ic_Unit info0))
     else if t2 \<le> t0
     then Inl (ValueError ''zero-size array to reduction operation minimum which has no identity'')
     else if ic_Tick info0 = 0
     then Inl (AssertionError ''Time steps vary by more than 1 ppm'')
     else Inr (np_ncols (ms_ChannelData st), 1000000 / real_of_int (ic_Tick info0),
               length (ms_ChannelData st), map ic_ChannelID (info0 # rest),
               map ic_Label (info0 # rest), ic_Exponent info0, ic_ConversionFactor info0))"
  using assms by (rule open_mcsh5_file_eq)

theorem open_mcsh5_file_spec_witness:
  "ms_InfoChannel mcs_ex_stream = hd (ms_InfoChannel mcs_ex_stream) # tl (ms_InfoChannel mcs_ex_stream)
   \<and> ms_ChannelDataTimeStamps mcs_ex_stream = [0, 1, 2] # []
   \<and> open_mcsh5_file mcs_ex_stream = Inr (3, 10000, 2, [3, 8], [''A1'', ''A2''], -3, 2)"
proof -
  have i: "ms_InfoChannel mcs_ex_stream = hd (ms_InfoChannel mcs_ex_stream) # tl (ms_InfoChannel mcs_ex_stream)"
    by (simp add: mcs_ex_stream_def)
  have t: "ms_ChannelDataTimeStamps mcs_ex_stream = [0, 1, 2] # []"
    by (simp add: mcs_ex_stream_def)
  show ?thesis
    using open_mcsh5_file_spec [OF i t] i t by (simp add: mcs_ex_stream_def np_ncols_def)
qed

text \<open>Construction fails with the duplicate-id assertion when two entries of the channel-id
  table are equal, whatever the rest of the file holds.\<close>

theorem mcsh5_init_duplicate_ids:
  assumes "ms_InfoChannel stream = info0 # rest" "\<not> distinct (map ic_ChannelID (info0 # rest))"
  shows "mcsh5_init True stream = Inl (AssertionError ''Duplicate MCS channel IDs found'')"
  using assms by (simp add: mcsh5_init_def open_mcsh5_file_def py_nth_def Let_def card_set_length_iff)

theorem mcsh5_init_duplicate_ids_witness:
  "ms_InfoChannel (mcs_ex_stream\<lparr>ms_InfoChannel := [hd (ms_InfoChannel mcs_ex_stream), hd (ms_InfoChannel mcs_ex_stream)]\<rparr>)
     = hd (ms_InfoChannel mcs_ex_stream) # [hd (ms_InfoChannel mcs_ex_stream)]
   \<and> \<not> distinct (map ic_ChannelID (hd (ms_InfoChannel mcs_ex_stream) # [hd (ms_InfoChannel mcs_ex_stream)]))
   \<and> mcsh5_init True (mcs_ex_stream\<lparr>ms_InfoChannel := [hd (ms_InfoChannel mcs_ex_stream), hd (ms_InfoChannel mcs_ex_stream)]\<rparr>)
       = Inl (AssertionError ''Duplicate MCS channel IDs found'')"
  using mcsh5_init_duplicate_ids [of "mcs_ex_stream\<lparr>ms_InfoChannel := [hd (ms_InfoChannel mcs_ex_stream), hd (ms_InfoChannel mcs_ex_stream)]\<rparr>"
                                     "hd (ms_InfoChannel mcs_ex_stream)" "[hd (ms_InfoChannel mcs_ex_stream)]"]
  by simp

text \<open>Construction fails with the unit assertion when the declared unit is not \<open>V\<close>
  (e.g. \<open>A\<close>), for a file with distinct ids and a well-formed time-stamp row.\<close>

theorem mcsh5_init_unit:
  assumes "ms_InfoChannel stream = info0 # rest" "distinct (map ic_ChannelID (info0 # rest))"
      and "ms_ChannelDataTimeStamps stream = (t0 # x # t2 # ys) # rows" "ic_Unit info0 \<noteq> ''V''"
  shows "mcsh5_init True stream
         = Inl (AssertionError (''Unexpected units found, expected volts, found '' @ ic_Unit info0))"
  using open_mcsh5_file_eq [OF assms(1,3)] assms(2,4) by (simp add: mcsh5_init_def)

theorem mcsh5_init_unit_witness:
  "ms_InfoChannel (mcs_ex_stream\<lparr>ms_InfoChannel := map (\<lambda>r. r\<lparr>ic_Unit := ''A''\<rparr>) (ms_InfoChannel mcs_ex_stream)\<rparr>)
     = hd (ms_InfoChannel mcs_ex_stream)\<lparr>ic_Unit := ''A''\<rparr> # [last (ms_InfoChannel mcs_ex_stream)\<lparr>ic_Unit := ''A''\<rparr>]
   \<and> distinct (map ic_ChannelID (hd (ms_InfoChannel mcs_ex_stream)\<lparr>ic_Unit := ''A''\<rparr> # [last (ms_InfoChannel mcs_ex_stream)\<lparr>ic_Unit := ''A''\<rparr>]))
   \<and> ms_ChannelDataTimeStamps (mcs_ex_stream\<lparr>ms_InfoChannel := map (\<lambda>r. r\<lparr>ic_Unit := ''A''\<rparr>) (ms_InfoChannel mcs_ex_stream)\<rparr>)
     = [0, 1, 2] # []
   \<and> mcsh5_init True (mcs_ex_stream\<lparr>ms_InfoChannel := map (\<lambda>r. r\<lparr>ic_Unit := ''A''\<rparr>) (ms_InfoChannel mcs_ex_stream)\<rparr>)
       = Inl (AssertionError ''Unexpected units found, expected volts, found A'')"
proof -
  let ?st = "mcs_ex_stream\<lparr>ms_InfoChannel := map (\<lambda>r. r\<lparr>ic_Unit := ''A''\<rparr>) (ms_InfoChannel mcs_ex_stream)\<rparr>"
  let ?i0 = "hd (ms_InfoChannel mcs_ex_stream)\<lparr>ic_Unit := ''A''\<rparr>"
  let ?rest = "[last (ms_InfoChannel mcs_ex_stream)\<lparr>ic_Unit := ''A''\<rparr>]"
  have i: "ms_InfoChannel ?st = ?i0 # ?rest" by (simp add: mcs_ex_stream_def)
  have d: "distinct (map ic_ChannelID (?i0 # ?rest))" by (simp add: mcs_ex_stream_def)
  have t: "ms_ChannelDataTimeStamps ?st = [0, 1, 2] # []" by (simp add: mcs_ex_stream_def)
  have u: "ic_Unit ?i0 \<noteq> ''V''" by simp
  show ?thesis
    using mcsh5_init_unit [OF i d t u] i d t by simp
qed

text \<open>C12. A successful construction from a well-formed file yields a state with one distinct id per
  data row, the file handle open, \<open>get_num_frames()\<close> the column count, the ids of the
  table, and a sampling rate of \<open>10^6 / Tick\<close> for a volt unit, at least two time stamps and
  a non-zero tick.\<close>

theorem mcsh5_init_state:
  assumes "mcs_stream_wf stream" "mcsh5_init True stream = Inr s"
  shows "mcsh5_wf s \<and> mc_open s \<and> mc_rf s = stream
         \<and> mcsh5_get_num_frames s = np_ncols (ms_ChannelData stream)
         \<and> mcsh5_get_channel_ids s = map ic_ChannelID (ms_InfoChannel stream)
         \<and> (\<exists>info0 rest t0 x t2 ys rows. ms_InfoChannel stream = info0 # rest
              \<and> ms_ChannelDataTimeStamps stream = (t0 # x # t2 # ys) # rows \<and> t0 < t2
              \<and> ic_Unit info0 = ''V'' \<and> ic_Tick info0 \<noteq> 0
              \<and> mcsh5_get_sampling_frequency s = 1000000 / real_of_int (ic_Tick info0))"
proof -
  obtain r where op: "open_mcsh5_file stream = Inr r"
    using assms(2) by (cases "open_mcsh5_file stream") (auto simp: mcsh5_init_def)
  obtain info0 rest where info: "ms_InfoChannel stream = info0 # rest"
    using op by (cases "ms_InfoChannel stream") (auto simp: open_mcsh5_file_def py_nth_def)
  obtain tv where "mcs_time_vals (ms_ChannelDataTimeStamps stream) (real_of_int (ic_Tick info0) / 1000000) = Inr tv"
    using op info by (auto simp: open_mcsh5_file_def py_nth_def Let_def split: if_splits)
  then obtain t0 x t2 ys rows where ts: "ms_ChannelDataTimeStamps stream = (t0 # x # t2 # ys) # rows"
    by (rule mcs_time_vals_shape)
  show ?thesis
    using open_mcsh5_file_eq [OF info ts] op assms
    by (auto simp: info ts mcsh5_init_def mcsh5_wf_def mcs_stream_wf_def mcsh5_get_num_frames_def
                   mcsh5_get_channel_ids_def mcsh5_get_sampling_frequency_def np_ncols_rectangular
                   split: if_splits)
qed

theorem mcsh5_init_state_witness:
  "mcs_stream_wf mcs_ex_stream \<and> mcsh5_init True mcs_ex_stream = Inr mcs_ex
   \<and> mcsh5_get_sampling_frequency mcs_ex = 10000 \<and> mcsh5_get_num_frames mcs_ex = 3"
proof -
  have "mcsh5_get_sampling_frequency mcs_ex = 1000000 / 100"
    using mcsh5_init_state [OF mcs_ex_wf(2) mcs_ex_init] by (auto simp: mcs_ex_stream_def)
  then show ?thesis
    using mcsh5_init_state [OF mcs_ex_wf(2) mcs_ex_init] mcs_ex_wf(2) mcs_ex_init
    by (simp add: mcs_ex_stream_def np_ncols_def)
qed

text \<open>C13. \<open>get_traces()\<close> without channel ids always fails: the local \<open>channel_indices\<close> is
  assigned only when ids are given, so line 65 raises \<open>UnboundLocalError\<close>.\<close>

theorem mcsh5_get_traces_default_unbound:
  "mcsh5_get_traces s AllChannels start_frame end_frame = Inl (UnboundLocalError ''channel_indices'')"
  by (simp add: mcsh5_get_traces_def)

text \<open>C14. \<open>get_traces\<close> with a list of known ids returns a two-dimensional array with the
  requested rows in the requested order, each the frame slice of the data row of that id
  scaled by \<open>convFact * 10^exponent\<close>.\<close>

theorem mcsh5_get_traces_channels:
  assumes "mcsh5_wf s" "set cs \<subseteq> set (mcsh5_get_channel_ids s)"
      and "frame_range (mcsh5_get_num_frames s) start_frame end_frame = (a, b)"
  shows "mcsh5_get_traces s (ChannelList cs) start_frame end_frame
         = Inr (Arr2 (map (\<lambda>c. py_slice a b (map (mcs_calib s)
                    (ms_ChannelData (mc_rf s) ! first_pos (mcsh5_get_channel_ids s) c))) cs))"
  using assms by (rule mcs_traces_selected)

theorem mcsh5_get_traces_channels_witness:
  "mcsh5_wf mcs_ex \<and> set [8, 3] \<subseteq> set (mcsh5_get_channel_ids mcs_ex)
   \<and> frame_range (mcsh5_get_num_frames mcs_ex) (Some 1) None = (1, 3)
   \<and> mcsh5_get_traces mcs_ex (ChannelList [8, 3]) (Some 1) None
       = Inr (Arr2 [[1 / 100, 3 / 250], [1 / 250, 3 / 500]])"
proof -
  have sub: "set [8, 3] \<subseteq> set (mcsh5_get_channel_ids mcs_ex)"
    by (simp add: mcs_ex_def mcsh5_get_channel_ids_def)
  have rng: "frame_range (mcsh5_get_num_frames mcs_ex) (Some 1) None = (1, 3)"
    by (simp add: frame_range_def mcsh5_get_num_frames_def mcs_ex_def)
  show ?thesis
    using mcsh5_get_traces_channels [OF mcs_ex_wf(1) sub rng] mcs_ex_wf(1) sub rng
    by (simp add: mcs_ex_def mcs_ex_stream_def mcsh5_get_channel_ids_def first_pos_def
                  py_slice_def py_slice_bound_def mcs_calib_def power_int_def power_divide)
qed

text \<open>C15. An unknown id in the requested list fails with the assertion naming the first unknown id.\<close>

theorem mcsh5_get_traces_unknown:
  assumes "set known \<subseteq> set (mcsh5_get_channel_ids s)" "c \<notin> set (mcsh5_get_channel_ids s)"
  shows "mcsh5_get_traces s (ChannelList (known @ c # rest)) start_frame end_frame
         = Inl (AssertionError (''channel_id '' @ py_str_int c @ '' not found''))"
proof -
  have "py_mapM (mcs_channel_index s) known = Inr (map (first_pos (mc_channel_ids s)) known)"
    using assms(1) by (intro py_mapM_map) (auto simp: mcs_channel_index_def mcsh5_get_channel_ids_def)
  moreover have "mcs_channel_index s c = Inl (AssertionError (''channel_id '' @ py_str_int c @ '' not found''))"
    using assms(2) by (simp add: mcs_channel_index_def mcsh5_get_channel_ids_def)
  ultimately have "py_mapM (mcs_channel_index s) (known @ c # rest)
                   = Inl (AssertionError (''channel_id '' @ py_str_int c @ '' not found''))"
    by (induction known) (auto split: sum.splits)
  then show ?thesis
    by (simp add: mcsh5_get_traces_def Let_def)
qed

theorem mcsh5_get_traces_unknown_witness:
  "set [8] \<subseteq> set (mcsh5_get_channel_ids mcs_ex) \<and> 5 \<notin> set (mcsh5_get_channel_ids mcs_ex)
   \<and> mcsh5_get_traces mcs_ex (ChannelList [8, 5, 3]) None None
       = Inl (AssertionError ''channel_id 5 not found'')"
proof -
  have a: "set [8] \<subseteq> set (mcsh5_get_channel_ids mcs_ex)" "5 \<notin> set (mcsh5_get_channel_ids mcs_ex)"
    by (simp_all add: mcs_ex_def mcsh5_get_channel_ids_def)
  show ?thesis
    using mcsh5_get_traces_unknown [OF a, of "[3]" None None] a
    by (simp add: py_str_int_def show_nat.simps digit_char_def)
qed

text \<open>\<open>get_traces\<close> with a single \<open>int\<close> id returns a one-dimensional array: the scaled
  frame slice of that id's row.\<close>

theorem mcsh5_get_traces_one_channel:
  assumes "mcsh5_wf s" "c \<in> set (mcsh5_get_channel_ids s)"
      and "frame_range (mcsh5_get_num_frames s) start_frame end_frame = (a, b)"
  shows "mcsh5_get_traces s (OneChannel c) start_frame end_frame
         = Inr (Arr1 (py_slice a b (map (mcs_calib s)
                  (ms_ChannelData (mc_rf s) ! first_pos (mcsh5_get_channel_ids s) c))))"
proof -
  have i: "first_pos (mc_channel_ids s) c < length (mcs_data_V s)"
    using mcs_rows_ok(2) [OF assms(1), of "[c]"] assms(2) by simp
  then show ?thesis
    using assms(2,3)
    by (simp add: mcsh5_get_traces_def Let_def frame_range_def mcsh5_get_channel_ids_def
                  mcs_channel_index_def np_row_nat mcs_data_V_def np_map_def split: prod.splits)
qed

theorem mcsh5_get_traces_one_channel_witness:
  "mcsh5_wf mcs_ex \<and> 8 \<in> set (mcsh5_get_channel_ids mcs_ex)
   \<and> frame_range (mcsh5_get_num_frames mcs_ex) None (Some 2) = (0, 2)
   \<and> mcsh5_get_traces mcs_ex (OneChannel 8) None (Some 2) = Inr (Arr1 [1 / 125, 1 / 100])"
proof -
  have m: "8 \<in> set (mcsh5_get_channel_ids mcs_ex)"
    by (simp add: mcs_ex_def mcsh5_get_channel_ids_def)
  have rng: "frame_range (mcsh5_get_num_frames mcs_ex) None (Some 2) = (0, 2)"
    by (simp add: frame_range_def mcsh5_get_num_frames_def mcs_ex_def)
  show ?thesis
    using mcsh5_get_traces_one_channel [OF mcs_ex_wf(1) m rng] mcs_ex_wf(1) m rng
    by (simp add: mcs_ex_def mcs_ex_stream_def mcsh5_get_channel_ids_def first_pos_def
                  py_slice_def py_slice_bound_def mcs_calib_def power_int_def power_divide)
qed

text \<open>Without \<open>h5py\<close>, construction and \<open>write_recording\<close> fail with the installation
  message; with it, \<open>write_recording\<close> raises \<open>NotImplementedError\<close>: writing never
  succeeds.\<close>

theorem mcsh5_h5py_gating:
  "mcsh5_init False stream = Inl (AssertionError mcs_install_msg)
   \<and> mcsh5_write_recording False recording save_path = Inl (AssertionError mcs_install_msg)
   \<and> mcsh5_write_recording True recording save_path = Inl NotImplementedError"
  by (simp add: mcsh5_init_def mcsh5_write_recording_def)

lemma open_mcsh5_file_verbose_result:
  "map_sum id fst (open_mcsh5_file_verbose verbose rf stream) = open_mcsh5_file stream"
  by (cases "open_mcsh5_file stream")
    (auto simp: open_mcsh5_file_verbose_def open_mcsh5_file_def Let_def split: if_splits sum.splits)

end
