(* ===== verification/SpikeGLX.thy ===== *)
theory SpikeGLX
  imports Recording
begin

text \<open>
  The vendor-binary adapter, \<open>src/spikeextractors/extractors/spikeglxrecordingextractor/
  spikeglxrecordingextractor.py\<close>: the metadata parser \<open>_parse_spikeglx_metafile\<close> and
  the class \<open>SpikeGLXRecordingExtractor\<close>. The file system is an association list from
  paths to text contents, with the process's working directory beside it. The results of
  the \<open>readSGLX\<close> collaborators, which are not part of this repository, are the
  constructor's inputs: the metadata dictionary of \<open>readMeta\<close>, the int16 array of
  \<open>makeMemMapRaw\<close>, the rate of \<open>SampRate\<close>, and the two per-channel gain formulas
  \<open>GainCorrectIM\<close> and \<open>GainCorrectNI\<close>. The channel properties the constructor stores
  through the base class (\<open>set_channel_property\<close>, \<open>set_channel_gains\<close>) are kept in the
  state as lists of pairs.
\<close>

section \<open>\<open>_parse_spikeglx_metafile\<close>\<close>

record meta_acc =
  ma_tot :: "int option"
  ma_ap :: "int option"
  ma_locations :: "real list list"

text \<open>The loop over the \<open>snsShankMap\<close> entries (lines 120--126): each entry after the
  first \<open>)\<close> loses its \<open>(\<close>; a non-empty one gives \<open>[x * x_pitch, y * y_pitch]\<close> from
  its second and third \<open>:\<close>-fields.\<close>

fun sglx_chans :: "real \<Rightarrow> real \<Rightarrow> string list \<Rightarrow> real list list py" where
  "sglx_chans x_pitch y_pitch [] = Inr []"
| "sglx_chans x_pitch y_pitch (chan # chans) =
     (let c = drop 1 chan in
      if 0 < length c then
        py_bind (py_nth 1 (py_split CHR '':'' c)) (\<lambda>xs. py_bind (py_int xs) (\<lambda>x_pos.
        py_bind (py_nth 2 (py_split CHR '':'' c)) (\<lambda>ys. py_bind (py_int ys) (\<lambda>y_pos.
        py_bind (sglx_chans x_pitch y_pitch chans) (\<lambda>rest.
          Inr ([of_int x_pos * x_pitch, of_int y_pos * y_pitch] # rest))))))
      else sglx_chans x_pitch y_pitch chans)"

text \<open>One line of the metadata file (lines 112--126): the four key tests in the code's
  order, each on the text after the last \<open>=\<close>.\<close>

definition sglx_parse_line :: "real \<Rightarrow> real \<Rightarrow> meta_acc \<Rightarrow> string \<Rightarrow> meta_acc py" where
  "sglx_parse_line x_pitch y_pitch acc line =
     (let v = last (py_split CHR ''='' line) in
      py_bind
        (if py_contains line ''nSavedChans''
         then map_sum id (\<lambda>n. acc\<lparr>ma_tot := Some n\<rparr>) (py_int v) else Inr acc) (\<lambda>acc.
      py_bind
        (if py_contains line ''snsApLfSy''
         then map_sum id (\<lambda>n. acc\<lparr>ma_ap := Some n\<rparr>) (py_int (py_strip (hd (py_split CHR '','' v))))
         else Inr acc) (\<lambda>acc.
      py_bind
        (if py_contains line ''imSampRate'' \<and> \<not> py_float_ok v
         then Inl (ValueError ''could not convert string to float'') else Inr acc) (\<lambda>acc.
      if py_contains line ''snsShankMap''
      then map_sum id (\<lambda>locs. acc\<lparr>ma_locations := ma_locations acc @ locs\<rparr>)
             (sglx_chans x_pitch y_pitch (drop 1 (py_split CHR '')'' v)))
      else Inr acc))))"

fun sglx_parse_lines :: "real \<Rightarrow> real \<Rightarrow> meta_acc \<Rightarrow> string list \<Rightarrow> meta_acc py" where
  "sglx_parse_lines x_pitch y_pitch acc [] = Inr acc"
| "sglx_parse_lines x_pitch y_pitch acc (line # lines) =
     py_bind (sglx_parse_line x_pitch y_pitch acc line) (\<lambda>acc'. sglx_parse_lines x_pitch y_pitch acc' lines)"

text \<open>\<open>_parse_spikeglx_metafile\<close> (lines 102--127) on the text of the metadata file:
  \<open>(tot_channels, ap_channels, locations)\<close>, the first two \<open>None\<close> when their key is
  absent.\<close>

definition sglx_parse_metafile ::
  "string \<Rightarrow> real option \<Rightarrow> real option \<Rightarrow> (int option \<times> int option \<times> real list list) py" where
  "sglx_parse_metafile text x_pitch y_pitch =
     (let xp = (case x_pitch of None \<Rightarrow> 21 | Some p \<Rightarrow> p);
          yp = (case y_pitch of None \<Rightarrow> 20 | Some p \<Rightarrow> p)
      in map_sum id (\<lambda>a. (ma_tot a, ma_ap a, ma_locations a))
           (sglx_parse_lines xp yp \<lparr>ma_tot = None, ma_ap = None, ma_locations = []\<rparr>
              (py_readlines text)))"

section \<open>The adapter\<close>

text \<open>The class attributes (lines 9--13 and 19).\<close>

definition sglx_class :: extractor_class where
  "sglx_class =
     \<lparr>ec_extractor_name = ''SpikeGLXRecordingExtractor'', ec_has_default_locations = True,
      ec_installed = True, ec_is_writable = True, ec_mode = ''file'', ec_installation_mesg = []\<rparr>"

text \<open>The GUI descriptors (lines 14--18) and the constructor's signature (line 21).\<close>

definition sglx_gui_params :: "gui_param list" where
  "sglx_gui_params =
     [\<lparr>gp_name = ''file_path'', gp_type = ''file'', gp_title = ''Path to file'',
       gp_value = None, gp_default = None\<rparr>,
      \<lparr>gp_name = ''x_pitch'', gp_type = ''float'', gp_title = ''x_pitch for Neuropixels probe (default 21)'',
       gp_value = Some (GuiFloat 21), gp_default = Some (GuiFloat 21)\<rparr>,
      \<lparr>gp_name = ''y_pitch'', gp_type = ''float'', gp_title = ''y_pitch for Neuropixels probe (default 20)'',
       gp_value = Some (GuiFloat 20), gp_default = Some (GuiFloat 20)\<rparr>]"

definition sglx_init_signature :: py_signature where
  "sglx_init_signature =
     \<lparr>sig_params = [''file_path'', ''x_pitch'', ''y_pitch''],
      sig_defaults = [(''x_pitch'', GuiNone), (''y_pitch'', GuiNone)]\<rparr>"

record spikeglx =
  sg_npxfile :: string
  sg_ftype :: string
  sg_metafile :: string
  sg_timeseries :: "int matrix"
  sg_samplerate :: real
  sg_channels :: "int list"
  sg_locations :: "(int \<times> real list) list"
  sg_gains :: "(int \<times> real) list"

text \<open>The file type (lines 27--31): \<open>nidq\<close>, or the last two \<open>.\<close>-fields of the stem.\<close>

definition sglx_ftype :: "string \<Rightarrow> string py" where
  "sglx_ftype stem =
     (let parts = py_split CHR ''.'' stem; aux = last parts
      in if aux = ''nidq'' then Inr aux
         else map_sum id (\<lambda>p. p @ ''.'' @ aux) (py_nth_from_end 2 parts))"

text \<open>The channel subset (lines 47--51): \<open>ap_chan < tot_chan\<close> compares two values that
  are \<open>None\<close> when their key was missing, which Python 3 refuses.\<close>

definition sglx_select :: "int option \<Rightarrow> int option \<Rightarrow> int matrix \<Rightarrow> (int list \<times> int matrix) py" where
  "sglx_select ap_chan tot_chan ts =
     (case (ap_chan, tot_chan) of
        (Some ap, Some tot) \<Rightarrow>
          if ap < tot then Inr (map int [0..<nat ap], py_slice 0 ap ts)
          else Inr (map int [0..<nat tot], ts)
      | _ \<Rightarrow> Inl (TypeError ''< not supported between instances of NoneType''))"

text \<open>Lines 54--56: when the map gave locations, one per channel.\<close>

definition sglx_locations :: "int list \<Rightarrow> real list list \<Rightarrow> (int \<times> real list) list py" where
  "sglx_locations channels locations =
     (if locations = [] then Inr []
      else if length channels \<le> length locations
      then Inr (map (\<lambda>m. (int m, locations ! m)) [0..<length channels])
      else Inl (IndexError ''list index out of range''))"

text \<open>Lines 59--62: the gain formula chosen by \<open>meta['typeThis']\<close>; for another type
  \<open>gains\<close> is never assigned.\<close>

definition sglx_gains ::
  "(string \<times> string) list \<Rightarrow> (int matrix \<Rightarrow> int list \<Rightarrow> real list) \<Rightarrow> (int matrix \<Rightarrow> int list \<Rightarrow> real list)
   \<Rightarrow> int matrix \<Rightarrow> int list \<Rightarrow> real list py" where
  "sglx_gains meta gain_im gain_ni ts channels =
     (case map_of meta ''typeThis'' of
        None \<Rightarrow> Inl (KeyError ''typeThis'')
      | Some t \<Rightarrow>
          if t = ''imec'' then Inr (gain_im ts channels)
          else if t = ''nidq'' then Inr (gain_ni ts channels)
          else Inl (UnboundLocalError ''gains''))"

definition sglx_meta_msg :: "string \<Rightarrow> string" where
  "sglx_meta_msg ftype =
     [CHR 0x27] @ ''meta'' @ [CHR 0x27] @ '' file for '' @ [CHR 0x27] @ ftype @ [CHR 0x27]
     @ '' traces should be in the same folder.''"

text \<open>\<open>__init__\<close> (lines 21--65).\<close>

definition sglx_init ::
  "string \<Rightarrow> string \<Rightarrow> (string \<times> string) list \<Rightarrow> (string \<times> string) list \<Rightarrow> int matrix \<Rightarrow> real
   \<Rightarrow> real option \<Rightarrow> real option
   \<Rightarrow> (int matrix \<Rightarrow> int list \<Rightarrow> real list) \<Rightarrow> (int matrix \<Rightarrow> int list \<Rightarrow> real list) \<Rightarrow> spikeglx py" where
  "sglx_init file_path cwd files meta rawData samp_rate x_pitch y_pitch gain_im gain_ni =
     (let stem = path_stem file_path in
      py_bind (sglx_ftype stem) (\<lambda>ftype.
        let metafile = py_joinpath cwd (stem @ ''.meta'') in
        case map_of files metafile of
          None \<Rightarrow> Inl (GenericException (sglx_meta_msg ftype))
        | Some text \<Rightarrow>
            py_bind (sglx_parse_metafile text x_pitch y_pitch) (\<lambda>(tot_chan, ap_chan, locations).
            py_bind (sglx_select ap_chan tot_chan rawData) (\<lambda>(channels, ts).
            py_bind (sglx_locations channels locations) (\<lambda>locs.
            py_bind (sglx_gains meta gain_im gain_ni ts channels) (\<lambda>gains.
              Inr \<lparr>sg_npxfile = file_path, sg_ftype = ftype, sg_metafile = metafile,
                   sg_timeseries = ts, sg_samplerate = samp_rate, sg_channels = channels,
                   sg_locations = locs, sg_gains = zip channels (map (\<lambda>g. g * 1000000) gains)\<rparr>))))))"

definition sglx_get_channel_ids :: "spikeglx \<Rightarrow> int list" where
  "sglx_get_channel_ids s = sg_channels s"

definition sglx_get_num_frames :: "spikeglx \<Rightarrow> nat" where
  "sglx_get_num_frames s = np_ncols (sg_timeseries s)"

definition sglx_get_sampling_frequency :: "spikeglx \<Rightarrow> real" where
  "sglx_get_sampling_frequency s = sg_samplerate s"

text \<open>\<open>get_traces\<close> (lines 77--87): the stored int16 rows, requested by position, then the
  frame slice; no gain is applied.\<close>

definition sglx_get_traces ::
  "spikeglx \<Rightarrow> chan_arg \<Rightarrow> int option \<Rightarrow> int option \<Rightarrow> int matrix py" where
  "sglx_get_traces s channel_ids start_frame end_frame =
     (let start = (case start_frame of None \<Rightarrow> 0 | Some a \<Rightarrow> a);
          stop = (case end_frame of None \<Rightarrow> int (sglx_get_num_frames s) | Some b \<Rightarrow> b);
          idx = (case channel_ids of
                   AllChannels \<Rightarrow> Inr (map int [0..<length (sg_timeseries s)])
                 | OneChannel _ \<Rightarrow> Inl (TypeError ''int object is not iterable'')
                 | ChannelList cs \<Rightarrow> py_mapM (\<lambda>ch. map_sum id int (py_index (sg_channels s) ch)) cs)
      in py_bind idx (\<lambda>idx. map_sum id (np_cols start stop) (np_take_rows (sg_timeseries s) idx)))"

text \<open>\<open>write_recording\<close> (lines 89--99): the file is opened (and truncated) before
  \<open>recording.get_traces()\<close> runs; its content is the samples converted to \<open>dtype\<close>
  (default float32), frame after frame when the argument \<open>transpose\<close> (here
  \<open>transpose_arg\<close>, as \<open>transpose\<close> names the list function) is false and channel after
  channel when it is true. The recording is given by the result of its \<open>get_traces()\<close>.\<close>

record write_result =
  wr_items :: "real list"
  wr_status :: "unit py"

definition sglx_write_recording :: "ndarray py \<Rightarrow> np_dtype option \<Rightarrow> bool \<Rightarrow> write_result" where
  "sglx_write_recording traces dtype transpose_arg =
     (let dt = (case dtype of None \<Rightarrow> DFloat 32 | Some d \<Rightarrow> d) in
      case traces of
        Inl e \<Rightarrow> \<lparr>wr_items = [], wr_status = Inl e\<rparr>
      | Inr (Arr1 v) \<Rightarrow> \<lparr>wr_items = map (np_cast dt) v, wr_status = Inr ()\<rparr>
      | Inr (Arr2 m) \<Rightarrow>
          \<lparr>wr_items = map (np_cast dt) (if \<not> transpose_arg then concat (transpose m) else concat m),
           wr_status = Inr ()\<rparr>)"

section \<open>Metadata text, invariant and example data\<close>

text \<open>A metadata text in the format SpikeGLX writes (one \<open>key=value\<close> per line, keys in
  alphabetical order) holding the sample rate, the saved and the analog channel counts, and
  one shank-map entry \<open>(shank:x:y:used)\<close> per channel. It is the input of the parser's
  round trip, not code of the repository.\<close>

definition sglx_shank_entry :: "int \<times> int \<Rightarrow> string" where
  "sglx_shank_entry xy = ''(0:'' @ py_str_int (fst xy) @ '':'' @ py_str_int (snd xy) @ '':1)''"

definition sglx_meta_lines :: "int \<Rightarrow> int \<Rightarrow> nat \<Rightarrow> (int \<times> int) list \<Rightarrow> string list" where
  "sglx_meta_lines tot ap rate xys =
     [''imSampRate='' @ show_nat rate,
      ''nSavedChans='' @ py_str_int tot,
      ''snsApLfSy='' @ py_str_int ap @ '',0,1'',
      ''~snsShankMap=(1,2,480)'' @ concat (map sglx_shank_entry xys)]"

definition sglx_render_meta :: "int \<Rightarrow> int \<Rightarrow> nat \<Rightarrow> (int \<times> int) list \<Rightarrow> string" where
  "sglx_render_meta tot ap rate xys =
     concat (map (\<lambda>l. l @ [py_newline]) (sglx_meta_lines tot ap rate xys))"

text \<open>The adapter's invariant: the channel ids are the row positions \<open>0 .. n-1\<close> of the
  store, and the store is rectangular.\<close>

definition sglx_wf :: "spikeglx \<Rightarrow> bool" where
  "sglx_wf s \<longleftrightarrow>
     sg_channels s = map int [0..<length (sg_timeseries s)] \<and>
     rectangular (np_ncols (sg_timeseries s)) (sg_timeseries s)"

text \<open>Example: a probe file with four saved channels of which the first two are analog
  channels, its metadata file beside it in \<open>/data\<close>, and a constant gain formula.\<close>

definition sglx_ex_path :: string where "sglx_ex_path = ''/data/run_g0_t0.imec0.ap.bin''"

definition sglx_ex_text :: string where
  "sglx_ex_text = sglx_render_meta 4 2 30000 [(0, 0), (1, 0), (0, 1), (1, 1)]"

definition sglx_ex_files :: "(string \<times> string) list" where
  "sglx_ex_files = [(''/data/run_g0_t0.imec0.ap.meta'', sglx_ex_text)]"

definition sglx_ex_raw :: "int matrix" where
  "sglx_ex_raw = [[1, 2, 3], [4, 5, 6], [7, 8, 9], [10, 11, 12]]"

definition sglx_ex_gain :: "int matrix \<Rightarrow> int list \<Rightarrow> real list" where
  "sglx_ex_gain ts chs = map (\<lambda>_. 1 / 2) chs"

definition sglx_ex_state :: spikeglx where
  "sglx_ex_state =
     \<lparr>sg_npxfile = sglx_ex_path, sg_ftype = ''imec0.ap'', sg_metafile = ''/data/run_g0_t0.imec0.ap.meta'',
      sg_timeseries = [[1, 2, 3], [4, 5, 6]], sg_samplerate = 30000, sg_channels = [0, 1],
      sg_locations = [(0, [0, 0]), (1, [21, 0])], sg_gains = [(0, 500000), (1, 500000)]\<rparr>"

section \<open>Lemmas\<close>

subsection \<open>The metadata parser\<close>

lemma sglx_shank_entry_split:
  "py_split CHR '')'' (concat (map sglx_shank_entry xys) @ [py_newline])
   = map (\<lambda>xy. ''(0:'' @ py_str_int (fst xy) @ '':'' @ py_str_int (snd xy) @ '':1'') xys @ [[py_newline]]"
proof (induction xys)
  case Nil
  then show ?case by simp
next
  case (Cons xy xys)
  have "CHR '')'' \<notin> set (''(0:'' @ py_str_int (fst xy) @ '':'' @ py_str_int (snd xy) @ '':1'')"
    using py_str_int_no [of "CHR '')''"] by auto
  then show ?case
    using Cons.IH py_split_append_sep [of "CHR '')''" "''(0:'' @ py_str_int (fst xy) @ '':'' @ py_str_int (snd xy) @ '':1''"]
    by (simp add: sglx_shank_entry_def)
qed

lemma sglx_chans_entries:
  "sglx_chans xp yp (map (\<lambda>xy. ''(0:'' @ py_str_int (fst xy) @ '':'' @ py_str_int (snd xy) @ '':1'') xys @ [[py_newline]])
   = Inr (map (\<lambda>xy. [of_int (fst xy) * xp, of_int (snd xy) * yp]) xys)"
proof (induction xys)
  case Nil
  then show ?case by simp
next
  case (Cons xy xys)
  have nc: "CHR '':'' \<notin> set (py_str_int (fst xy))" "CHR '':'' \<notin> set (py_str_int (snd xy))"
    using py_str_int_no [of "CHR '':''"] by auto
  have "py_split CHR '':'' (''0:'' @ py_str_int (fst xy) @ '':'' @ py_str_int (snd xy) @ '':1'')
        = [''0'', py_str_int (fst xy), py_str_int (snd xy), ''1'']"
    using nc by (simp add: py_split_append_sep py_split_no_sep)
  then show ?case
    using Cons.IH by (simp add: py_nth_def py_int_py_str_int)
qed

lemma sglx_line_tot:
  "sglx_parse_line xp yp acc (''nSavedChans='' @ py_str_int tot @ [py_newline]) = Inr (acc\<lparr>ma_tot := Some tot\<rparr>)"
proof -
  let ?l = "''nSavedChans='' @ py_str_int tot @ [py_newline]"
  have c: "py_contains ?l ''nSavedChans''"
    using py_contains_append [of "[]" "''nSavedChans''" "''='' @ py_str_int tot @ [py_newline]"] by simp
  have n1: "\<not> py_contains ?l ''snsApLfSy''"
    by (rule not_py_contains_by_char [of "CHR ''L''"]) (auto dest: py_str_int_chars_in)
  have n2: "\<not> py_contains ?l ''imSampRate''"
    by (rule not_py_contains_by_char [of "CHR ''R''"]) (auto dest: py_str_int_chars_in)
  have n3: "\<not> py_contains ?l ''snsShankMap''"
    by (rule not_py_contains_by_char [of "CHR ''k''"]) (auto dest: py_str_int_chars_in)
  have "CHR ''='' \<notin> set (py_str_int tot @ [py_newline])"
    by (auto dest: py_str_int_chars_in)
  then have sp: "py_split CHR ''='' ?l = [''nSavedChans'', py_str_int tot @ [py_newline]]"
    by (simp add: py_split_no_sep)
  have v: "py_int (py_str_int tot @ [py_newline]) = Inr tot"
    by (rule py_int_str_ws) simp
  show ?thesis
    unfolding sglx_parse_line_def Let_def sp using c n1 n2 n3 by (simp add: v)
qed

lemma sglx_line_ap:
  "sglx_parse_line xp yp acc (''snsApLfSy='' @ py_str_int ap @ '',0,1'' @ [py_newline]) = Inr (acc\<lparr>ma_ap := Some ap\<rparr>)"
proof -
  let ?l = "''snsApLfSy='' @ py_str_int ap @ '',0,1'' @ [py_newline]"
  have c: "py_contains ?l ''snsApLfSy''"
    using py_contains_append [of "[]" "''snsApLfSy''" "''='' @ py_str_int ap @ '',0,1'' @ [py_newline]"] by simp
  have n1: "\<not> py_contains ?l ''nSavedChans''"
    by (rule not_py_contains_by_char [of "CHR ''C''"]) (auto dest: py_str_int_chars_in)
  have n2: "\<not> py_contains ?l ''imSampRate''"
    by (rule not_py_contains_by_char [of "CHR ''R''"]) (auto dest: py_str_int_chars_in)
  have n3: "\<not> py_contains ?l ''snsShankMap''"
    by (rule not_py_contains_by_char [of "CHR ''k''"]) (auto dest: py_str_int_chars_in)
  have "CHR ''='' \<notin> set (py_str_int ap @ '',0,1'' @ [py_newline])"
    by (auto dest: py_str_int_chars_in)
  then have lv: "last (py_split CHR ''='' ?l) = py_str_int ap @ '',0,1'' @ [py_newline]"
    by (simp add: py_split_no_sep)
  have "CHR '','' \<notin> set (py_str_int ap)"
    by (auto dest: py_str_int_chars_in)
  then have hv: "hd (py_split CHR '','' (py_str_int ap @ '',0,1'' @ [py_newline])) = py_str_int ap"
    using py_split_append_sep [of "CHR '',''" "py_str_int ap" "''0,1'' @ [py_newline]"] by simp
  have "py_strip (py_str_int ap) = py_str_int ap"
    by (rule py_strip_no_ws) (auto simp: py_whitespace_def dest: py_str_int_chars_in)
  then have v: "py_int (py_strip (py_str_int ap)) = Inr ap"
    by (simp add: py_int_py_str_int)
  show ?thesis
    unfolding sglx_parse_line_def Let_def lv hv v using c n1 n2 n3 by simp
qed

lemma sglx_line_rate:
  "sglx_parse_line xp yp acc (''imSampRate='' @ show_nat rate @ [py_newline]) = Inr acc"
proof -
  let ?l = "''imSampRate='' @ show_nat rate @ [py_newline]"
  have nd: "\<And>c. c \<in> set (show_nat rate) \<Longrightarrow> c \<in> set ''0123456789''"
    using show_nat_digits by (auto simp: is_digit_def)
  have c: "py_contains ?l ''imSampRate''"
    using py_contains_append [of "[]" "''imSampRate''" "''='' @ show_nat rate @ [py_newline]"] by simp
  have n1: "\<not> py_contains ?l ''nSavedChans''"
    by (rule not_py_contains_by_char [of "CHR ''C''"]) (auto dest: nd)
  have n2: "\<not> py_contains ?l ''snsApLfSy''"
    by (rule not_py_contains_by_char [of "CHR ''L''"]) (auto dest: nd)
  have n3: "\<not> py_contains ?l ''snsShankMap''"
    by (rule not_py_contains_by_char [of "CHR ''k''"]) (auto dest: nd)
  have "CHR ''='' \<notin> set (show_nat rate @ [py_newline])"
    by (auto dest: nd)
  then have lv: "last (py_split CHR ''='' ?l) = show_nat rate @ [py_newline]"
    by (simp add: py_split_no_sep)
  have f: "py_float_ok (show_nat rate @ [py_newline])"
    by (rule py_float_ok_show_nat) simp
  show ?thesis
    unfolding sglx_parse_line_def Let_def lv using c n1 n2 n3 f by simp
qed

lemma sglx_shank_entries_chars:
  assumes ce: "c \<in> set (concat (map sglx_shank_entry xys))"
  shows "c \<in> set ''(0:-0123456789)''"
proof -
  obtain xy where "c \<in> set (sglx_shank_entry xy)"
    using ce by (simp only: set_concat set_map) blast
  then have "c \<in> set ''(0:1)'' \<or> c \<in> set (py_str_int (fst xy)) \<or> c \<in> set (py_str_int (snd xy))"
    by (auto simp: sglx_shank_entry_def)
  then consider "c \<in> set ''(0:1)''" | "c \<in> set ''-0123456789''"
    using py_str_int_chars_in by blast
  then show ?thesis by cases auto
qed

lemma sglx_line_map:
  "sglx_parse_line xp yp acc (''~snsShankMap=(1,2,480)'' @ concat (map sglx_shank_entry xys) @ [py_newline])
   = Inr (acc\<lparr>ma_locations := ma_locations acc @ map (\<lambda>xy. [of_int (fst xy) * xp, of_int (snd xy) * yp]) xys\<rparr>)"
proof -
  define e where "e = concat (map sglx_shank_entry xys)"
  let ?l = "''~snsShankMap=(1,2,480)'' @ e @ [py_newline]"
  have nd: "c \<in> set ''(0:-0123456789)''" if ce: "c \<in> set e" for c
    using ce unfolding e_def by (rule sglx_shank_entries_chars)
  have nC: "CHR ''C'' \<notin> set e" and nL: "CHR ''L'' \<notin> set e" and nR: "CHR ''R'' \<notin> set e"
    and nE: "CHR ''='' \<notin> set e"
    using nd by force+
  have c: "py_contains ?l ''snsShankMap''"
    using py_contains_append [of "''~''" "''snsShankMap''" "''=(1,2,480)'' @ e @ [py_newline]"] by simp
  have n1: "\<not> py_contains ?l ''nSavedChans''"
    by (rule not_py_contains_by_char [of "CHR ''C''"]) (simp_all add: nC)
  have n2: "\<not> py_contains ?l ''snsApLfSy''"
    by (rule not_py_contains_by_char [of "CHR ''L''"]) (simp_all add: nL)
  have n3: "\<not> py_contains ?l ''imSampRate''"
    by (rule not_py_contains_by_char [of "CHR ''R''"]) (simp_all add: nR)
  have "CHR ''='' \<notin> set (''(1,2,480)'' @ e @ [py_newline])"
    by (simp add: nE)
  then have lv: "last (py_split CHR ''='' ?l) = ''(1,2,480)'' @ e @ [py_newline]"
    by (simp add: py_split_no_sep)
  have sp: "drop 1 (py_split CHR '')'' (''(1,2,480)'' @ e @ [py_newline])) = py_split CHR '')'' (e @ [py_newline])"
    using py_split_append_sep [of "CHR '')''" "''(1,2,480''" "e @ [py_newline]"] by simp
  have ch: "sglx_chans xp yp (py_split CHR '')'' (e @ [py_newline])) = Inr (map (\<lambda>xy. [of_int (fst xy) * xp, of_int (snd xy) * yp]) xys)"
    unfolding e_def sglx_shank_entry_split sglx_chans_entries ..
  show ?thesis
    unfolding e_def [symmetric] sglx_parse_line_def Let_def lv sp ch
    using c n1 n2 n3 by simp
qed

lemma sglx_meta_lines_no_nl: "l \<in> set (sglx_meta_lines tot ap rate xys) \<Longrightarrow> py_newline \<notin> set l"
proof -
  assume l: "l \<in> set (sglx_meta_lines tot ap rate xys)"
  have a: "py_newline \<notin> set (py_str_int i)" for i
    using py_str_int_chars_in [of py_newline i] by auto
  have b: "py_newline \<notin> set (show_nat rate)"
    using show_nat_digits [of py_newline rate] by (auto simp: is_digit_def)
  have c: "py_newline \<notin> set (concat (map sglx_shank_entry xys))"
    using sglx_shank_entries_chars [of py_newline xys] by auto
  show ?thesis
    using l a b c by (auto simp: sglx_meta_lines_def)
qed

lemma sglx_parse_lines_render:
  "sglx_parse_lines xp yp acc (py_readlines (sglx_render_meta tot ap rate xys)) =
   Inr (acc\<lparr>ma_tot := Some tot, ma_ap := Some ap,
             ma_locations := ma_locations acc @ map (\<lambda>xy. [of_int (fst xy) * xp, of_int (snd xy) * yp]) xys\<rparr>)"
proof -
  have rl: "py_readlines (sglx_render_meta tot ap rate xys)
            = map (\<lambda>l. l @ [py_newline]) (sglx_meta_lines tot ap rate xys)"
    unfolding sglx_render_meta_def by (rule py_readlines_lines) (rule sglx_meta_lines_no_nl)
  show ?thesis
    unfolding rl
    by (simp only: sglx_meta_lines_def list.map append_assoc sglx_parse_lines.simps py_bind.simps
        sglx_line_tot sglx_line_ap sglx_line_rate sglx_line_map) simp
qed

text \<open>C16. Parsing a metadata text that holds \<open>nSavedChans\<close>, \<open>snsApLfSy\<close>,
  \<open>imSampRate\<close> and a shank map gives back the two channel counts and, for each shank-map
  entry, its grid position times the pitches (21 and 20 by default).\<close>

lemma sglx_parse_render:
  "sglx_parse_metafile (sglx_render_meta tot ap rate xys) x_pitch y_pitch =
   Inr (Some tot, Some ap,
        map (\<lambda>xy. [of_int (fst xy) * (case x_pitch of None \<Rightarrow> 21 | Some p \<Rightarrow> p),
                   of_int (snd xy) * (case y_pitch of None \<Rightarrow> 20 | Some p \<Rightarrow> p)]) xys)"
  by (simp add: sglx_parse_metafile_def sglx_parse_lines_render)

subsection \<open>The constructor\<close>

lemma sglx_init_ok:
  assumes ft: "sglx_ftype (path_stem fp) = Inr ft"
    and mf: "map_of files (py_joinpath cwd (path_stem fp @ ''.meta'')) = Some mtext"
    and pm: "sglx_parse_metafile mtext xp yp = Inr (Some tot, Some ap, locs)"
    and sl: "sglx_select (Some ap) (Some tot) raw = Inr (chs, ts)"
    and lc: "sglx_locations chs locs = Inr ls"
    and gn: "sglx_gains meta gim gni ts chs = Inr gs"
  shows "sglx_init fp cwd files meta raw rate xp yp gim gni =
         Inr \<lparr>sg_npxfile = fp, sg_ftype = ft, sg_metafile = py_joinpath cwd (path_stem fp @ ''.meta''),
              sg_timeseries = ts, sg_samplerate = rate, sg_channels = chs,
              sg_locations = ls, sg_gains = zip chs (map (\<lambda>g. g * 1000000) gs)\<rparr>"
  using ft mf pm sl lc gn by (simp add: sglx_init_def Let_def)

lemma sglx_init_Inr:
  assumes "sglx_init fp cwd files meta raw rate xp yp gim gni = Inr s"
    and "map_of files (py_joinpath cwd (path_stem fp @ ''.meta'')) = Some mtext"
    and "sglx_parse_metafile mtext xp yp = Inr (Some tot, Some ap, locs)"
  shows "sglx_select (Some ap) (Some tot) raw = Inr (sg_channels s, sg_timeseries s)"
  using assms by (auto simp: sglx_init_def Let_def split: prod.splits)

lemma sglx_ex_stem: "path_stem sglx_ex_path = ''run_g0_t0.imec0.ap''"
  by (simp add: sglx_ex_path_def path_stem_def path_name_def py_rfind_char_def first_pos_def Let_def)

lemma sglx_ex_ftype: "sglx_ftype ''run_g0_t0.imec0.ap'' = Inr ''imec0.ap''"
  by (simp add: sglx_ftype_def py_nth_from_end_def)

lemma sglx_ex_parse:
  "sglx_parse_metafile sglx_ex_text None None = Inr (Some 4, Some 2, [[0, 0], [21, 0], [0, 20], [21, 20]])"
  by (simp add: sglx_ex_text_def sglx_parse_metafile_def sglx_parse_lines_render)

lemmas sglx_ex_facts = sglx_ex_stem sglx_ex_ftype sglx_ex_parse sglx_ex_files_def py_joinpath_def

lemma sglx_ex_init:
  "sglx_init sglx_ex_path ''/data'' sglx_ex_files [(''typeThis'', ''imec'')] sglx_ex_raw 30000 None None
     sglx_ex_gain sglx_ex_gain = Inr sglx_ex_state"
  using sglx_init_ok [where fp = sglx_ex_path and ft = "''imec0.ap''" and files = sglx_ex_files
      and cwd = "''/data''" and mtext = sglx_ex_text and xp = None and yp = None and tot = 4 and ap = 2
      and locs = "[[0, 0], [21, 0], [0, 20], [21, 20]]" and raw = sglx_ex_raw and chs = "[0, 1]"
      and ts = "[[1, 2, 3], [4, 5, 6]]" and ls = "[(0, [0, 0]), (1, [21, 0])]"
      and meta = "[(''typeThis'', ''imec'')]" and gim = sglx_ex_gain and gni = sglx_ex_gain
      and gs = "[1 / 2, 1 / 2]" and rate = 30000]
  by (simp add: sglx_ex_facts sglx_ex_state_def sglx_ex_raw_def sglx_ex_gain_def sglx_select_def
      sglx_locations_def sglx_gains_def py_slice_def py_slice_bound_def upt_rec)

text \<open>C17. When the metadata file counts fewer analog channels \<open>ap\<close> than saved channels, the constructor keeps only the first \<open>ap\<close> rows of the store, names them \<open>0 .. ap-1\<close>, attaches one location per channel and stores the \<open>imec\<close> gains times \<open>10^6\<close>.\<close>

lemma sglx_init_ap_subset:
  assumes "sglx_ftype (path_stem fp) = Inr ft"
    and "map_of files (py_joinpath cwd (path_stem fp @ ''.meta'')) = Some text"
    and "sglx_parse_metafile text xp yp = Inr (Some tot, Some ap, locs)"
    and "0 \<le> ap" "ap < tot" "locs \<noteq> []" "nat ap \<le> length locs"
    and "map_of meta ''typeThis'' = Some ''imec''"
  shows "sglx_init fp cwd files meta raw rate xp yp gim gni =
         Inr \<lparr>sg_npxfile = fp, sg_ftype = ft, sg_metafile = py_joinpath cwd (path_stem fp @ ''.meta''),
              sg_timeseries = take (nat ap) raw, sg_samplerate = rate,
              sg_channels = map int [0..<nat ap],
              sg_locations = map (\<lambda>m. (int m, locs ! m)) [0..<nat ap],
              sg_gains = zip (map int [0..<nat ap])
                           (map (\<lambda>g. g * 1000000) (gim (take (nat ap) raw) (map int [0..<nat ap])))\<rparr>"
proof -
  have "py_slice 0 ap raw = take (nat ap) raw"
    using assms(4) by (simp add: py_slice_nonneg)
  moreover have "sglx_select (Some ap) (Some tot) raw = Inr (map int [0..<nat ap], take (nat ap) raw)"
    using assms(5) calculation by (simp add: sglx_select_def)
  moreover have "sglx_locations (map int [0..<nat ap]) locs = Inr (map (\<lambda>m. (int m, locs ! m)) [0..<nat ap])"
    using assms(6,7) by (simp add: sglx_locations_def)
  ultimately show ?thesis
    using assms by (intro sglx_init_ok) (simp_all add: sglx_gains_def)
qed

lemma sglx_init_ap_subset_witness:
  "sglx_init sglx_ex_path ''/data'' sglx_ex_files [(''typeThis'', ''imec'')] sglx_ex_raw 30000 None None
     sglx_ex_gain sglx_ex_gain = Inr sglx_ex_state"
  using sglx_init_ap_subset [of sglx_ex_path "''imec0.ap''" sglx_ex_files "''/data''" sglx_ex_text None None
      4 2 "[[0, 0], [21, 0], [0, 20], [21, 20]]" "[(''typeThis'', ''imec'')]" sglx_ex_raw 30000 sglx_ex_gain sglx_ex_gain]
  by (simp add: sglx_ex_facts sglx_ex_state_def sglx_ex_raw_def sglx_ex_gain_def upt_rec)

text \<open>A successful construction on a rectangular store whose row count is \<open>nSavedChans\<close> (and a non-negative \<open>snsApLfSy\<close>) establishes the invariant: the channel ids are the row positions of the stored array.\<close>

lemma sglx_init_wf:
  assumes init: "sglx_init fp cwd files meta raw rate xp yp gim gni = Inr s"
    and rect: "rectangular n raw"
    and mf: "map_of files (py_joinpath cwd (path_stem fp @ ''.meta'')) = Some mtext"
    and pm: "sglx_parse_metafile mtext xp yp = Inr (Some tot, Some ap, locs)"
    and len: "length raw = nat tot" and ap: "0 \<le> ap"
  shows "sglx_wf s"
proof -
  have sel': "sglx_select (Some ap) (Some tot) raw = Inr (sg_channels s, sg_timeseries s)"
    using init mf pm by (rule sglx_init_Inr)
  show ?thesis
  proof (cases "ap < tot")
    case True
    then have "sg_channels s = map int [0..<nat ap]" "sg_timeseries s = take (nat ap) raw"
      using sel' ap by (simp_all add: sglx_select_def py_slice_nonneg)
    moreover have "length (take (nat ap) raw) = nat ap" using True len ap by simp
    moreover have "rectangular n (take (nat ap) raw)" using rect by (rule rectangular_take)
    ultimately show ?thesis
      by (simp add: sglx_wf_def rectangular_np_ncols)
  next
    case False
    then have "sg_channels s = map int [0..<nat tot]" "sg_timeseries s = raw"
      using sel' by (simp_all add: sglx_select_def)
    then show ?thesis
      using rect len by (simp add: sglx_wf_def rectangular_np_ncols)
  qed
qed

lemma sglx_init_wf_witness: "sglx_wf sglx_ex_state"
  using sglx_init_wf [where fp = sglx_ex_path and cwd = "''/data''" and files = sglx_ex_files
      and meta = "[(''typeThis'', ''imec'')]" and raw = sglx_ex_raw and rate = 30000 and xp = None
      and yp = None and gim = sglx_ex_gain and gni = sglx_ex_gain and s = sglx_ex_state and n = 3
      and mtext = sglx_ex_text and tot = 4 and ap = 2 and locs = "[[0, 0], [21, 0], [0, 20], [21, 20]]"]
    sglx_ex_init
  by (simp add: sglx_ex_facts sglx_ex_raw_def)

subsection \<open>Reading traces\<close>

lemma sglx_traces_idx:
  assumes "sglx_wf s" "set cs \<subseteq> set (sg_channels s)"
  shows "py_mapM (\<lambda>ch. map_sum id int (py_index (sg_channels s) ch)) cs = Inr cs"
proof -
  have "py_mapM (\<lambda>ch. map_sum id int (py_index (sg_channels s) ch)) cs = Inr (map id cs)"
    using assms by (intro py_mapM_map) (auto simp: sglx_wf_def py_index_upto)
  then show ?thesis by simp
qed

lemma sglx_rows_full:
  assumes "rectangular (np_ncols m) m" "set rows \<subseteq> set m"
  shows "np_cols 0 (int (np_ncols m)) rows = rows"
proof -
  have "rectangular (np_ncols m) rows"
    using assms by (auto simp: rectangular_def list_all_iff)
  then show ?thesis by (rule np_cols_full)
qed

lemma sglx_traces_selected:
  assumes "sglx_wf s" "set cs \<subseteq> set (sg_channels s)"
      and "frame_range (sglx_get_num_frames s) start_frame end_frame = (a, b)"
  shows "sglx_get_traces s (ChannelList cs) start_frame end_frame
         = Inr (map (\<lambda>c. py_slice a b (sg_timeseries s ! nat c)) cs)"
proof -
  have cs: "cs = map int (map nat cs)" "\<And>i. i \<in> set (map nat cs) \<Longrightarrow> i < length (sg_timeseries s)"
    using assms(1,2) by (auto simp: sglx_wf_def intro!: map_idI[symmetric])
  have "np_take_rows (sg_timeseries s) cs = Inr (map (\<lambda>c. sg_timeseries s ! nat c) cs)"
    using np_take_rows_nat [of "map nat cs" "sg_timeseries s"] cs by simp
  then show ?thesis
    using sglx_traces_idx [OF assms(1,2)] assms(3)
    by (simp add: sglx_get_traces_def frame_range_def np_cols_def split: prod.splits)
qed

text \<open>C19. On a well-formed adapter, \<open>get_traces\<close> with a list of known channel ids returns the stored rows in the order of the request (numpy fancy indexing), not in the adapter's internal row order as the specification states for this adapter.\<close>

lemma sglx_get_traces_requested_order:
  assumes "sglx_wf s" "set cs \<subseteq> set (sg_channels s)"
  shows "sglx_get_traces s (ChannelList cs) None None = Inr (map (\<lambda>c. sg_timeseries s ! nat c) cs)"
proof -
  have "frame_range (sglx_get_num_frames s) None None = (0, int (sglx_get_num_frames s))"
    by (simp add: frame_range_def)
  moreover have "np_cols 0 (int (sglx_get_num_frames s)) (map (\<lambda>c. sg_timeseries s ! nat c) cs)
                 = map (\<lambda>c. sg_timeseries s ! nat c) cs"
    using assms unfolding sglx_get_num_frames_def sglx_wf_def
    by (intro sglx_rows_full) (auto simp: subset_iff)
  ultimately show ?thesis
    using sglx_traces_selected [OF assms] by (simp add: np_cols_def)
qed

lemma sglx_get_traces_requested_order_witness:
  "sglx_get_traces sglx_ex_state (ChannelList [1, 0]) None None = Inr [[4, 5, 6], [1, 2, 3]]"
  using sglx_get_traces_requested_order [of sglx_ex_state "[1, 0]"]
  by (simp add: sglx_ex_state_def sglx_wf_def np_ncols_def)

text \<open>On a well-formed adapter, \<open>get_traces()\<close> with its defaults returns the whole stored int16 array unchanged: the gains computed at construction are not applied.\<close>

lemma sglx_get_traces_raw:
  assumes "sglx_wf s"
  shows "sglx_get_traces s AllChannels None None = Inr (sg_timeseries s)"
proof -
  have "np_take_rows (sg_timeseries s) (map int [0..<length (sg_timeseries s)]) = Inr (sg_timeseries s)"
    using np_take_rows_nat [of "[0..<length (sg_timeseries s)]" "sg_timeseries s"]
    by (simp add: map_nth)
  moreover have "np_cols 0 (int (sglx_get_num_frames s)) (sg_timeseries s) = sg_timeseries s"
    using assms unfolding sglx_get_num_frames_def sglx_wf_def by (intro sglx_rows_full) auto
  ultimately show ?thesis by (simp add: sglx_get_traces_def)
qed

lemma sglx_get_traces_raw_witness:
  "sglx_get_traces sglx_ex_state AllChannels None None = Inr [[1, 2, 3], [4, 5, 6]]"
  using sglx_get_traces_raw [of sglx_ex_state]
  by (simp add: sglx_ex_state_def sglx_wf_def np_ncols_def)

text \<open>Requesting a channel id that the adapter does not have raises \<open>ValueError\<close> (from \<open>list.index\<close>), whatever the frame range.\<close>

lemma sglx_get_traces_unknown:
  assumes "c \<in> set cs" "c \<notin> set (sg_channels s)"
  shows "sglx_get_traces s (ChannelList cs) sf ef = Inl (ValueError ''x is not in list'')"
proof -
  have "py_mapM (\<lambda>ch. map_sum id int (py_index (sg_channels s) ch)) cs = Inl (ValueError ''x is not in list'')"
    using assms by (intro py_mapM_first_error) (auto simp: py_index_eq)
  then show ?thesis by (simp add: sglx_get_traces_def)
qed

lemma sglx_get_traces_unknown_witness:
  "sglx_get_traces sglx_ex_state (ChannelList [0, 5]) None None = Inl (ValueError ''x is not in list'')"
  using sglx_get_traces_unknown [of 5 "[0, 5]" sglx_ex_state None None]
  by (simp add: sglx_ex_state_def)

text \<open>Passing the GUI's pitches \<open>21.0\<close> and \<open>20.0\<close> is passing none: the parser's defaults
  are the same.\<close>

lemma sglx_parse_pitch_defaults:
  "sglx_parse_metafile mtext (Some 21) (Some 20) = sglx_parse_metafile mtext None None"
  by (simp add: sglx_parse_metafile_def)

lemma sglx_init_pitch_defaults:
  "sglx_init fp cwd files meta raw rate (Some 21) (Some 20) gim gni
   = sglx_init fp cwd files meta raw rate None None gim gni"
  unfolding sglx_init_def sglx_parse_pitch_defaults ..

text \<open>\<open>get_traces\<close> slices frames with Python's bounds.\<close>

lemma sglx_traces_normal:
  assumes "sglx_wf s"
  shows "sglx_get_traces s ca (Some a) (Some b)
         = sglx_get_traces s ca (Some (int (py_slice_bound a (sglx_get_num_frames s))))
                                (Some (int (py_slice_bound b (sglx_get_num_frames s))))"
proof -
  have rect: "rectangular (sglx_get_num_frames s) (sg_timeseries s)"
    using assms by (simp add: sglx_wf_def sglx_get_num_frames_def)
  show ?thesis
    unfolding sglx_get_traces_def Let_def option.case
    using take_rows_cols_normal [OF rect, of id a b] by simp
qed

subsection \<open>Constructor errors\<close>

lemma sglx_ftype_no_dot:
  "CHR ''.'' \<notin> set stem \<Longrightarrow> stem \<noteq> ''nidq'' \<Longrightarrow> sglx_ftype stem = Inl (IndexError ''list index out of range'')"
  by (simp add: sglx_ftype_def py_split_no_sep py_nth_from_end_def)

text \<open>C22. When no metadata file of the data file's stem exists in the process's working directory, the constructor raises the generic exception naming the file type; the lookup is relative to the working directory, not to the data file's folder.\<close>

lemma sglx_init_missing_meta:
  assumes "sglx_ftype (path_stem fp) = Inr ft"
    and "map_of files (py_joinpath cwd (path_stem fp @ ''.meta'')) = None"
  shows "sglx_init fp cwd files meta raw rate xp yp gim gni = Inl (GenericException (sglx_meta_msg ft))"
  using assms by (simp add: sglx_init_def)

lemma sglx_init_missing_meta_witness:
  "sglx_init sglx_ex_path ''/home/user'' sglx_ex_files [] sglx_ex_raw 30000 None None sglx_ex_gain sglx_ex_gain
   = Inl (GenericException (sglx_meta_msg ''imec0.ap''))"
  using sglx_init_missing_meta [of sglx_ex_path "''imec0.ap''" sglx_ex_files "''/home/user''"]
  by (simp add: sglx_ex_facts sglx_ex_files_def py_joinpath_def)

text \<open>C23. A data file whose stem has no dot (and is not \<open>nidq\<close>) makes the file-type computation index a one-element list at \<open>-2\<close>: the constructor raises \<open>IndexError\<close> before it looks for the metadata.\<close>

lemma sglx_init_short_stem:
  assumes "CHR ''.'' \<notin> set (path_stem fp)" "path_stem fp \<noteq> ''nidq''"
  shows "sglx_init fp cwd files meta raw rate xp yp gim gni = Inl (IndexError ''list index out of range'')"
  using assms by (simp add: sglx_init_def sglx_ftype_no_dot)

lemma sglx_init_short_stem_witness:
  "sglx_init ''/data/recording.bin'' ''/data'' [] [] [] 30000 None None sglx_ex_gain sglx_ex_gain
   = Inl (IndexError ''list index out of range'')"
  using sglx_init_short_stem [of "''/data/recording.bin''"]
  by (simp add: path_stem_def path_name_def py_rfind_char_def first_pos_def Let_def)

text \<open>The file type of a stem \<open>a.b.c\<close> is \<open>b.c\<close>, its last two dot-separated fields, when \<open>c\<close> is not \<open>nidq\<close>.\<close>

lemma sglx_ftype_parts:
  assumes "CHR ''.'' \<notin> set b" "CHR ''.'' \<notin> set c" "c \<noteq> ''nidq''"
  shows "sglx_ftype (a @ ''.'' @ b @ ''.'' @ c) = Inr (b @ ''.'' @ c)"
proof -
  have "py_split CHR ''.'' (a @ ''.'' @ b @ ''.'' @ c) = py_split CHR ''.'' a @ [b, c]"
    using assms by (simp add: py_split_append_sep_gen py_split_no_sep)
  then show ?thesis
    using assms by (simp add: sglx_ftype_def py_nth_from_end_def nth_append)
qed

lemma sglx_ftype_parts_witness: "sglx_ftype ''run_g0_t0.imec0.ap'' = Inr ''imec0.ap''"
  using sglx_ftype_parts [of "''imec0''" "''ap''" "''run_g0_t0''"] by simp

text \<open>C24. When \<open>meta['typeThis']\<close> is neither \<open>imec\<close> nor \<open>nidq\<close>, a construction that got past the metadata raises: \<open>KeyError\<close> when the key is absent, \<open>UnboundLocalError\<close> for \<open>gains\<close> otherwise.\<close>

lemma sglx_init_gains_error:
  assumes "sglx_ftype (path_stem fp) = Inr ft"
    and "map_of files (py_joinpath cwd (path_stem fp @ ''.meta'')) = Some mtext"
    and "sglx_parse_metafile mtext xp yp = Inr (Some tot, Some ap, locs)"
    and "sglx_select (Some ap) (Some tot) raw = Inr (chs, ts)"
    and "sglx_locations chs locs = Inr ls"
    and "map_of meta ''typeThis'' \<notin> {Some ''imec'', Some ''nidq''}"
  shows "sglx_init fp cwd files meta raw rate xp yp gim gni =
         Inl (case map_of meta ''typeThis'' of None \<Rightarrow> KeyError ''typeThis'' | Some _ \<Rightarrow> UnboundLocalError ''gains'')"
  using assms by (auto simp: sglx_init_def sglx_gains_def split: option.splits)

lemma sglx_init_gains_error_witness:
  "sglx_init sglx_ex_path ''/data'' sglx_ex_files [(''typeThis'', ''obx'')] sglx_ex_raw 30000 None None
     sglx_ex_gain sglx_ex_gain = Inl (UnboundLocalError ''gains'')"
  using sglx_init_gains_error [of sglx_ex_path "''imec0.ap''" sglx_ex_files "''/data''" sglx_ex_text None None
      4 2 "[[0, 0], [21, 0], [0, 20], [21, 20]]" sglx_ex_raw "[0, 1]" "take 2 sglx_ex_raw"
      "[(0, [0, 0]), (1, [21, 0])]" "[(''typeThis'', ''obx'')]"]
  by (simp add: sglx_ex_facts sglx_select_def sglx_locations_def py_slice_nonneg upt_rec)

subsection \<open>Writing\<close>

text \<open>C25. \<open>write_recording\<close> with the default \<open>transpose=False\<close> writes the samples frame after frame (sample \<open>(c, f)\<close> at position \<open>f * nchannels + c\<close>) and with \<open>transpose=True\<close> channel after channel (at \<open>c * nframes + f\<close>), as float32 by default.\<close>

lemma sglx_write_layout:
  assumes "rectangular n m" "c < length m" "f < n"
  shows "wr_items (sglx_write_recording (Inr (Arr2 m)) None False) ! (f * length m + c)
           = np_cast (DFloat 32) (m ! c ! f)
         \<and> wr_items (sglx_write_recording (Inr (Arr2 m)) None True) ! (c * n + f)
           = np_cast (DFloat 32) (m ! c ! f)"
proof -
  have ne: "m \<noteq> []" using assms(2) by auto
  have tr: "concat (transpose m) = concat (map (\<lambda>f. map (\<lambda>r. r ! f) m) [0..<n])"
    by (simp add: transpose_rectangular [OF assms(1) ne])
  have cm: "concat m = concat (map (\<lambda>i. m ! i) [0..<length m])"
    by (simp add: map_nth)
  have rl: "\<And>i. i < length m \<Longrightarrow> length (m ! i) = n"
    using assms(1) by (rule rectangular_nth)
  have "concat (transpose m) ! (f * length m + c) = m ! c ! f"
    using assms by (simp add: tr nth_concat_blocks)
  moreover have "f * length m + c < length (concat (transpose m))"
  proof -
    have "f * length m + c < Suc f * length m" using assms(2) by simp
    also have "\<dots> \<le> n * length m" using assms(3) by (intro mult_le_mono1) simp
    finally show ?thesis by (simp add: tr length_concat_blocks)
  qed
  moreover have "concat m ! (c * n + f) = m ! c ! f"
    unfolding cm by (rule nth_concat_blocks [OF rl assms(2,3)])
  moreover have "c * n + f < length (concat m)"
  proof -
    have "c * n + f < Suc c * n" using assms(3) by simp
    also have "\<dots> \<le> length m * n" using assms(2) by (intro mult_le_mono1) simp
    finally show ?thesis unfolding cm by (simp add: length_concat_blocks rl)
  qed
  ultimately show ?thesis by (simp add: sglx_write_recording_def)
qed

lemma sglx_write_layout_witness:
  "wr_items (sglx_write_recording (Inr (Arr2 [[1, 2, 3], [4, 5, 6]])) None False) ! 5 = 6
   \<and> wr_items (sglx_write_recording (Inr (Arr2 [[1, 2, 3], [4, 5, 6]])) None True) ! 5 = 6"
  using sglx_write_layout [of 3 "[[1, 2, 3], [4, 5, 6]]" 1 2]
  by simp

lemma sglx_write_items:
  "x \<in> set (wr_items (sglx_write_recording traces dtype t)) \<Longrightarrow>
   \<exists>y. x = np_cast (case dtype of None \<Rightarrow> DFloat 32 | Some d \<Rightarrow> d) y"
  by (auto simp: sglx_write_recording_def Let_def split: sum.splits ndarray.splits if_splits)

end
