(* ===== verification/Spec2Isabelle.thy ===== *)
theory Spec2Isabelle
  imports ChunkCopy MCSH5 SpikeGLX
begin

text \<open>
  \<^bold>\<open>A verification library for spikeextractors' recording adapters.\<close>

  The repository's core (spec sections 1--4) is three format adapters under
  \<open>src/spikeextractors/extractors/\<close>. Each one opens a recording and serves the same read
  contract: \<open>get_channel_ids\<close>, \<open>get_num_frames\<close>, \<open>get_sampling_frequency\<close> and
  \<open>get_traces(channel_ids, start_frame, end_frame)\<close>. Each also has a static
  \<open>write_recording\<close>. The development models them as follows.

  \<^item> \<^bold>\<open>Prelude\<close>: Python exceptions as the datatype \<open>py_error\<close>; a fallible result
    \<open>'a py = py_error + 'a\<close> (\<open>Inl\<close> is the raised exception) with \<open>py_bind\<close> and
    \<open>py_mapM\<close> (a list comprehension whose body may raise); numpy two-dimensional arrays
    as lists of rows (\<open>'a matrix\<close>, row = channel, column = frame) with \<open>rectangular\<close>,
    \<open>np_ncols\<close> (\<open>shape[1]\<close>) and \<open>np_map\<close>; lemmas on flattening row-major and
    column-major and on \<open>transpose\<close>.
  \<^item> \<^bold>\<open>PyLists\<close>: slicing with Python's negative and clamped bounds
    (\<open>py_slice\<close>, \<open>np_cols\<close> for \<open>m[:, a:b]\<close>), \<open>list.index\<close> (\<open>py_index\<close>, raising
    \<open>ValueError\<close>), numpy fancy row indexing (\<open>np_take_rows\<close>, \<open>np_row\<close>, raising
    \<open>IndexError\<close>).
  \<^item> \<^bold>\<open>PyStrings\<close>: \<open>in\<close>, \<open>split\<close>, \<open>strip\<close>, \<open>int()\<close>, \<open>str()\<close> of an int (with the
    round trip \<open>py_int_py_str_int\<close>), which literals \<open>float()\<close> accepts, \<open>pathlib\<close>'s
    \<open>name\<close>, \<open>stem\<close>, \<open>joinpath\<close>, and \<open>readlines\<close>.
  \<^item> \<^bold>\<open>Recording\<close>: the types of the read contract (\<open>chan_arg\<close>: \<open>None\<close>, an int, or a
    list of ids; \<open>ndarray\<close>: a one- or two-dimensional result) and numpy's dtype conversion
    \<open>np_cast\<close> (floats exact, integer dtypes truncating and wrapping), and the record
    \<open>extractor_class\<close> of the class attributes each adapter declares (\<open>bindat_class\<close>,
    \<open>mcsh5_class\<close>, \<open>sglx_class\<close> in the adapters' theories); the records \<open>gui_param\<close>
    (an entry of a class's \<open>_gui_params\<close>) and \<open>py_signature\<close> (a constructor's parameter
    names and declared defaults), instantiated in each adapter's theory.
  \<^item> \<^bold>\<open>Binary\<close> models, from the specification (sections 6 and 8), the two functions of
    \<open>extraction_tools\<close> that the flat-binary adapter calls and that are not under
    \<open>src/\<close>. A file is a list of bytes (\<open>8 word\<close>). A sample layout is a record
    \<open>sample_codec\<close> (item size, encoder, decoder); \<open>int_codec\<close> is the little-endian
    two's-complement layout of the integer dtypes (\<open>le_enc\<close>, \<open>le_dec\<close>,
    \<open>le_signed\<close>), whose encode-decode round trip is \<open>np_cast\<close>. \<open>read_binary\<close>
    skips \<open>offset\<close> bytes, cuts the rest into items (\<open>chunks\<close>, a trailing partial item
    dropped) and arranges them frame-major or channel-major (\<open>read_items\<close>).
    \<open>write_to_binary_dat_format\<close> writes the whole recording, or copies it in frame
    windows of \<open>chunk_size\<close> frames with the loop \<open>dat_chunk_loop\<close>. Lemmas: the codec
    round trips, that the chunked copy writes the frames of the whole recording, and that
    \<open>read_binary\<close> reads back what the writer wrote, up to the codec.
  \<^item> \<^bold>\<open>ChunkCopy\<close> presents the same chunked copy loop as a labelled transition
    system: \<open>copy_step\<close> (one iteration: read a window, fail, or stop), labelled by the
    frame window read, and \<open>copy_run\<close> (a sequence of steps with its labels). Lemmas: the
    relation is deterministic, its end states are stuck, every state reaches the end state
    the loop function computes (by induction on the frames left), and, by rule induction
    over runs, the invariant \<open>copy_inv\<close>. Claim C11: the windows the writer reads
    and the bytes it writes.
  \<^item> \<^bold>\<open>BinDat\<close> models \<open>bindatrecordingextractor.py\<close>: record \<open>bindat\<close> (the instance
    attributes), \<open>bindat_init\<close> (\<open>__init__\<close> after its \<open>read_binary\<close> call, with the optional
    \<open>geom\<close> stored as the channels' locations), \<open>bindat_open\<close> (the whole
    constructor: \<open>read_binary\<close> then \<open>bindat_init\<close>), \<open>bindat_write_recording\<close>, the
    getters, and \<open>bindat_get_traces\<close> with its calibration \<open>bd_calibrate\<close> (unsigned
    re-centering, then the gain). \<open>bd_sample_map\<close> is the same calibration one sample at a
    time. Claims C1--C9: selection and order of rows, the frame window, the unsigned
    remap, the scalar-type bug of \<open>str(dtype)\<close>, the constructor's invariant and
    errors, and shadowed duplicate ids. Claims C29--C31: chunked writing equal to
    unchunked writing, and the write-then-open round trip for signed integer dtypes (the
    samples come back converted) and unsigned ones (they come back shifted). The
    \<open>geom\<close> loop (line 47) is recorded as the list of its
    \<open>set_channel_property(m, 'location', geom[m, :])\<close> calls, keyed by the row
    position \<open>m\<close> the code passes; whether the base class accepts \<open>m\<close> as a channel id
    is not modelled (the base class is not under \<open>src/\<close>), so no property depends on
    that store.
  \<^item> \<^bold>\<open>MCSH5\<close> models \<open>mcsh5recordingextractor.py\<close>: the HDF5 stream group as records
    (\<open>mcs_stream\<close>, \<open>info_channel\<close>), \<open>open_mcsh5_file\<close> (\<open>openMCSH5File\<close>) with every
    assertion in the code's order, including the time-step check \<open>mcs_timestep_check\<close>;
    its verbose report \<open>mcs_verbose_report\<close> (each \<open>print\<close> call as its format string
    and the values formatted) and the whole function with its \<open>verbose\<close> flag,
    \<open>open_mcsh5_file_verbose\<close>; then \<open>mcsh5_init\<close>, \<open>mcsh5_del\<close>, the getters,
    \<open>mcsh5_get_traces\<close> and \<open>mcsh5_write_recording\<close>. Claims C10 and C12--C15: the opening function on every branch,
    the constructor's state, the \<open>UnboundLocalError\<close> of \<open>get_traces()\<close>, and reads by id list.
    The constructor's error branches and reads by one id are lemmas.
  \<^item> \<^bold>\<open>SpikeGLX\<close> models \<open>spikeglxrecordingextractor.py\<close>: the metadata parser
    \<open>_parse_spikeglx_metafile\<close> line by line (\<open>sglx_parse_line\<close>, \<open>sglx_parse_lines\<close>,
    \<open>sglx_chans\<close>, \<open>sglx_parse_metafile\<close>); the constructor \<open>sglx_init\<close>, split into file
    type \<open>sglx_ftype\<close>, channel subset \<open>sglx_select\<close>, locations \<open>sglx_locations\<close> and gains
    \<open>sglx_gains\<close>; the getters, \<open>sglx_get_traces\<close> and \<open>sglx_write_recording\<close> (record
    \<open>write_result\<close>: the file's content and the outcome). Claims C16, C17, C19 and C22--C25: the parser's
    round trip on a metadata text in SpikeGLX's format, the constructor's result and
    its error paths, the requested row order of \<open>get_traces\<close>, and the writer's two
    layouts. \<open>set_channel_gains(channel_ids, gains)\<close> is stored as the pairs of
    \<open>zip\<close>: the code always passes lists of equal length (both have \<open>ap\<close> entries
    under the invariant \<open>sglx_wf\<close>), so the truncation of \<open>zip\<close> never applies.
  \<^item> This theory states the read contract once, as the record \<open>recording_view\<close>, and
    maps each adapter to it (\<open>bindat_view\<close>, \<open>mcsh5_view\<close>, \<open>sglx_view\<close>). Over the view
    it defines three contract properties: \<open>reads_requested_rows\<close> (a subset read is the
    full read's rows in the requested order), \<open>default_reads_all\<close> (the default read
    equals reading every id), \<open>traces_shape\<close> (a read that returns has one row per
    requested id and one column per frame of the window) and \<open>reads_normalised\<close> (frame
    bounds act as Python slice bounds). The generic lemma \<open>reads_requested_rows_by_rows\<close> reduces the
    first property to one row lemma per adapter. Claims C26--C28 compare the adapters and
    compose the vendor-binary writer with the flat-binary reads; C18 is the slice
    semantics of the frame bounds of all three adapters; C20 composes the vendor-binary
    writer with the flat-binary constructor (\<open>bindat_view_of_sglx\<close>: the reopened file
    reads exactly like the vendor recording); C21 is the shape contract for all three
    adapters. The class attributes (\<open>extractor_class\<close>) and GUI descriptors are
    transcribed data: no claim is stated over them.

  \<^bold>\<open>State and effects.\<close> Each adapter's state is a record built by its constructor and
  read by the getters; no operation mutates it after construction (\<open>__del__\<close> only closes
  the file). Exceptions are the \<open>Inl\<close> branch of every fallible operation, in the order
  the code raises them. The file system is explicit where a property depends on it: the
  SpikeGLX constructor looks its metadata file up in an association list from paths to
  texts, with the process's working directory as an argument. The writer's effect on the
  target file is its content, and the file is emptied even when reading fails.

  \<^bold>\<open>Abstractions.\<close> Samples are exact reals: float32 and float64 rounding are not
  modelled, integer dtypes are (to the byte, in Binary). \<open>np_cast\<close> to an integer dtype
  truncates towards zero and wraps modulo \<open>2^w\<close>. NumPy leaves the cast of a float outside
  the dtype's range implementation-defined; the wrap is one such behaviour, and what C30
  says of such values holds for it only. The writer's \<open>dtype\<close> is a numpy dtype in the
  model: \<open>write_to_binary_dat_format(..., dtype=None)\<close>, which keeps the recording's
  own dtype, is not a case of it. The byte layout of a float dtype is
  the codec parameter of the Binary lemmas, which hold for any layout of fixed item size.
  Results of code outside \<open>src/\<close> and not in the specification are inputs of the
  constructors: the metadata dictionary, raw map, rate and gain formulas of
  \<open>readSGLX\<close>, and the content of the HDF5 group. The one loop that is not structural
  recursion is the chunked copy \<open>dat_chunk_loop\<close>, a \<open>function\<close> that ends by the measure
  \<open>n - i\<close> (frames left to copy) for every chunk size, \<open>0\<close> included, so no fuel is
  needed; its step relation in ChunkCopy has no bound either, its liveness being proved by
  the same measure; every definition is total and executable, and the witnesses evaluate them by
  \<open>simp\<close>.

  \<^bold>\<open>Not modelled.\<close> The IEEE-754 bit layout of float32 and float64 (the Binary lemmas
  are stated over any codec instead); chunked writing with \<open>time_axis=1\<close>, for which the
  specification does not say how the windows are laid out (\<open>dat_chunk_loop\<close> is the
  frame-major copy only, and the claims on chunked writing assume \<open>time_axis=0\<close>); \<open>readSGLX\<close>, the base
  class's channel-property storage (kept as lists of pairs in the SpikeGLX and BinDat
  states), and the rendering of numbers by \<open>str.format\<close> in the verbose report (its
  format strings and arguments are modelled). No property
  of this program is about interleaving or concurrency: every operation runs to
  completion in one call, and the only loop with progress to prove is the chunked copy.
\<close>

section \<open>The read contract shared by the adapters\<close>

text \<open>What a caller sees of a recording (spec section 4.1): the ids, the frame count, the
  rate, and \<open>get_traces\<close> with \<open>None\<close> or a list of ids, returning a two-dimensional array.\<close>

record recording_view =
  rv_channel_ids :: "int list"
  rv_num_frames :: nat
  rv_sampling_frequency :: real
  rv_get_traces :: "int list option \<Rightarrow> int option \<Rightarrow> int option \<Rightarrow> real matrix py"

definition chan_arg_of :: "int list option \<Rightarrow> chan_arg" where
  "chan_arg_of cs = (case cs of None \<Rightarrow> AllChannels | Some l \<Rightarrow> ChannelList l)"

text \<open>The two-dimensional view of a numpy result.\<close>

fun nd_matrix :: "ndarray \<Rightarrow> real matrix" where
  "nd_matrix (Arr1 v) = [v]"
| "nd_matrix (Arr2 m) = m"

text \<open>Each adapter's read contract: its getters, with its samples as reals (SpikeGLX's int16 samples converted exactly).\<close>

definition bindat_view :: "bindat \<Rightarrow> recording_view" where
  "bindat_view s =
     \<lparr>rv_channel_ids = bindat_get_channel_ids s, rv_num_frames = bindat_get_num_frames s,
      rv_sampling_frequency = bindat_get_sampling_frequency s,
      rv_get_traces = (\<lambda>cs a b. bindat_get_traces s (chan_arg_of cs) a b)\<rparr>"

definition mcsh5_view :: "mcsh5 \<Rightarrow> recording_view" where
  "mcsh5_view s =
     \<lparr>rv_channel_ids = mcsh5_get_channel_ids s, rv_num_frames = mcsh5_get_num_frames s,
      rv_sampling_frequency = mcsh5_get_sampling_frequency s,
      rv_get_traces = (\<lambda>cs a b. map_sum id nd_matrix (mcsh5_get_traces s (chan_arg_of cs) a b))\<rparr>"

definition sglx_view :: "spikeglx \<Rightarrow> recording_view" where
  "sglx_view s =
     \<lparr>rv_channel_ids = sglx_get_channel_ids s, rv_num_frames = sglx_get_num_frames s,
      rv_sampling_frequency = sglx_get_sampling_frequency s,
      rv_get_traces = (\<lambda>cs a b. map_sum id (np_map real_of_int) (sglx_get_traces s (chan_arg_of cs) a b))\<rparr>"

text \<open>A subset read returns the rows of the read of all ids, in the requested order.\<close>

definition reads_requested_rows :: "recording_view \<Rightarrow> int list \<Rightarrow> int option \<Rightarrow> int option \<Rightarrow> bool" where
  "reads_requested_rows v cs a b \<longleftrightarrow>
     rv_get_traces v (Some cs) a b =
     map_sum id (\<lambda>full. map (\<lambda>c. full ! first_pos (rv_channel_ids v) c) cs)
       (rv_get_traces v (Some (rv_channel_ids v)) a b)"

text \<open>Reading with the default \<open>channel_ids=None\<close> is reading every id explicitly.\<close>

definition default_reads_all :: "recording_view \<Rightarrow> bool" where
  "default_reads_all v \<longleftrightarrow>
     rv_get_traces v None None None = rv_get_traces v (Some (rv_channel_ids v)) None None"

text \<open>The shape a read of frames \<open>a .. b-1\<close> promises (spec section 8): one row per
  requested id (every id by default) and \<open>b - a\<close> columns, whenever it returns.\<close>

definition traces_shape :: "recording_view \<Rightarrow> int list option \<Rightarrow> int \<Rightarrow> int \<Rightarrow> bool" where
  "traces_shape v cs a b \<longleftrightarrow>
     (case rv_get_traces v cs (Some a) (Some b) of
        Inl _ \<Rightarrow> True
      | Inr m \<Rightarrow> length m = length (case cs of None \<Rightarrow> rv_channel_ids v | Some l \<Rightarrow> l)
                 \<and> rectangular (nat (b - a)) m)"

text \<open>Frame bounds are read as Python slices read them: a read with bounds \<open>a\<close> and
  \<open>b\<close> is the read with their normalised values (a negative bound counts from the end,
  a bound past the end is the end).\<close>

definition reads_normalised :: "recording_view \<Rightarrow> int list option \<Rightarrow> int \<Rightarrow> int \<Rightarrow> bool" where
  "reads_normalised v cs a b \<longleftrightarrow>
     rv_get_traces v cs (Some a) (Some b)
     = rv_get_traces v cs (Some (int (py_slice_bound a (rv_num_frames v))))
                          (Some (int (py_slice_bound b (rv_num_frames v))))"

section \<open>Lemmas\<close>

text \<open>An adapter whose subset reads pick rows of one row function, by the position of the id, satisfies \<open>reads_requested_rows\<close>; failures shared by all reads are kept.\<close>

lemma reads_requested_rows_by_rows:
  assumes rows: "\<And>ds. set ds \<subseteq> set (rv_channel_ids v) \<Longrightarrow>
                   rv_get_traces v (Some ds) a b = map_sum id (\<lambda>R. map (\<lambda>c. R (first_pos (rv_channel_ids v) c)) ds) X"
      and cs: "set cs \<subseteq> set (rv_channel_ids v)"
  shows "reads_requested_rows v cs a b"
proof (cases X)
  case (Inl e)
  then show ?thesis
    using rows [OF cs] rows [of "rv_channel_ids v"] by (simp add: reads_requested_rows_def)
next
  case (Inr R)
  let ?ids = "rv_channel_ids v"
  have eq: "map (\<lambda>c. map (\<lambda>c. R (first_pos ?ids c)) ?ids ! first_pos ?ids c) cs
            = map (\<lambda>c. R (first_pos ?ids c)) cs"
    using cs by (auto simp: first_pos_bound nth_first_pos)
  show ?thesis
    unfolding reads_requested_rows_def rows [OF cs] rows [of ?ids, simplified] Inr
    using eq by simp
qed

lemma bd_traces_rows:
  assumes "bindat_wf s" "set cs \<subseteq> set (bindat_get_channel_ids s)"
  shows "bindat_get_traces s (ChannelList cs) sf ef =
         map_sum id (\<lambda>R. map (\<lambda>c. R (first_pos (bindat_get_channel_ids s) c)) cs)
           (map_sum id (\<lambda>f i. map f (py_slice (fst (bd_range s sf ef)) (snd (bd_range s sf ef)) (bd_timeseries s ! i)))
              (bd_sample_map s))"
proof (cases "bd_sample_map s")
  case (Inl e)
  have sub: "set cs \<subseteq> set (bd_channels s)"
    using assms(2) by (simp add: bindat_get_channel_ids_def)
  have "np_take_rows (np_cols x y (bd_timeseries s)) (map int (map (first_pos (bd_channels s)) cs))
        = Inr (map (\<lambda>i. np_cols x y (bd_timeseries s) ! i) (map (first_pos (bd_channels s)) cs))" for x y
    using bd_channel_rows(2) [OF assms(1) sub] by (intro np_take_rows_nat) (simp add: np_cols_def)
  then show ?thesis
    using Inl bd_channel_rows(1) [OF assms(1) sub]
    by (simp add: bindat_get_traces_def Let_def bd_calibrate_eq)
next
  case (Inr f)
  then show ?thesis
    using bd_traces_selected [OF assms Inr, of sf ef "fst (bd_range s sf ef)" "snd (bd_range s sf ef)"]
    by simp
qed

lemma bd_traces_all_rows:
  assumes "bindat_wf s"
  shows "bindat_get_traces s AllChannels sf ef =
         map_sum id (\<lambda>R. map R [0..<length (bd_timeseries s)])
           (map_sum id (\<lambda>f i. map f (py_slice (fst (bd_range s sf ef)) (snd (bd_range s sf ef)) (bd_timeseries s ! i)))
              (bd_sample_map s))"
proof -
  have "np_cols x y (bd_timeseries s) = map (\<lambda>i. py_slice x y (bd_timeseries s ! i)) [0..<length (bd_timeseries s)]" for x y
    by (simp add: np_cols_def map_upt_nth)
  then show ?thesis
    using bd_all_rows [OF assms]
    by (cases "bd_sample_map s") (simp_all add: bindat_get_traces_def Let_def bd_calibrate_eq bd_range_def np_map_def)
qed

lemma bindat_reads_requested_rows:
  assumes "bindat_wf s" "set cs \<subseteq> set (bindat_get_channel_ids s)"
  shows "reads_requested_rows (bindat_view s) cs a b"
proof (rule reads_requested_rows_by_rows)
  fix ds assume "set ds \<subseteq> set (rv_channel_ids (bindat_view s))"
  then show "rv_get_traces (bindat_view s) (Some ds) a b =
    map_sum id (\<lambda>R. map (\<lambda>c. R (first_pos (rv_channel_ids (bindat_view s)) c)) ds)
      (map_sum id (\<lambda>f i. map f (py_slice (fst (bd_range s a b)) (snd (bd_range s a b)) (bd_timeseries s ! i)))
         (bd_sample_map s))"
    using bd_traces_rows [OF assms(1)] by (simp add: bindat_view_def chan_arg_of_def)
next
  show "set cs \<subseteq> set (rv_channel_ids (bindat_view s))"
    using assms(2) by (simp add: bindat_view_def)
qed

lemma mcsh5_reads_requested_rows:
  assumes "mcsh5_wf s" "set cs \<subseteq> set (mcsh5_get_channel_ids s)"
  shows "reads_requested_rows (mcsh5_view s) cs a b"
proof (rule reads_requested_rows_by_rows)
  fix ds assume "set ds \<subseteq> set (rv_channel_ids (mcsh5_view s))"
  then have "set ds \<subseteq> set (mcsh5_get_channel_ids s)" by (simp add: mcsh5_view_def)
  then show "rv_get_traces (mcsh5_view s) (Some ds) a b =
    map_sum id (\<lambda>R. map (\<lambda>c. R (first_pos (rv_channel_ids (mcsh5_view s)) c)) ds)
      (Inr (\<lambda>i. py_slice (fst (frame_range (mcsh5_get_num_frames s) a b))
                          (snd (frame_range (mcsh5_get_num_frames s) a b))
                          (map (mcs_calib s) (ms_ChannelData (mc_rf s) ! i))))"
    using mcs_traces_selected [OF assms(1), where cs = ds and start_frame = a and end_frame = b
        and a = "fst (frame_range (mcsh5_get_num_frames s) a b)" and b = "snd (frame_range (mcsh5_get_num_frames s) a b)"]
    by (simp add: mcsh5_view_def chan_arg_of_def)
next
  show "set cs \<subseteq> set (rv_channel_ids (mcsh5_view s))"
    using assms(2) by (simp add: mcsh5_view_def)
qed

lemma sglx_reads_requested_rows:
  assumes "sglx_wf s" "set cs \<subseteq> set (sglx_get_channel_ids s)"
  shows "reads_requested_rows (sglx_view s) cs a b"
proof (rule reads_requested_rows_by_rows)
  fix ds assume "set ds \<subseteq> set (rv_channel_ids (sglx_view s))"
  then have ds: "set ds \<subseteq> set (sg_channels s)" by (simp add: sglx_view_def sglx_get_channel_ids_def)
  have fp: "first_pos (sg_channels s) c = nat c" if "c \<in> set ds" for c
    using assms(1) ds that by (auto simp: sglx_wf_def first_pos_upto)
  show "rv_get_traces (sglx_view s) (Some ds) a b =
    map_sum id (\<lambda>R. map (\<lambda>c. R (first_pos (rv_channel_ids (sglx_view s)) c)) ds)
      (Inr (\<lambda>i. map real_of_int (py_slice (fst (frame_range (sglx_get_num_frames s) a b))
                          (snd (frame_range (sglx_get_num_frames s) a b)) (sg_timeseries s ! i))))"
  proof -
    have "sglx_get_traces s (ChannelList ds) a b =
          Inr (map (\<lambda>c. py_slice (fst (frame_range (sglx_get_num_frames s) a b))
                          (snd (frame_range (sglx_get_num_frames s) a b)) (sg_timeseries s ! nat c)) ds)"
      by (rule sglx_traces_selected [OF assms(1) ds]) simp
    moreover have "map (\<lambda>c. map real_of_int (py_slice (fst (frame_range (sglx_get_num_frames s) a b))
                          (snd (frame_range (sglx_get_num_frames s) a b)) (sg_timeseries s ! nat c))) ds
                 = map (\<lambda>c. map real_of_int (py_slice (fst (frame_range (sglx_get_num_frames s) a b))
                          (snd (frame_range (sglx_get_num_frames s) a b))
                          (sg_timeseries s ! first_pos (sg_channels s) c))) ds"
      using fp by simp
    ultimately show ?thesis
      by (simp add: sglx_view_def chan_arg_of_def sglx_get_channel_ids_def np_map_def)
  qed
next
  show "set cs \<subseteq> set (rv_channel_ids (sglx_view s))"
    using assms(2) by (simp add: sglx_view_def)
qed

lemma bindat_default_reads_all:
  assumes "bindat_wf s" "distinct (bindat_get_channel_ids s)"
  shows "default_reads_all (bindat_view s)"
proof -
  let ?ids = "bindat_get_channel_ids s"
  have len: "length ?ids = length (bd_timeseries s)"
    using assms(1) by (simp add: bindat_wf_def bindat_get_channel_ids_def)
  have "map (\<lambda>c. R (first_pos ?ids c)) ?ids = map R [0..<length (bd_timeseries s)]" for R :: "nat \<Rightarrow> real list"
  proof -
    have "map (\<lambda>c. R (first_pos ?ids c)) ?ids = map (\<lambda>i. R (first_pos ?ids (?ids ! i))) [0..<length ?ids]"
      using map_upt_nth [of "\<lambda>c. R (first_pos ?ids c)" ?ids] by simp
    also have "\<dots> = map R [0..<length ?ids]"
      using assms(2) by (simp add: first_pos_nth_distinct)
    finally show ?thesis using len by simp
  qed
  then show ?thesis
    using bd_traces_rows [OF assms(1), of ?ids None None] bd_traces_all_rows [OF assms(1), of None None]
    by (cases "bd_sample_map s") (simp_all add: default_reads_all_def bindat_view_def chan_arg_of_def)
qed

lemma sglx_default_reads_all:
  assumes "sglx_wf s"
  shows "default_reads_all (sglx_view s)"
proof -
  let ?n = "length (sg_timeseries s)"
  have ids: "sg_channels s = map int [0..<?n]" using assms by (simp add: sglx_wf_def)
  have "sglx_get_traces s (ChannelList (sg_channels s)) None None
        = Inr (map (\<lambda>c. py_slice 0 (int (sglx_get_num_frames s)) (sg_timeseries s ! nat c)) (sg_channels s))"
    by (rule sglx_traces_selected [OF assms]) (simp_all add: frame_range_def)
  moreover have "map (\<lambda>c. py_slice 0 (int (sglx_get_num_frames s)) (sg_timeseries s ! nat c)) (sg_channels s)
                 = np_cols 0 (int (sglx_get_num_frames s)) (sg_timeseries s)"
    unfolding ids np_cols_def by (simp add: comp_def map_upt_nth)
  moreover have "np_take_rows (sg_timeseries s) (map int [0..<?n]) = Inr (sg_timeseries s)"
    using np_take_rows_nat [of "[0..<?n]" "sg_timeseries s"] by (simp add: map_nth)
  then have "sglx_get_traces s AllChannels None None
             = Inr (np_cols 0 (int (sglx_get_num_frames s)) (sg_timeseries s))"
    by (simp add: sglx_get_traces_def)
  ultimately show ?thesis
    by (simp add: default_reads_all_def sglx_view_def chan_arg_of_def sglx_get_channel_ids_def)
qed

lemma mcsh5_default_fails:
  assumes "mcsh5_wf s"
  shows "\<not> default_reads_all (mcsh5_view s)"
proof -
  have "\<exists>m. mcsh5_get_traces s (ChannelList (mcsh5_get_channel_ids s)) None None = Inr m"
    using mcs_traces_selected [OF assms, of "mcsh5_get_channel_ids s" None None
        0 "int (mcsh5_get_num_frames s)"] by (simp add: frame_range_def)
  then show ?thesis
    by (auto simp: default_reads_all_def mcsh5_view_def chan_arg_of_def mcsh5_get_traces_def)
qed

text \<open>Every read of a well-formed adapter that returns has the promised shape: the
  selected rows (\<open>np_take_rows\<close>) are rows of the stored array, so slicing their
  frames gives \<open>b - a\<close> columns, and the ids are looked up one by one.\<close>

lemma bindat_traces_shape:
  assumes wf: "bindat_wf s" and ab: "0 \<le> a" "a \<le> b" "b \<le> int (bindat_get_num_frames s)"
  shows "traces_shape (bindat_view s) cs a b"
proof -
  have rect: "rectangular (bindat_get_num_frames s) (bd_timeseries s)"
    using wf by (simp add: bindat_wf_def bindat_get_num_frames_def)
  have sh: "length r = length idx \<and> rectangular (nat (b - a)) r"
    if "np_take_rows (np_cols a b (bd_timeseries s)) idx = Inr r" for idx r
    using np_take_rows_Inr [OF that] np_cols_shape [OF rect ab] rectangular_subset by blast
  show ?thesis
    using wf sh
    by (cases cs) (auto simp: traces_shape_def bindat_view_def chan_arg_of_def bindat_get_traces_def
        bd_calibrate_eq bindat_wf_def bindat_get_channel_ids_def map_sum_eq_Inr_iff dest: py_mapM_length
        split: sum.splits)
qed

lemma mcsh5_traces_shape:
  assumes wf: "mcsh5_wf s" and ab: "0 \<le> a" "a \<le> b" "b \<le> int (mcsh5_get_num_frames s)"
  shows "traces_shape (mcsh5_view s) cs a b"
proof -
  have rect: "rectangular (mcsh5_get_num_frames s) (mcs_data_V s)"
    using wf by (simp add: mcsh5_wf_def mcsh5_get_num_frames_def mcs_data_V_def)
  show ?thesis
    using take_rows_cols_shape [OF _ rect ab]
    by (cases cs) (auto simp: traces_shape_def mcsh5_view_def chan_arg_of_def mcsh5_get_traces_def
        map_sum_eq_Inr_iff split: sum.splits, metis py_mapM_length)
qed

lemma sglx_traces_shape:
  assumes wf: "sglx_wf s" and ab: "0 \<le> a" "a \<le> b" "b \<le> int (sglx_get_num_frames s)"
  shows "traces_shape (sglx_view s) cs a b"
proof -
  have rect: "rectangular (sglx_get_num_frames s) (sg_timeseries s)"
    using wf by (simp add: sglx_wf_def sglx_get_num_frames_def)
  show ?thesis
    using take_rows_cols_shape [OF _ rect ab] wf
    by (cases cs) (auto simp: traces_shape_def sglx_view_def chan_arg_of_def sglx_get_traces_def
        sglx_wf_def sglx_get_channel_ids_def map_sum_eq_Inr_iff dest: py_mapM_length split: sum.splits)
qed

text \<open>The writers' outcomes, as the class attributes \<open>is_writable\<close> and \<open>installed\<close>
  describe them.\<close>

lemma bindat_write_whole:
  assumes "bindat_wf s" "bd_sample_map s = Inr f"
  shows "bindat_write_recording (bd_reader s) n codec t None
         = Inr (encode_items codec (dat_items t (np_map f (bd_timeseries s))))"
  using bd_traces_all [OF assms]
  by (simp add: bindat_write_recording_def write_to_binary_dat_format_def bd_reader_def)

lemma sglx_write_readable: "wr_status (sglx_write_recording (Inr x) dt t) = Inr ()"
  by (cases x) (simp_all add: sglx_write_recording_def Let_def)

text \<open>A well-formed vendor recording and the flat-binary adapter over the same samples
  (as reals, dtype \<open>int16\<close>, no gain, default ids) answer every read alike.\<close>

lemma bindat_view_of_sglx:
  assumes wf: "sglx_wf s"
  shows "bindat_view \<lparr>bd_frame_first = True, bd_dtype = ''int16'',
                       bd_timeseries = np_map real_of_int (sg_timeseries s),
                       bd_samplerate = sglx_get_sampling_frequency s, bd_gain = None,
                       bd_channels = map int [0..<length (sg_timeseries s)], bd_locations = []\<rparr>
         = sglx_view s"
proof -
  have ids: "sg_channels s = map int [0..<length (sg_timeseries s)]" using wf by (simp add: sglx_wf_def)
  have cal: "bd_calibrate t = Inr" if "bd_dtype t = ''int16''" "bd_gain t = None" for t :: bindat
    using that by (intro ext) (simp add: bd_calibrate_eq bd_sample_map_def py_startswith_def)
  show ?thesis
    unfolding bindat_view_def sglx_view_def
    by (auto simp: fun_eq_iff bindat_get_channel_ids_def sglx_get_channel_ids_def bindat_get_num_frames_def
        sglx_get_num_frames_def bindat_get_sampling_frequency_def bindat_get_traces_def sglx_get_traces_def
        Let_def ids cal map_sum_py_bind np_take_rows_cols np_take_rows_np_map
        np_cols_np_map chan_arg_of_def split: option.splits sum.splits)
qed

section \<open>Properties across the adapters\<close>

text \<open>C26. All three adapters return the requested rows in the requested order: on well-formed states, a read of a list of known ids is the read of all ids with its rows picked by the position of each requested id. This holds for the vendor-binary adapter too, which the specification (section 4.1) says keeps its internal row order.\<close>

theorem adapters_read_requested_rows:
  assumes "bindat_wf s1" "set cs1 \<subseteq> set (bindat_get_channel_ids s1)"
      and "mcsh5_wf s2" "set cs2 \<subseteq> set (mcsh5_get_channel_ids s2)"
      and "sglx_wf s3" "set cs3 \<subseteq> set (sglx_get_channel_ids s3)"
  shows "reads_requested_rows (bindat_view s1) cs1 a b \<and> reads_requested_rows (mcsh5_view s2) cs2 a b
         \<and> reads_requested_rows (sglx_view s3) cs3 a b"
  using bindat_reads_requested_rows [OF assms(1,2)] mcsh5_reads_requested_rows [OF assms(3,4)]
    sglx_reads_requested_rows [OF assms(5,6)] by blast

theorem adapters_read_requested_rows_witness:
  "reads_requested_rows (bindat_view bd_ex) [20, 10] None None
   \<and> reads_requested_rows (mcsh5_view mcs_ex) [8, 3] None None
   \<and> reads_requested_rows (sglx_view sglx_ex_state) [1, 0] None None"
  by (rule adapters_read_requested_rows [OF bd_ex_facts(1) _ mcs_ex_wf(1) _ _])
    (simp_all add: bd_ex_def bindat_get_channel_ids_def mcs_ex_def mcsh5_get_channel_ids_def
      sglx_ex_state_def sglx_get_channel_ids_def sglx_wf_def np_ncols_def)

text \<open>C27. The default read \<open>get_traces()\<close> equals the read of every id for the flat-binary adapter with distinct ids and for the vendor-binary adapter, but never for the HDF5 adapter, whose default read raises while the explicit read succeeds.\<close>

theorem default_read_all_channels:
  assumes "bindat_wf s1" "distinct (bindat_get_channel_ids s1)" "sglx_wf s3" "mcsh5_wf s2"
  shows "default_reads_all (bindat_view s1) \<and> default_reads_all (sglx_view s3)
         \<and> \<not> default_reads_all (mcsh5_view s2)"
  using bindat_default_reads_all [OF assms(1,2)] sglx_default_reads_all [OF assms(3)]
    mcsh5_default_fails [OF assms(4)] by blast

theorem default_read_all_channels_witness:
  "default_reads_all (bindat_view bd_ex) \<and> default_reads_all (sglx_view sglx_ex_state)
   \<and> \<not> default_reads_all (mcsh5_view mcs_ex)"
  by (rule default_read_all_channels [OF bd_ex_facts(1) _ _ mcs_ex_wf(1)])
    (simp_all add: bd_ex_def bindat_get_channel_ids_def sglx_ex_state_def sglx_wf_def np_ncols_def)

text \<open>C28. Writing a flat-binary recording with the vendor-binary writer and \<open>transpose=True\<close> stores its calibrated samples channel after channel.\<close>

theorem sglx_writer_on_bindat:
  assumes "bindat_wf s" "bd_sample_map s = Inr f"
  shows "sglx_write_recording (map_sum id Arr2 (bindat_get_traces s AllChannels None None)) None True
         = \<lparr>wr_items = concat (np_map f (bd_timeseries s)), wr_status = Inr ()\<rparr>"
  using bd_traces_all [OF assms] by (simp add: sglx_write_recording_def)

theorem sglx_writer_on_bindat_witness:
  "sglx_write_recording (map_sum id Arr2 (bindat_get_traces bd_ex AllChannels None None)) None True
   = \<lparr>wr_items = [2, 4, 6, 8, 10, 12], wr_status = Inr ()\<rparr>"
  using sglx_writer_on_bindat [OF bd_ex_facts(1,2)] by (simp add: bd_ex_def np_map_def)

text \<open>C21. Every read of frames \<open>a .. b-1\<close>, with \<open>0 <= a <= b <= num_frames\<close>, that returns
  has the shape the specification promises (section 8): one row per requested id (per
  channel for \<open>get_traces()\<close>) and \<open>b - a\<close> columns, for all three adapters and every
  argument.\<close>

theorem adapters_traces_shape:
  assumes "bindat_wf s1" "mcsh5_wf s2" "sglx_wf s3" "0 \<le> a" "a \<le> b"
      and "b \<le> int (bindat_get_num_frames s1)" "b \<le> int (mcsh5_get_num_frames s2)"
      and "b \<le> int (sglx_get_num_frames s3)"
  shows "traces_shape (bindat_view s1) cs1 a b \<and> traces_shape (mcsh5_view s2) cs2 a b
         \<and> traces_shape (sglx_view s3) cs3 a b"
  using bindat_traces_shape [OF assms(1,4,5,6)] mcsh5_traces_shape [OF assms(2,4,5,7)]
    sglx_traces_shape [OF assms(3,4,5,8)] by blast

theorem adapters_traces_shape_witness:
  "traces_shape (bindat_view bd_ex) (Some [20, 10]) 1 3 \<and> traces_shape (mcsh5_view mcs_ex) (Some [8, 3]) 1 3
   \<and> traces_shape (sglx_view sglx_ex_state) None 1 3"
  by (rule adapters_traces_shape [OF bd_ex_facts(1) mcs_ex_wf(1)])
    (simp_all add: sglx_ex_state_def sglx_wf_def np_ncols_def sglx_get_num_frames_def bd_ex_def
      bindat_get_num_frames_def mcs_ex_def mcsh5_get_num_frames_def)

text \<open>C18. Boundary frame arguments: all three adapters read frame bounds as Python
  slices do, for every channel argument. A negative bound counts from the end and a
  bound past the end stops at the end, so \<open>get_traces(start_frame=-k)\<close> returns the last
  \<open>k\<close> frames. The specification (section 4.1) says the bounds have no wraparound.\<close>

theorem adapters_frame_bounds:
  assumes "bindat_wf s1" "mcsh5_wf s2" "sglx_wf s3"
  shows "reads_normalised (bindat_view s1) cs1 a b \<and> reads_normalised (mcsh5_view s2) cs2 a b
         \<and> reads_normalised (sglx_view s3) cs3 a b"
  using bindat_traces_normal [OF assms(1)] mcsh5_traces_normal [OF assms(2)] sglx_traces_normal [OF assms(3)]
  by (simp add: reads_normalised_def bindat_view_def mcsh5_view_def sglx_view_def)

theorem adapters_frame_bounds_witness:
  "reads_normalised (bindat_view bd_ex) (Some [20, 10]) (-2) 10
   \<and> reads_normalised (mcsh5_view mcs_ex) (Some [8, 3]) (-2) 10
   \<and> reads_normalised (sglx_view sglx_ex_state) None (-2) 10"
  by (rule adapters_frame_bounds [OF bd_ex_facts(1) mcs_ex_wf(1)])
    (simp add: sglx_ex_state_def sglx_wf_def np_ncols_def)

text \<open>C20. A vendor-binary recording saved by its own \<open>write_recording\<close> with
  \<open>dtype=np.int16\<close> (frame after frame, the default) opens with the flat-binary adapter.
  The file is opened as \<open>int16\<close>, with one channel per saved row and frames first. When
  every sample is in the int16 range, the reopened adapter is indistinguishable from the
  original through the read contract: same ids, frame count, rate and reads.\<close>

theorem sglx_file_opens_with_bindat:
  assumes wf: "sglx_wf s" and ne: "sg_timeseries s \<noteq> []"
      and range: "\<And>r x. r \<in> set (sg_timeseries s) \<Longrightarrow> x \<in> set r \<Longrightarrow> - 32768 \<le> x \<and> x < 32768"
  shows "\<exists>s'. bindat_open (int_codec True 2)
                (encode_items (int_codec True 2)
                   (wr_items (sglx_write_recording (map_sum id Arr2 (rv_get_traces (sglx_view s) None None None))
                                (Some (DInt 16)) False)))
                (sglx_get_sampling_frequency s) (length (sglx_get_channel_ids s)) (DtName ''int16'')
                None True None 0 None = Inr s'
             \<and> bindat_view s' = sglx_view s"
proof -
  let ?M = "np_map real_of_int (sg_timeseries s)"
  have rd: "rv_get_traces (sglx_view s) None None None = Inr ?M"
    using sglx_get_traces_raw [OF wf] by (simp add: sglx_view_def chan_arg_of_def)
  have cast: "np_map (np_cast (DInt 16)) ?M = ?M"
  proof -
    have "np_cast (DInt 16) (real_of_int x) = real_of_int x" if "r \<in> set (sg_timeseries s)" "x \<in> set r" for r x
      using range [OF that] by (intro np_cast_DInt_of_int) simp_all
    then show ?thesis by (auto simp: np_map_def intro!: map_idI)
  qed
  have items: "wr_items (sglx_write_recording (Inr (Arr2 ?M)) (Some (DInt 16)) False) = dat_items 0 ?M"
  proof -
    have "map (np_cast (DInt 16)) (concat (transpose ?M)) = concat (transpose (np_map (np_cast (DInt 16)) ?M))"
      by (simp add: np_map_def map_concat transpose_map_map)
    then show ?thesis using cast by (simp add: sglx_write_recording_def dat_items_def)
  qed
  have rect: "rectangular (sglx_get_num_frames s) ?M"
    using wf by (simp add: sglx_wf_def sglx_get_num_frames_def)
  have len: "length (sglx_get_channel_ids s) = length ?M"
    using wf by (simp add: sglx_wf_def sglx_get_channel_ids_def)
  have dec: "sc_dec (int_codec True 2) \<circ> sc_enc (int_codec True 2) = np_cast (DInt 16)"
    using int_codec_roundtrip(1) [of 2] by (simp add: fun_eq_iff)
  have sz: "0 < sc_size (int_codec True 2)" by (simp add: int_codec_def)
  show ?thesis
    using bindat_open_encoded [OF rect _ int_codec_sizes sz, of "sglx_get_sampling_frequency s" "DtName ''int16''"]
      ne rd items len dec cast bindat_view_of_sglx [OF wf]
    by simp
qed

theorem sglx_file_opens_with_bindat_witness:
  "\<exists>s'. bindat_open (int_codec True 2)
          (encode_items (int_codec True 2)
             (wr_items (sglx_write_recording (map_sum id Arr2 (rv_get_traces (sglx_view sglx_ex_state) None None None))
                          (Some (DInt 16)) False)))
          (sglx_get_sampling_frequency sglx_ex_state) (length (sglx_get_channel_ids sglx_ex_state)) (DtName ''int16'')
          None True None 0 None = Inr s'
       \<and> bindat_view s' = sglx_view sglx_ex_state"
  by (rule sglx_file_opens_with_bindat) (auto simp: sglx_ex_state_def sglx_wf_def np_ncols_def)

end
